theory Spec2Isabelle
  imports Complex_Main "HOL-Library.Sublist"
begin

section \<open>Exceptions\<close>

text \<open>
  The adapters of the repository are Python functions that either return a dictionary or
  let an exception escape. An exception is a value: its class and the text \<open>str(e)\<close>
  that the handlers splice into their error messages. \<open>RequestException\<close> stands for
  \<open>requests.RequestException\<close> and all its subclasses (connection errors, timeouts, the
  \<open>HTTPError\<close> of \<open>raise_for_status\<close>); every class listed is a subclass of
  \<open>Exception\<close>, so a handler \<open>except Exception\<close> catches all of them and a handler
  \<open>except requests.RequestException\<close> catches the first one only.
\<close>

datatype exc_class =
  RequestException | SqliteError | ValueError | TypeError | AttributeError
  | IndexError | KeyError | OverflowError | OtherException

datatype exc = Exc exc_class string

fun exc_cls :: "exc \<Rightarrow> exc_class" where
  "exc_cls (Exc c m) = c"

fun exc_str :: "exc \<Rightarrow> string" where
  "exc_str (Exc c m) = m"

definition is_request_exception :: "exc \<Rightarrow> bool" where
  "is_request_exception e = (exc_cls e = RequestException)"

section \<open>Python values\<close>

text \<open>
  The adapters handle whatever \<open>response.json()\<close> returns, so the model keeps Python's
  dynamic typing: a value is \<open>None\<close>, a bool, an unbounded int, a float, a string, a
  list or a dictionary with string keys (an association list, the first binding of a key
  being the one that counts). A \<open>char\<close> stands for one character of a Python string, so the
  model's strings are those over the first 256 code points; the degree sign of the weather
  report is \<open>CHR 0xB0\<close>.

  A float is the exact rational value of an IEEE double, a negative zero, an infinity or
  not-a-number; arithmetic rounds to the nearest double, ties to even.
\<close>

datatype pyfloat = Finite rat | NegZero | PosInf | NegInf | NaN

datatype pyval =
  PNone | PBool bool | PInt int | PFloat pyfloat | PStr string
  | PList "pyval list" | PDict "(string \<times> pyval) list"

fun type_name :: "pyval \<Rightarrow> string" where
  "type_name PNone = ''NoneType''"
| "type_name (PBool b) = ''bool''"
| "type_name (PInt n) = ''int''"
| "type_name (PFloat f) = ''float''"
| "type_name (PStr s) = ''str''"
| "type_name (PList xs) = ''list''"
| "type_name (PDict kvs) = ''dict''"

text \<open>A text between single quotes and a text between double quotes, as Python's messages show type
  and key names.\<close>

definition sq :: "string \<Rightarrow> string" where
  "sq s = CHR 0x27 # s @ [CHR 0x27]"

definition dq :: "string \<Rightarrow> string" where
  "dq s = CHR 0x22 # s @ [CHR 0x22]"

text \<open>Sequencing of computations that may raise.\<close>

definition bindE :: "exc + 'a \<Rightarrow> ('a \<Rightarrow> exc + 'b) \<Rightarrow> exc + 'b" where
  "bindE m f = (case m of Inl e \<Rightarrow> Inl e | Inr v \<Rightarrow> f v)"

subsection \<open>Truth value, equality, containers\<close>

fun truthy :: "pyval \<Rightarrow> bool" where
  "truthy PNone = False"
| "truthy (PBool b) = b"
| "truthy (PInt n) = (n \<noteq> 0)"
| "truthy (PFloat f) = (f \<noteq> Finite 0 \<and> f \<noteq> NegZero)"
| "truthy (PStr s) = (s \<noteq> [])"
| "truthy (PList xs) = (xs \<noteq> [])"
| "truthy (PDict kvs) = (kvs \<noteq> [])"

fun number :: "pyval \<Rightarrow> pyfloat option" where
  "number (PBool b) = Some (Finite (of_bool b))"
| "number (PInt n) = Some (Finite (of_int n))"
| "number (PFloat f) = Some f"
| "number v = None"

fun float_eq :: "pyfloat \<Rightarrow> pyfloat \<Rightarrow> bool" where
  "float_eq NaN y = False"
| "float_eq x NaN = False"
| "float_eq NegZero y = (y = NegZero \<or> y = Finite 0)"
| "float_eq x NegZero = (x = Finite 0)"
| "float_eq x y = (x = y)"

text \<open>
  The comparison Python applies to the elements of containers (in the equality of two
  lists or dictionaries, in \<open>x in xs\<close>, in \<open>xs.index(x)\<close> and in the lookup of a
  dictionary key): the same object counts as equal before \<open>==\<close> is asked. Numbers
  compare by value across bool, int and float; dictionaries compare as sets of bindings.
  Identity differs from equality for not-a-number only: the JSON decoder returns one and
  the same float object for every \<open>NaN\<close> of a body, so inside a decoded body
  not-a-number is identical to itself, although it is not \<open>==\<close> to itself.
\<close>

fun same_or_eq :: "pyval \<Rightarrow> pyval \<Rightarrow> bool" where
  "same_or_eq PNone y = (y = PNone)"
| "same_or_eq (PStr s) y = (y = PStr s)"
| "same_or_eq (PList xs) (PList ys) = list_all2 same_or_eq xs ys"
| "same_or_eq (PList xs) y = False"
| "same_or_eq (PDict kvs) (PDict kws) =
     (length kvs = length kws \<and>
      list_all (\<lambda>(k, v). case map_of kws k of None \<Rightarrow> False | Some w \<Rightarrow> same_or_eq v w) kvs)"
| "same_or_eq (PDict kvs) y = False"
| "same_or_eq x y =
     (case (number x, number y) of
        (Some a, Some b) \<Rightarrow> (a = NaN \<and> b = NaN) \<or> float_eq a b
      | _ \<Rightarrow> False)"

text \<open>Python's \<open>==\<close> between two values: as above, except that not-a-number is not
  equal to itself.\<close>

definition py_eq :: "pyval \<Rightarrow> pyval \<Rightarrow> bool" where
  "py_eq x y = (same_or_eq x y \<and> \<not> (x = PFloat NaN \<and> y = PFloat NaN))"

text \<open>\<open>d.get(key, default)\<close>: only a dictionary has the method.\<close>

definition dict_get :: "pyval \<Rightarrow> string \<Rightarrow> pyval \<Rightarrow> exc + pyval" where
  "dict_get d k dflt =
     (case d of
        PDict kvs \<Rightarrow> Inr (case map_of kvs k of None \<Rightarrow> dflt | Some v \<Rightarrow> v)
      | _ \<Rightarrow> Inl (Exc AttributeError
                 (sq (type_name d) @ '' object has no attribute '' @ sq ''get'')))"

fun str_nat :: "nat \<Rightarrow> string" where
  "str_nat n =
     (if n < 10 then [''0123456789'' ! n]
      else str_nat (n div 10) @ [''0123456789'' ! (n mod 10)])"

declare str_nat.simps [simp del]

definition str_int :: "int \<Rightarrow> string" where
  "str_int n = (if n < 0 then CHR ''-'' # str_nat (nat (- n)) else str_nat (nat n))"

text \<open>\<open>x[i]\<close> for a non-negative integer index. A dictionary decoded from JSON has string
  keys only, so an integer key is never found in it.\<close>

definition subscript :: "pyval \<Rightarrow> nat \<Rightarrow> exc + pyval" where
  "subscript x i =
     (case x of
        PList xs \<Rightarrow>
          if i < length xs then Inr (xs ! i)
          else Inl (Exc IndexError ''list index out of range'')
      | PStr s \<Rightarrow>
          if i < length s then Inr (PStr [s ! i])
          else Inl (Exc IndexError ''string index out of range'')
      | PDict kvs \<Rightarrow> Inl (Exc KeyError (str_nat i))
      | _ \<Rightarrow> Inl (Exc TypeError (sq (type_name x) @ '' object is not subscriptable'')))"

text \<open>\<open>x[key]\<close> for a string key.\<close>

definition subscript_key :: "pyval \<Rightarrow> string \<Rightarrow> exc + pyval" where
  "subscript_key x k =
     (case x of
        PDict kvs \<Rightarrow>
          (case map_of kvs k of None \<Rightarrow> Inl (Exc KeyError (sq k)) | Some v \<Rightarrow> Inr v)
      | PList xs \<Rightarrow> Inl (Exc TypeError ''list indices must be integers or slices, not str'')
      | PStr s \<Rightarrow> Inl (Exc TypeError (''string indices must be integers, not '' @ sq ''str''))
      | _ \<Rightarrow> Inl (Exc TypeError (sq (type_name x) @ '' object is not subscriptable'')))"

definition py_len :: "pyval \<Rightarrow> exc + nat" where
  "py_len x =
     (case x of
        PList xs \<Rightarrow> Inr (length xs)
      | PStr s \<Rightarrow> Inr (length s)
      | PDict kvs \<Rightarrow> Inr (length kvs)
      | _ \<Rightarrow> Inl (Exc TypeError (''object of type '' @ sq (type_name x) @ '' has no len()'')))"

definition hashable :: "pyval \<Rightarrow> bool" where
  "hashable x = (case x of PList xs \<Rightarrow> False | PDict kvs \<Rightarrow> False | _ \<Rightarrow> True)"

definition unhashable :: "pyval \<Rightarrow> exc" where
  "unhashable x = Exc TypeError (''unhashable type: '' @ sq (type_name x))"

text \<open>\<open>x in c\<close>: membership in a list, substring of a string, key of a dictionary.
  An element of a list is found when it is the same object as \<open>x\<close> or equal to it.\<close>

definition py_in :: "pyval \<Rightarrow> pyval \<Rightarrow> exc + bool" where
  "py_in x c =
     (case c of
        PList xs \<Rightarrow> Inr (list_ex (\<lambda>y. same_or_eq y x) xs)
      | PStr s \<Rightarrow>
          (case x of
             PStr t \<Rightarrow> Inr (sublist t s)
           | _ \<Rightarrow> Inl (Exc TypeError
                      (sq ''in <string>'' @ '' requires string as left operand, not ''
                         @ type_name x)))
      | PDict kvs \<Rightarrow>
          if hashable x then Inr (list_ex (\<lambda>(k, v). same_or_eq (PStr k) x) kvs)
          else Inl (unhashable x)
      | _ \<Rightarrow> Inl (Exc TypeError
                 (''argument of type '' @ sq (type_name c) @ '' is not iterable'')))"

fun first_index :: "('a \<Rightarrow> bool) \<Rightarrow> 'a list \<Rightarrow> nat option" where
  "first_index P [] = None"
| "first_index P (x # xs) =
     (if P x then Some 0 else map_option Suc (first_index P xs))"

fun find_sub :: "string \<Rightarrow> string \<Rightarrow> nat option" where
  "find_sub t [] = (if t = [] then Some 0 else None)"
| "find_sub t (c # cs) =
     (if prefix t (c # cs) then Some 0 else map_option Suc (find_sub t cs))"

text \<open>\<open>c.index(x)\<close>: the first position in a list of an element that is \<open>x\<close> or equals
  it, the first position of a substring in a string.
  (Python's message for a value that is not in the list names the value; the source calls
  \<open>index\<close> only after \<open>in\<close> has found it.)\<close>

definition py_index :: "pyval \<Rightarrow> pyval \<Rightarrow> exc + nat" where
  "py_index c x =
     (case c of
        PList xs \<Rightarrow>
          (case first_index (\<lambda>y. same_or_eq y x) xs of
             None \<Rightarrow> Inl (Exc ValueError ''value is not in list'')
           | Some i \<Rightarrow> Inr i)
      | PStr s \<Rightarrow>
          (case x of
             PStr t \<Rightarrow>
               (case find_sub t s of
                  None \<Rightarrow> Inl (Exc ValueError ''substring not found'')
                | Some i \<Rightarrow> Inr i)
           | _ \<Rightarrow> Inl (Exc TypeError (''must be str, not '' @ type_name x)))
      | _ \<Rightarrow> Inl (Exc AttributeError
                 (sq (type_name c) @ '' object has no attribute '' @ sq ''index'')))"

subsection \<open>Floats\<close>

function bit_length :: "int \<Rightarrow> nat" where
  "bit_length n = (if n \<le> 0 then 0 else Suc (bit_length (n div 2)))"
  by pat_completeness auto

termination
  by (relation "measure nat") auto

declare bit_length.simps [simp del]

definition pow2 :: "int \<Rightarrow> rat" where
  "pow2 k = (if 0 \<le> k then 2 ^ nat k else 1 / 2 ^ nat (- k))"

definition round_half_even :: "rat \<Rightarrow> int" where
  "round_half_even q =
     (let f = \<lfloor>q\<rfloor>; d = q - of_int f
      in if d < 1 / 2 then f else if 1 / 2 < d then f + 1 else if even f then f else f + 1)"

text \<open>For \<open>0 < q\<close>, the exponent \<open>e\<close> with \<open>2 ^ e \<le> q < 2 ^ (e + 1)\<close>, found from the bit
  lengths of numerator and denominator.\<close>

definition ilog2 :: "rat \<Rightarrow> int" where
  "ilog2 q =
     (let (a, b) = quotient_of q;
          k = int (bit_length a) - int (bit_length b)
      in if pow2 k \<le> q then k else k - 1)"

text \<open>Rounding an exact result to binary64: the result is \<open>m * 2 ^ s\<close> with \<open>m\<close> of
  at most 53 bits and \<open>s\<close> never below \<open>- 1074\<close>; it overflows to an infinity when it
  reaches \<open>2 ^ 1024\<close>, that is when \<open>971 < s\<close>, or \<open>s = 971\<close> and \<open>m\<close> was rounded up to
  \<open>2 ^ 53\<close>; a result that rounds to zero keeps its sign.\<close>

definition round_double :: "rat \<Rightarrow> pyfloat" where
  "round_double q =
     (if q = 0 then Finite 0
      else let a = \<bar>q\<bar>;
               s = max (ilog2 a - 52) (- 1074);
               m = round_half_even (a / pow2 s)
           in if 971 < s \<or> (s = 971 \<and> 2 ^ 53 \<le> m)
              then (if 0 < q then PosInf else NegInf)
              else if m = 0 then (if 0 < q then Finite 0 else NegZero)
              else Finite (if 0 < q then of_int m * pow2 s else - (of_int m * pow2 s)))"

text \<open>The float operations of the source have a positive constant as right operand
  (\<open>* 9\<close>, \<open>/ 5\<close>, \<open>+ 32\<close>, each converted to a float first); \<open>c\<close> is that constant.\<close>

fun fmul_pos :: "pyfloat \<Rightarrow> rat \<Rightarrow> pyfloat" where
  "fmul_pos (Finite q) c = round_double (q * c)"
| "fmul_pos x c = x"

fun fdiv_pos :: "pyfloat \<Rightarrow> rat \<Rightarrow> pyfloat" where
  "fdiv_pos (Finite q) c = round_double (q / c)"
| "fdiv_pos x c = x"

fun fadd_pos :: "pyfloat \<Rightarrow> rat \<Rightarrow> pyfloat" where
  "fadd_pos (Finite q) c = round_double (q + c)"
| "fadd_pos NegZero c = round_double c"
| "fadd_pos x c = x"

text \<open>\<open>float(n)\<close> and the true division \<open>a / b\<close> of two ints with \<open>0 < b\<close>: both are
  correctly rounded and raise instead of returning an infinity.\<close>

definition float_of_int :: "int \<Rightarrow> exc + pyfloat" where
  "float_of_int n =
     (case round_double (of_int n) of
        Finite q \<Rightarrow> Inr (Finite q)
      | _ \<Rightarrow> Inl (Exc OverflowError ''int too large to convert to float''))"

definition int_truediv :: "int \<Rightarrow> int \<Rightarrow> exc + pyfloat" where
  "int_truediv a b =
     (case round_double (of_int a / of_int b) of
        PosInf \<Rightarrow> Inl (Exc OverflowError ''integer division result too large for a float'')
      | NegInf \<Rightarrow> Inl (Exc OverflowError ''integer division result too large for a float'')
      | f \<Rightarrow> Inr f)"

subsection \<open>Text of a value\<close>

text \<open>The format specification \<open>.1f\<close> applied to a float: the exact value rounded to one
  decimal, ties to even.\<close>

definition fixed1 :: "int \<Rightarrow> string" where
  "fixed1 n = str_nat (nat (n div 10)) @ CHR ''.'' # str_nat (nat (n mod 10))"

fun float_f1 :: "pyfloat \<Rightarrow> string" where
  "float_f1 (Finite q) =
     (if q < 0 then CHR ''-'' # fixed1 (round_half_even (\<bar>q\<bar> * 10))
      else fixed1 (round_half_even (\<bar>q\<bar> * 10)))"
| "float_f1 NegZero = ''-0.0''"
| "float_f1 PosInf = ''inf''"
| "float_f1 NegInf = ''-inf''"
| "float_f1 NaN = ''nan''"

text \<open>\<open>f"{x:.1f}"\<close>: numbers only; an int is converted to a float first.\<close>

definition format_f1 :: "pyval \<Rightarrow> exc + string" where
  "format_f1 x =
     (case x of
        PFloat f \<Rightarrow> Inr (float_f1 f)
      | PInt n \<Rightarrow> bindE (float_of_int n) (\<lambda>f. Inr (float_f1 f))
      | PBool b \<Rightarrow> Inr (float_f1 (Finite (of_bool b)))
      | PStr s \<Rightarrow>
          Inl (Exc ValueError
                 (''Unknown format code '' @ sq ''f'' @ '' for object of type '' @ sq ''str''))
      | _ \<Rightarrow>
          Inl (Exc TypeError
                 (''unsupported format string passed to '' @ type_name x @ ''.__format__'')))"

text \<open>What a decimal numeral denotes, for stating what the formatted texts say: the
  value of a digit, and the number written by a row of digits.\<close>

definition is_digit :: "char \<Rightarrow> bool" where
  "is_digit c = (c \<in> set ''0123456789'')"

definition digit_value :: "char \<Rightarrow> nat" where
  "digit_value c = of_char c - 48"

definition decimal_value :: "string \<Rightarrow> nat" where
  "decimal_value ds = foldl (\<lambda>n c. 10 * n + digit_value c) 0 ds"

text \<open>
  \<open>str(x)\<close>, which is also what \<open>f"{x}"\<close> inserts. The shortest round-trip digits of a
  float and the display of a list or dictionary are not modelled; they are parameters.
\<close>

record display =
  float_repr :: "pyfloat \<Rightarrow> string"
  container_repr :: "pyval \<Rightarrow> string"

definition py_str :: "'a display_scheme \<Rightarrow> pyval \<Rightarrow> string" where
  "py_str rt x =
     (case x of
        PNone \<Rightarrow> ''None''
      | PBool b \<Rightarrow> (if b then ''True'' else ''False'')
      | PInt n \<Rightarrow> str_int n
      | PFloat f \<Rightarrow> float_repr rt f
      | PStr s \<Rightarrow> s
      | _ \<Rightarrow> container_repr rt x)"

section \<open>The world outside the program\<close>

text \<open>
  What the adapters reach through libraries is a parameter of the model: an HTTP GET
  either raises or yields a response with a status code and a body that \<open>json()\<close> decodes
  or fails on; the recipe database either raises or exposes the rows of its table in
  scan order; \<open>datetime.fromisoformat\<close> parses a text or raises; \<open>strftime_other\<close>
  answers the calls of \<open>strftime\<close> that the model does not fix. \<open>error_text\<close> is the
  message of the \<open>HTTPError\<close> that \<open>raise_for_status\<close> raises for the response.
\<close>

record request =
  url :: string
  params :: "(string \<times> pyval) list"
  timeout :: "nat option"

record response =
  status_code :: int
  json :: "exc + pyval"
  error_text :: string

text \<open>A row of the table \<open>recipes\<close>; the three columns are taken to hold text.\<close>

record recipe_row =
  Title :: string
  Ingredients :: string
  Instructions :: string

text \<open>The fields of a \<open>datetime\<close> object that the format of the source prints.\<close>

record datetime =
  year :: nat
  month :: nat
  day :: nat
  hour :: nat
  minute :: nat
  second :: nat

record runtime = display +
  requests_get :: "request \<Rightarrow> exc + response"
  sqlite_rows :: "string \<Rightarrow> string \<Rightarrow> exc + recipe_row list"
  fromisoformat :: "string \<Rightarrow> exc + datetime"
  strftime_other :: "datetime \<Rightarrow> string \<Rightarrow> exc + string"

definition raise_for_status :: "response \<Rightarrow> exc + unit" where
  "raise_for_status r =
     (if 400 \<le> status_code r \<and> status_code r < 600
      then Inl (Exc RequestException (error_text r)) else Inr ())"

text \<open>\<open>try: ... except requests.RequestException as e: return h(e)\<close> and
  \<open>try: ... except Exception as e: return h(e)\<close>.\<close>

definition except_request :: "(exc \<Rightarrow> pyval) \<Rightarrow> exc + pyval \<Rightarrow> exc + pyval" where
  "except_request h m =
     (case m of
        Inl e \<Rightarrow> if is_request_exception e then Inr (h e) else Inl e
      | Inr v \<Rightarrow> Inr v)"

definition except_exception :: "(exc \<Rightarrow> pyval) \<Rightarrow> exc + pyval \<Rightarrow> exc + pyval" where
  "except_exception h m = (case m of Inl e \<Rightarrow> Inr (h e) | Inr v \<Rightarrow> Inr v)"

section \<open>The recipe adapter (myRecipeAgent2, 3 and 4)\<close>

text \<open>
  The query \<open>SELECT Title, Ingredients, Instructions FROM recipes WHERE Title LIKE ?\<close> is
  run with the argument \<open>%dish_name%\<close>. SQLite's \<open>LIKE\<close> without an escape character: in
  the pattern \<open>%\<close> matches any run of characters and \<open>_\<close> any one character; every other
  character matches itself, the 26 ASCII letters regardless of case. SQLite reads both
  operands as C strings, so the pattern and the title each end at their first NUL
  character.
\<close>

definition sql_lower :: "char \<Rightarrow> char" where
  "sql_lower c =
     (let n = of_char c :: nat in if 65 \<le> n \<and> n \<le> 90 then char_of (n + 32) else c)"

fun like_match :: "string \<Rightarrow> string \<Rightarrow> bool" where
  "like_match [] s = (s = [])"
| "like_match (p # ps) s =
     (if p = CHR ''%''
      then like_match ps s \<or> (case s of [] \<Rightarrow> False | c # cs \<Rightarrow> like_match (p # ps) cs)
      else (case s of
              [] \<Rightarrow> False
            | c # cs \<Rightarrow> (p = CHR ''_'' \<or> sql_lower p = sql_lower c) \<and> like_match ps cs))"

definition c_string :: "string \<Rightarrow> string" where
  "c_string s = takeWhile (\<lambda>c. c \<noteq> CHR 0x00) s"

definition sqlite_like :: "string \<Rightarrow> string \<Rightarrow> bool" where
  "sqlite_like pattern subject = like_match (c_string pattern) (c_string subject)"

text \<open>The specification's words for the lookup, "a case-insensitive substring match of
  the query against the title": some stretch of the title equals the query once the ASCII
  letters of both are lowered.\<close>

definition ci_substring :: "string \<Rightarrow> string \<Rightarrow> bool" where
  "ci_substring query title = sublist (map sql_lower query) (map sql_lower title)"

text \<open>The three copies of \<open>get_recipe_details\<close> differ in the path of the database file
  only. \<open>fetchone()\<close> yields the first row of the result, or \<open>None\<close>.\<close>

definition found_recipe :: "recipe_row \<Rightarrow> pyval" where
  "found_recipe recipe =
     PDict [(''title'', PStr (Title recipe)), (''ingredients'', PStr (Ingredients recipe)),
            (''instructions'', PStr (Instructions recipe))]"

definition recipe_not_found :: pyval where
  "recipe_not_found = PDict [(''error'', PStr ''Recipe not found in the local database.'')]"

definition database_error :: "exc \<Rightarrow> pyval" where
  "database_error e = PDict [(''error'', PStr (''Database error: '' @ exc_str e))]"

definition recipe_lookup :: "'a runtime_scheme \<Rightarrow> string \<Rightarrow> string \<Rightarrow> exc + pyval" where
  "recipe_lookup rt path dish_name =
     except_exception database_error
       (bindE (sqlite_rows rt path (''%'' @ dish_name @ ''%'')) (\<lambda>rows.
        case find (\<lambda>r. sqlite_like (''%'' @ dish_name @ ''%'') (Title r)) rows of
          Some recipe \<Rightarrow> Inr (found_recipe recipe)
        | None \<Rightarrow> Inr recipe_not_found))"

definition get_recipe_details :: "'a runtime_scheme \<Rightarrow> string \<Rightarrow> exc + pyval" where
  "get_recipe_details rt dish_name = recipe_lookup rt ''13k-recipes.db'' dish_name"

definition get_recipe_details4 :: "'a runtime_scheme \<Rightarrow> string \<Rightarrow> exc + pyval" where
  "get_recipe_details4 rt dish_name = recipe_lookup rt ''../13k-recipes.db'' dish_name"

section \<open>The nutrition adapter\<close>

text \<open>The dictionary both stages return for a product record.\<close>

definition product_fields :: "pyval \<Rightarrow> exc + pyval" where
  "product_fields product =
     bindE (dict_get product ''product_name'' (PStr ''N/A'')) (\<lambda>pn.
     bindE (dict_get product ''nutriments'' (PDict [])) (\<lambda>nu.
     bindE (dict_get product ''categories'' (PStr ''N/A'')) (\<lambda>ca.
     bindE (dict_get product ''ingredients_text'' (PStr ''N/A'')) (\<lambda>it.
     Inr (PDict [(''product_name'', pn), (''nutriments'', nu), (''categories'', ca),
                 (''ingredients_text'', it)])))))"

definition search_request :: "string \<Rightarrow> nat option \<Rightarrow> request" where
  "search_request query t =
     \<lparr>url = ''https://world.openfoodfacts.org/cgi/search.pl?search_terms='' @ query
              @ ''&search_simple=1&json=1'',
      params = [], timeout = t\<rparr>"

definition product_request :: "string \<Rightarrow> request" where
  "product_request query =
     \<lparr>url = ''https://world.openfoodfacts.org/api/v2/product/'' @ query @ ''.json'',
      params = [], timeout = None\<rparr>"

definition api_error :: "exc \<Rightarrow> pyval" where
  "api_error e = PDict [(''error'', PStr (''API error: '' @ exc_str e))]"

definition could_not_retrieve :: pyval where
  "could_not_retrieve =
     PDict [(''error'', PStr ''Could not retrieve nutritional data from the API.'')]"

text \<open>The search stage: \<open>Some\<close> of the value the function returns from inside the stage,
  \<open>None\<close> when control falls through to the statements after it.\<close>

definition search_stage :: "'a runtime_scheme \<Rightarrow> request \<Rightarrow> exc + pyval option" where
  "search_stage rt req =
     bindE (requests_get rt req) (\<lambda>response.
       if status_code response = 200 then
         bindE (json response) (\<lambda>data.
         bindE (dict_get data ''products'' PNone) (\<lambda>found.
           if \<not> truthy found then Inr None
           else
             bindE (subscript_key data ''products'') (\<lambda>products.
             bindE (py_len products) (\<lambda>n.
               if \<not> 0 < n then Inr None
               else
                 bindE (subscript_key data ''products'') (\<lambda>products.
                 bindE (subscript products 0) (\<lambda>product.
                 bindE (product_fields product) (\<lambda>r. Inr (Some r))))))))
       else Inr None)"

text \<open>The direct lookup of myRecipeAgent2, which treats the query as a product code.\<close>

definition product_stage :: "'a runtime_scheme \<Rightarrow> request \<Rightarrow> exc + pyval" where
  "product_stage rt req =
     bindE (requests_get rt req) (\<lambda>response.
       if status_code response = 200 then
         bindE (json response) (\<lambda>body.
         bindE (dict_get body ''status'' PNone) (\<lambda>st.
           if py_eq st (PInt 1) then
             bindE (json response) (\<lambda>body.
             bindE (subscript_key body ''product'') (\<lambda>product.
             product_fields product))
           else Inr could_not_retrieve))
       else Inr could_not_retrieve)"

text \<open>Each adapter that calls the network returns the requests it sent, in order, next
  to its outcome. myRecipeAgent2:\<close>

definition get_nutrition_data :: "'a runtime_scheme \<Rightarrow> string \<Rightarrow> request list \<times> (exc + pyval)" where
  "get_nutrition_data rt query =
     (case search_stage rt (search_request query None) of
        Inl e \<Rightarrow> ([search_request query None], Inr (api_error e))
      | Inr (Some r) \<Rightarrow> ([search_request query None], Inr r)
      | Inr None \<Rightarrow>
          ([search_request query None, product_request query],
           except_exception api_error (product_stage rt (product_request query))))"

text \<open>myRecipeAgent3 and myRecipeAgent4 (the latter with \<open>timeout=10\<close>): the search stage
  alone.\<close>

definition nutrition_search_only :: "'a runtime_scheme \<Rightarrow> nat option \<Rightarrow> string \<Rightarrow> request list \<times> (exc + pyval)" where
  "nutrition_search_only rt t query =
     ([search_request query t],
      except_exception api_error
        (bindE (search_stage rt (search_request query t)) (\<lambda>r.
           case r of Some v \<Rightarrow> Inr v | None \<Rightarrow> Inr could_not_retrieve)))"

definition get_nutrition_data3 :: "'a runtime_scheme \<Rightarrow> string \<Rightarrow> request list \<times> (exc + pyval)" where
  "get_nutrition_data3 rt query = nutrition_search_only rt None query"

definition get_nutrition_data4 :: "'a runtime_scheme \<Rightarrow> string \<Rightarrow> request list \<times> (exc + pyval)" where
  "get_nutrition_data4 rt query = nutrition_search_only rt (Some 10) query"

section \<open>The weather and time adapters (myWeatherAgent2)\<close>

definition error_result :: "pyval \<Rightarrow> pyval" where
  "error_result msg = PDict [(''status'', PStr ''error''), (''error_message'', msg)]"

definition success_report :: "string \<Rightarrow> pyval" where
  "success_report report = PDict [(''status'', PStr ''success''), (''report'', PStr report)]"

subsection \<open>\<open>geocode_city\<close>\<close>

definition geocode_request :: "string \<Rightarrow> request" where
  "geocode_request nm =
     \<lparr>url = ''https://geocoding-api.open-meteo.com/v1/search'',
      params = [(''name'', PStr nm), (''count'', PInt 1), (''language'', PStr ''en''),
                (''format'', PStr ''json'')],
      timeout = Some 5\<rparr>"

text \<open>The dictionary \<open>geocode_city\<close> returns for a match.\<close>

definition geo_success :: "pyval \<Rightarrow> pyval \<Rightarrow> pyval \<Rightarrow> pyval \<Rightarrow> pyval" where
  "geo_success place lat lon tz =
     PDict [(''status'', PStr ''success''),
            (''result'',
             PDict [(''name'', place), (''latitude'', lat), (''longitude'', lon),
                    (''timezone'', tz)])]"

definition geocode_city :: "'a runtime_scheme \<Rightarrow> string \<Rightarrow> request list \<times> (exc + pyval)" where
  "geocode_city rt nm =
     ([geocode_request nm],
      except_request (\<lambda>e. error_result (PStr (''Geocoding error: '' @ exc_str e)))
        (bindE (requests_get rt (geocode_request nm)) (\<lambda>res.
         bindE (raise_for_status res) (\<lambda>u.
         bindE (json res) (\<lambda>body.
         bindE (dict_get body ''results'' PNone) (\<lambda>found.
           let items = (if truthy found then found else PList [])
           in if \<not> truthy items
              then Inr (error_result (PStr (''City '' @ sq nm @ '' not found.'')))
              else
                bindE (subscript items 0) (\<lambda>city.
                bindE (dict_get city ''name'' PNone) (\<lambda>cname.
                bindE (dict_get city ''latitude'' PNone) (\<lambda>lat.
                bindE (dict_get city ''longitude'' PNone) (\<lambda>lon.
                bindE (dict_get city ''timezone'' PNone) (\<lambda>tz.
                Inr (geo_success cname lat lon tz))))))))))))"

text \<open>\<open>geo["result"][key]\<close>.\<close>

definition geo_field :: "pyval \<Rightarrow> string \<Rightarrow> exc + pyval" where
  "geo_field geo k = bindE (subscript_key geo ''result'') (\<lambda>r. subscript_key r k)"

subsection \<open>\<open>get_weather\<close>\<close>

definition forecast_request :: "pyval \<Rightarrow> pyval \<Rightarrow> request" where
  "forecast_request lat lon =
     \<lparr>url = ''https://api.open-meteo.com/v1/forecast'',
      params = [(''latitude'', lat), (''longitude'', lon), (''current_weather'', PBool True),
                (''hourly'', PStr ''relativehumidity_2m''), (''timezone'', PStr ''auto'')],
      timeout = Some 5\<rparr>"

text \<open>The block under the comment \<open># Align humidity\<close>.\<close>

definition align_humidity :: "pyval \<Rightarrow> pyval \<Rightarrow> pyval \<Rightarrow> exc + pyval" where
  "align_humidity tnow times' hums =
     bindE (py_in tnow times') (\<lambda>found.
       if found then bindE (py_index times' tnow) (\<lambda>i. subscript hums i)
       else if truthy hums then subscript hums 0
       else Inr PNone)"

definition weather_map :: "(int \<times> string) list" where
  "weather_map =
     [(0, ''Clear sky''), (1, ''Mainly clear''), (2, ''Partly cloudy''), (3, ''Overcast''),
      (45, ''Fog''), (48, ''Depositing rime fog''), (51, ''Light drizzle''),
      (61, ''Slight rain''), (63, ''Moderate rain''), (65, ''Heavy rain''),
      (71, ''Slight snow''), (73, ''Moderate snow''), (75, ''Heavy snow''),
      (95, ''Thunderstorm'')]"

text \<open>\<open>weather_map.get(code, "Unknown")\<close>: the key must be hashable; a key is found when it
  is or equals one of the table's.\<close>

definition weather_desc :: "pyval \<Rightarrow> exc + string" where
  "weather_desc code =
     (if hashable code
      then Inr (case find (\<lambda>(k, d). same_or_eq (PInt k) code) weather_map of
                  None \<Rightarrow> ''Unknown''
                | Some (k, d) \<Rightarrow> d)
      else Inl (unhashable code))"

text \<open>\<open>tf = (tc * 9/5 + 32) if isinstance(tc, (int, float)) else None\<close>; a bool is an int.\<close>

definition fahrenheit :: "pyval \<Rightarrow> exc + pyval" where
  "fahrenheit tc =
     (case tc of
        PInt n \<Rightarrow> bindE (int_truediv (n * 9) 5) (\<lambda>f. Inr (PFloat (fadd_pos f 32)))
      | PBool b \<Rightarrow> bindE (int_truediv (of_bool b * 9) 5) (\<lambda>f. Inr (PFloat (fadd_pos f 32)))
      | PFloat f \<Rightarrow> Inr (PFloat (fadd_pos (fdiv_pos (fmul_pos f 9) 5) 32))
      | _ \<Rightarrow> Inr PNone)"

definition weather_sentence :: "string \<Rightarrow> string \<Rightarrow> string \<Rightarrow> string \<Rightarrow> string \<Rightarrow> string \<Rightarrow> string" where
  "weather_sentence place desc tcs tfs hum wind =
     ''The weather in '' @ place @ '' is '' @ desc @ '' with '' @ tcs @ [CHR 0xB0, CHR ''C'']
       @ '' ('' @ tfs @ [CHR 0xB0, CHR ''F''] @ ''), humidity '' @ hum @ ''%''
       @ '' and wind '' @ wind @ '' km/h.''"

text \<open>The body of the \<open>try\<close> from \<open>cw = data.get("current_weather", {})\<close> to the
  \<open>return\<close>, for the decoded body \<open>data\<close> and the place name of the geocoder.\<close>

definition current_weather_report :: "'a runtime_scheme \<Rightarrow> pyval \<Rightarrow> pyval \<Rightarrow> exc + pyval" where
  "current_weather_report rt place data =
     bindE (dict_get data ''current_weather'' (PDict [])) (\<lambda>cw.
     bindE (dict_get data ''hourly'' (PDict [])) (\<lambda>hourly.
     bindE (dict_get hourly ''time'' (PList [])) (\<lambda>times'.
     bindE (dict_get data ''hourly'' (PDict [])) (\<lambda>hourly.
     bindE (dict_get hourly ''relativehumidity_2m'' (PList [])) (\<lambda>hums.
     bindE (dict_get cw ''time'' PNone) (\<lambda>tnow.
     bindE (align_humidity tnow times' hums) (\<lambda>humidity.
     bindE (dict_get cw ''weathercode'' PNone) (\<lambda>code.
     bindE (weather_desc code) (\<lambda>desc.
     bindE (dict_get cw ''temperature'' PNone) (\<lambda>tc.
     bindE (fahrenheit tc) (\<lambda>tf.
     bindE (format_f1 tc) (\<lambda>tcs.
     bindE (format_f1 tf) (\<lambda>tfs.
     bindE (dict_get cw ''windspeed'' (PStr ''N/A'')) (\<lambda>wind.
     Inr (success_report
            (weather_sentence (py_str rt place) desc tcs tfs (py_str rt humidity)
               (py_str rt wind)))))))))))))))))"

definition get_weather :: "'a runtime_scheme \<Rightarrow> string \<Rightarrow> request list \<times> (exc + pyval)" where
  "get_weather rt city =
     (case geocode_city rt city of
        (sent, Inl e) \<Rightarrow> (sent, Inl e)
      | (sent, Inr geo) \<Rightarrow>
          (case dict_get geo ''status'' PNone of
             Inl e \<Rightarrow> (sent, Inl e)
           | Inr st \<Rightarrow>
               if \<not> py_eq st (PStr ''success'')
               then (sent, bindE (dict_get geo ''error_message'' PNone)
                             (\<lambda>msg. Inr (error_result msg)))
               else
                 (case bindE (geo_field geo ''latitude'') (\<lambda>lat.
                       bindE (geo_field geo ''longitude'') (\<lambda>lon.
                       bindE (geo_field geo ''name'') (\<lambda>place. Inr (lat, lon, place)))) of
                    Inl e \<Rightarrow> (sent, Inl e)
                  | Inr (lat, lon, place) \<Rightarrow>
                      (sent @ [forecast_request lat lon],
                       except_request
                         (\<lambda>e. error_result (PStr (''Weather lookup failed: '' @ exc_str e)))
                         (bindE (requests_get rt (forecast_request lat lon)) (\<lambda>resp.
                          bindE (raise_for_status resp) (\<lambda>u.
                          bindE (json resp) (\<lambda>data.
                          current_weather_report rt place data))))))))"

subsection \<open>\<open>get_current_time\<close>\<close>

definition time_request :: "pyval \<Rightarrow> request" where
  "time_request tz =
     \<lparr>url = ''https://www.timeapi.io/api/Time/current/zone'',
      params = [(''timeZone'', tz)], timeout = Some 5\<rparr>"

text \<open>\<open>a + b\<close> where the source adds texts; anything but two strings raises.\<close>

definition py_concat :: "pyval \<Rightarrow> pyval \<Rightarrow> exc + pyval" where
  "py_concat a b =
     (case (a, b) of
        (PStr s, PStr t) \<Rightarrow> Inr (PStr (s @ t))
      | (PStr s, _) \<Rightarrow>
          Inl (Exc TypeError
                 (''can only concatenate str (not '' @ dq (type_name b) @ '') to str''))
      | (PList xs, _) \<Rightarrow>
          Inl (Exc TypeError
                 (''can only concatenate list (not '' @ dq (type_name b) @ '') to list''))
      | _ \<Rightarrow>
          Inl (Exc TypeError
                 (''unsupported operand type(s) for +: '' @ sq (type_name a) @ '' and ''
                    @ sq (type_name b))))"

text \<open>
  \<open>dt.strftime(fmt)\<close>. The model fixes the result for the formats made of ASCII
  characters other than NUL in which every percent sign starts one of the directives
  \<open>%Y\<close>, \<open>%m\<close>, \<open>%d\<close>, \<open>%H\<close>, \<open>%M\<close>, \<open>%S\<close> (zero-padded decimal fields) or \<open>%%\<close> (a
  percent sign), applied to a \<open>datetime\<close> whose fields are within their ranges and whose
  year has four digits. Every other call is answered by the parameter, which may raise:
  a format with another directive, with a flag or a width as in \<open>%-d\<close>, with a percent
  sign at its end, with a NUL or a character outside ASCII, and a year below 1000 (whose
  padding depends on the platform).
\<close>

definition in_range :: "datetime \<Rightarrow> bool" where
  "in_range dt =
     (1000 \<le> year dt \<and> year dt \<le> 9999 \<and> 1 \<le> month dt \<and> month dt \<le> 12 \<and>
      1 \<le> day dt \<and> day dt \<le> 31 \<and> hour dt < 24 \<and> minute dt < 60 \<and> second dt < 60)"

definition pad2 :: "nat \<Rightarrow> string" where
  "pad2 n = (if n < 10 then CHR ''0'' # str_nat n else str_nat n)"

definition literal_char :: "char \<Rightarrow> bool" where
  "literal_char c = (c \<noteq> CHR ''%'' \<and> c \<noteq> CHR 0x00 \<and> (of_char c :: nat) < 128)"

fun plain_format :: "string \<Rightarrow> bool" where
  "plain_format (c # d # cs) =
     (if c = CHR ''%'' then d \<in> set ''YmdHMS%'' \<and> plain_format cs
      else literal_char c \<and> plain_format (d # cs))"
| "plain_format [c] = literal_char c"
| "plain_format [] = True"

definition directive :: "datetime \<Rightarrow> char \<Rightarrow> string" where
  "directive dt c =
     (if c = CHR ''Y'' then str_nat (year dt)
      else if c = CHR ''m'' then pad2 (month dt)
      else if c = CHR ''d'' then pad2 (day dt)
      else if c = CHR ''H'' then pad2 (hour dt)
      else if c = CHR ''M'' then pad2 (minute dt)
      else if c = CHR ''S'' then pad2 (second dt)
      else ''%'')"

fun expand :: "datetime \<Rightarrow> string \<Rightarrow> string" where
  "expand dt (c # d # cs) =
     (if c = CHR ''%'' then directive dt d @ expand dt cs else c # expand dt (d # cs))"
| "expand dt cs = cs"

definition strftime :: "'a runtime_scheme \<Rightarrow> datetime \<Rightarrow> string \<Rightarrow> exc + string" where
  "strftime rt dt fmt =
     (if plain_format fmt \<and> in_range dt then Inr (expand dt fmt)
      else strftime_other rt dt fmt)"

text \<open>The specification's words for the report, \<open>YYYY-MM-DD HH:MM:SS (timezone)\<close>: each
  letter stands for one decimal digit, so a field is the numeral of its value in exactly
  that many digits, zeros in front.\<close>

fun fixed_width :: "nat \<Rightarrow> nat \<Rightarrow> string" where
  "fixed_width 0 n = []"
| "fixed_width (Suc w) n = fixed_width w (n div 10) @ [''0123456789'' ! (n mod 10)]"

text \<open>\<open>datetime.datetime.fromisoformat(x)\<close> accepts a string only.\<close>

definition parse_iso :: "'a runtime_scheme \<Rightarrow> pyval \<Rightarrow> exc + datetime" where
  "parse_iso rt x =
     (case x of
        PStr s \<Rightarrow> fromisoformat rt s
      | _ \<Rightarrow> Inl (Exc TypeError ''fromisoformat: argument must be str''))"

definition time_format :: "'a runtime_scheme \<Rightarrow> pyval \<Rightarrow> string" where
  "time_format rt tz = ''%Y-%m-%d %H:%M:%S ('' @ py_str rt tz @ '')''"

text \<open>\<open>dt_str = data.get("dateTime") or data.get("date") + "T" + data.get("time")\<close>; the
  right operand of \<open>or\<close> is evaluated only when the left one is false.\<close>

definition timestamp_text :: "pyval \<Rightarrow> exc + pyval" where
  "timestamp_text data =
     bindE (dict_get data ''dateTime'' PNone) (\<lambda>a.
       if truthy a then Inr a
       else bindE (dict_get data ''date'' PNone) (\<lambda>d.
            bindE (py_concat d (PStr ''T'')) (\<lambda>dT.
            bindE (dict_get data ''time'' PNone) (\<lambda>t.
            py_concat dT t))))"

text \<open>The body of the \<open>try\<close> after \<open>data = r.json()\<close>.\<close>

definition time_report :: "'a runtime_scheme \<Rightarrow> pyval \<Rightarrow> pyval \<Rightarrow> exc + pyval" where
  "time_report rt tz data =
     bindE (timestamp_text data) (\<lambda>dt_str.
     bindE (parse_iso rt dt_str) (\<lambda>dt.
     bindE (strftime rt dt (time_format rt tz)) (\<lambda>report.
     Inr (success_report report))))"

definition time_handler :: "exc \<Rightarrow> pyval" where
  "time_handler e =
     (if is_request_exception e
      then error_result (PStr (''Time lookup failed: '' @ exc_str e))
      else error_result (PStr (''Time parsing failed: '' @ exc_str e)))"

definition get_current_time :: "'a runtime_scheme \<Rightarrow> string \<Rightarrow> request list \<times> (exc + pyval)" where
  "get_current_time rt city =
     (case geocode_city rt city of
        (sent, Inl e) \<Rightarrow> (sent, Inl e)
      | (sent, Inr geo) \<Rightarrow>
          (case dict_get geo ''status'' PNone of
             Inl e \<Rightarrow> (sent, Inl e)
           | Inr st \<Rightarrow>
               if \<not> py_eq st (PStr ''success'')
               then (sent, bindE (dict_get geo ''error_message'' PNone)
                             (\<lambda>msg. Inr (error_result msg)))
               else
                 (case geo_field geo ''timezone'' of
                    Inl e \<Rightarrow> (sent, Inl e)
                  | Inr tz \<Rightarrow>
                      (sent @ [time_request tz],
                       except_exception time_handler
                         (bindE (requests_get rt (time_request tz)) (\<lambda>r.
                          bindE (raise_for_status r) (\<lambda>u.
                          bindE (json r) (\<lambda>data.
                          time_report rt tz data))))))))"

section \<open>The sequential food pipeline (myRecipeAgent3, myRecipeAgent4)\<close>

text \<open>
  An \<open>LlmAgent\<close> of the source is declared with a name, a model, an instruction text, a
  description, a list of tools and an output key. The record keeps the fields the
  coordinator depends on; the prompt text is input to the generation capability only.
\<close>

record llm_agent =
  name :: string
  tools :: "string list"
  output_key :: string

definition recipe_finder_agent :: llm_agent where
  "recipe_finder_agent =
     \<lparr>name = ''RecipeFinderAgent'', tools = [''get_recipe_details''],
      output_key = ''recipe_result''\<rparr>"

definition nutrition_analyst_agent :: llm_agent where
  "nutrition_analyst_agent =
     \<lparr>name = ''NutritionAnalystAgent'', tools = [''get_nutrition_data''],
      output_key = ''nutrition_result''\<rparr>"

text \<open>The allergen agent is named \<open>AllergenAlternative\<close> in myRecipeAgent3 and
  \<open>AllergenAlternativeAgent\<close> in myRecipeAgent4; nothing else differs.\<close>

definition allergen_alternative_agent :: llm_agent where
  "allergen_alternative_agent =
     \<lparr>name = ''AllergenAlternative'', tools = [], output_key = ''allergen_result''\<rparr>"

definition allergen_alternative_agent4 :: llm_agent where
  "allergen_alternative_agent4 =
     \<lparr>name = ''AllergenAlternativeAgent'', tools = [], output_key = ''allergen_result''\<rparr>"

definition final_response_agent :: llm_agent where
  "final_response_agent =
     \<lparr>name = ''FinalResponseAgent'', tools = [], output_key = ''final_response''\<rparr>"

text \<open>\<open>SequentialAgent(sub_agents=[...])\<close>: the list of sub-agents, in the order written.\<close>

definition food_assistant_pipeline :: "llm_agent list" where
  "food_assistant_pipeline =
     [recipe_finder_agent, nutrition_analyst_agent, allergen_alternative_agent,
      final_response_agent]"

definition food_assistant_pipeline4 :: "llm_agent list" where
  "food_assistant_pipeline4 =
     [recipe_finder_agent, nutrition_analyst_agent, allergen_alternative_agent4,
      final_response_agent]"

subsection \<open>The coordinator\<close>

text \<open>
  Modelled from the spec: the executor behind \<open>SequentialAgent\<close> and the generation call
  behind \<open>LlmAgent\<close> belong to the agent framework and are not among the source files.
  The definitions below follow sections 4.2 and 4.3 of the specification: a fresh state,
  the steps run in list order against it, a step writes the generated text into its one
  output slot, the first failing step aborts the run, and the result is the last step's
  slot. The generation capability is a parameter: given the agent, the state it sees and
  the user's query it yields a text or fails.
\<close>

type_synonym pipeline_state = "string \<rightharpoonup> string"

type_synonym generation = "llm_agent \<Rightarrow> pipeline_state \<Rightarrow> string \<Rightarrow> exc + string"

datatype run_state = NotStarted | Running nat | Completed | Failed

text \<open>One entry of the trace: the state machine's position, the step that ran there, the
  state it read, and the state after its write (or its failure).\<close>

record event =
  pos :: run_state
  step :: llm_agent
  before :: pipeline_state
  outcome :: "exc + pipeline_state"

record run =
  status :: run_state
  slots :: pipeline_state
  trace :: "event list"
  failure :: "exc option"

definition run_step :: "generation \<Rightarrow> string \<Rightarrow> llm_agent \<Rightarrow> pipeline_state \<Rightarrow> exc + pipeline_state" where
  "run_step gen q a st =
     (case gen a st q of Inl e \<Rightarrow> Inl e | Inr txt \<Rightarrow> Inr (st(output_key a \<mapsto> txt)))"

fun run_from :: "generation \<Rightarrow> string \<Rightarrow> llm_agent list \<Rightarrow> nat \<Rightarrow> pipeline_state \<Rightarrow> run" where
  "run_from gen q [] i st = \<lparr>status = Completed, slots = st, trace = [], failure = None\<rparr>"
| "run_from gen q (a # rest) i st =
     (case run_step gen q a st of
        Inl e \<Rightarrow>
          \<lparr>status = Failed, slots = st,
           trace = [\<lparr>pos = Running i, step = a, before = st, outcome = Inl e\<rparr>],
           failure = Some e\<rparr>
      | Inr st' \<Rightarrow>
          (let r = run_from gen q rest (Suc i) st'
           in r\<lparr>trace := \<lparr>pos = Running i, step = a, before = st, outcome = Inr st'\<rparr> # trace r\<rparr>))"

definition run_pipeline :: "generation \<Rightarrow> llm_agent list \<Rightarrow> string \<Rightarrow> run" where
  "run_pipeline gen steps q = run_from gen q steps 0 Map.empty"

text \<open>The coordinator's contract \<open>execute(pipelineSpec, userQuery)\<close>: the failure, or the
  value of the final step's output slot; on failure the state is dropped.\<close>

definition execute :: "generation \<Rightarrow> llm_agent list \<Rightarrow> string \<Rightarrow> exc + string option" where
  "execute gen steps q =
     (let r = run_pipeline gen steps q
      in case failure r of
           Some e \<Rightarrow> Inl e
         | None \<Rightarrow> Inr (slots r (output_key (last steps))))"

section \<open>Sample worlds\<close>

text \<open>Concrete worlds on which the theorems below are instantiated: a table of pages by
  URL (any other request fails to connect), a small recipe table, an ISO parser that
  knows one timestamp, and a \<open>strftime\<close> that refuses the formats the model leaves open.
  One-decimal formatting stands in for \<open>repr\<close> of a float, which it equals on the floats
  of the samples.\<close>

definition ok_response :: "pyval \<Rightarrow> response" where
  "ok_response body = \<lparr>status_code = 200, json = Inr body, error_text = []\<rparr>"

definition error_response :: "int \<Rightarrow> string \<Rightarrow> response" where
  "error_response code msg =
     \<lparr>status_code = code, json = Inl (Exc RequestException ''Expecting value''),
      error_text = msg\<rparr>"

definition web :: "(string \<times> response) list \<Rightarrow> request \<Rightarrow> exc + response" where
  "web pages req =
     (case map_of pages (url req) of
        None \<Rightarrow> Inl (Exc RequestException ''connection refused'')
      | Some r \<Rightarrow> Inr r)"

definition sample_rows :: "recipe_row list" where
  "sample_rows =
     [\<lparr>Title = ''Banana Bread'', Ingredients = ''bananas, flour'', Instructions = ''Bake.''\<rparr>,
      \<lparr>Title = ''Classic Pancakes'', Ingredients = ''flour, milk, eggs'',
       Instructions = ''Mix and fry.''\<rparr>,
      \<lparr>Title = ''Vegan Pancakes'', Ingredients = ''flour, oat milk'',
       Instructions = ''Mix and fry.''\<rparr>]"

definition sample_time :: datetime where
  "sample_time = \<lparr>year = 2025, month = 6, day = 1, hour = 9, minute = 5, second = 0\<rparr>"

definition sample_iso :: "string \<Rightarrow> exc + datetime" where
  "sample_iso s =
     (if s = ''2025-06-01T09:05:00'' then Inr sample_time
      else Inl (Exc ValueError (''Invalid isoformat string: '' @ sq s)))"

definition sample_runtime :: "(string \<times> response) list \<Rightarrow> runtime" where
  "sample_runtime pages =
     \<lparr>float_repr = float_f1, container_repr = (\<lambda>x. ''[...]''),
      requests_get = web pages, sqlite_rows = (\<lambda>path pattern. Inr sample_rows),
      fromisoformat = sample_iso,
      strftime_other = (\<lambda>dt fmt. Inl (Exc ValueError ''Invalid format string''))\<rparr>"

definition geocode_url :: string where
  "geocode_url = ''https://geocoding-api.open-meteo.com/v1/search''"

definition forecast_url :: string where
  "forecast_url = ''https://api.open-meteo.com/v1/forecast''"

definition time_url :: string where
  "time_url = ''https://www.timeapi.io/api/Time/current/zone''"

definition paris :: pyval where
  "paris =
     PDict [(''results'',
             PList [PDict [(''name'', PStr ''Paris''), (''latitude'', PFloat (Finite (97 / 2))),
                           (''longitude'', PFloat (Finite (9 / 4))),
                           (''timezone'', PStr ''Europe/Paris'')]])]"

text \<open>A geocoder result whose timezone text holds a percent sign.\<close>

definition percent_zone :: pyval where
  "percent_zone =
     PDict [(''results'',
             PList [PDict [(''name'', PStr ''Paris''), (''latitude'', PFloat (Finite (97 / 2))),
                           (''longitude'', PFloat (Finite (9 / 4))),
                           (''timezone'', PStr ''%Y'')]])]"

text \<open>A geocoder result that carries a name only.\<close>

definition atlantis :: pyval where
  "atlantis = PDict [(''results'', PList [PDict [(''name'', PStr ''Atlantis'')]])]"

definition no_results :: pyval where
  "no_results = PDict [(''results'', PList [])]"

definition forecast :: pyval where
  "forecast =
     PDict [(''current_weather'',
             PDict [(''time'', PStr ''2025-06-01T10:00''), (''temperature'', PInt 20),
                    (''weathercode'', PInt 3), (''windspeed'', PFloat (Finite (25 / 2)))]),
            (''hourly'',
             PDict [(''time'', PList [PStr ''2025-06-01T09:00'', PStr ''2025-06-01T10:00'']),
                    (''relativehumidity_2m'', PList [PInt 71, PInt 64])])]"

definition forecast_no_current :: pyval where
  "forecast_no_current =
     PDict [(''hourly'',
             PDict [(''time'', PList [PStr ''2025-06-01T09:00'', PStr ''2025-06-01T10:00'']),
                    (''relativehumidity_2m'', PList [PInt 71, PInt 64])])]"

definition forecast_no_humidity :: pyval where
  "forecast_no_humidity =
     PDict [(''current_weather'',
             PDict [(''time'', PStr ''2025-06-01T10:00''), (''temperature'', PInt 20),
                    (''weathercode'', PInt 3), (''windspeed'', PFloat (Finite (25 / 2)))]),
            (''hourly'',
             PDict [(''time'', PList [PStr ''2025-06-01T09:00'', PStr ''2025-06-01T10:00''])])]"

definition time_page :: "string \<Rightarrow> pyval" where
  "time_page s = PDict [(''dateTime'', PStr s)]"

definition oats_search :: pyval where
  "oats_search = PDict [(''products'', PList [PDict [(''product_name'', PStr ''Rolled oats'')]])]"

definition empty_search :: pyval where
  "empty_search = PDict [(''count'', PInt 0), (''products'', PList [])]"

definition oats_product :: pyval where
  "oats_product =
     PDict [(''status'', PInt 1),
            (''product'',
             PDict [(''product_name'', PStr ''Oat flakes''), (''categories'', PStr ''Cereals'')])]"

text \<open>A world whose database has no table \<open>recipes\<close>.\<close>

definition no_table :: runtime where
  "no_table =
     (sample_runtime [])
       \<lparr>sqlite_rows := (\<lambda>path pattern. Inl (Exc SqliteError ''no such table: recipes''))\<rparr>"

definition oats_url :: string where
  "oats_url =
     ''https://world.openfoodfacts.org/cgi/search.pl?search_terms=oats&search_simple=1&json=1''"

definition oats_product_url :: string where
  "oats_product_url = ''https://world.openfoodfacts.org/api/v2/product/oats.json''"

section \<open>Properties of the pipeline\<close>

lemma run_step_cases:
  "(\<exists>e. gen a st q = Inl e \<and> run_step gen q a st = Inl e) \<or>
   (\<exists>t. gen a st q = Inr t \<and> run_step gen q a st = Inr (st(output_key a \<mapsto> t)))"
  by (cases "gen a st q") (simp_all add: run_step_def)

lemma run_from_terminal:
  "(status (run_from gen q steps i st) = Completed \<and> failure (run_from gen q steps i st) = None) \<or>
   (status (run_from gen q steps i st) = Failed \<and> (\<exists>e. failure (run_from gen q steps i st) = Some e))"
  by (induction steps arbitrary: i st) (auto simp: Let_def split: sum.splits)

lemma run_from_trace_prefix:
  "prefix (map step (trace (run_from gen q steps i st))) steps"
  by (induction steps arbitrary: i st) (auto simp: Let_def split: sum.splits)

lemma run_from_completed_all:
  "status (run_from gen q steps i st) = Completed \<Longrightarrow>
   map step (trace (run_from gen q steps i st)) = steps"
  by (induction steps arbitrary: i st) (auto simp: Let_def split: sum.splits)

lemma run_from_event:
  "k < length (trace (run_from gen q steps i st)) \<Longrightarrow>
   pos (trace (run_from gen q steps i st) ! k) = Running (i + k) \<and>
   step (trace (run_from gen q steps i st) ! k) = steps ! k \<and>
   dom (before (trace (run_from gen q steps i st) ! k)) =
     dom st \<union> set (take k (map output_key steps)) \<and>
   outcome (trace (run_from gen q steps i st) ! k) =
     run_step gen q (steps ! k) (before (trace (run_from gen q steps i st) ! k))"
proof (induction steps arbitrary: i st k)
  case Nil
  then show ?case by simp
next
  case (Cons a rest)
  show ?case
  proof (cases "run_step gen q a st")
    case (Inl e)
    with Cons.prems show ?thesis by simp
  next
    case (Inr st')
    show ?thesis
    proof (cases k)
      case 0
      with Inr show ?thesis by (simp add: Let_def)
    next
      case (Suc j)
      have d: "dom st' = insert (output_key a) (dom st)"
        using Inr run_step_cases [of gen a st q] by auto
      from Cons.prems Inr Suc have "j < length (trace (run_from gen q rest (Suc i) st'))"
        by (simp add: Let_def)
      from Cons.IH [OF this] Inr Suc d show ?thesis
        by (simp add: Let_def)
    qed
  qed
qed

lemma run_from_failed_event:
  "k < length (trace (run_from gen q steps i st)) \<Longrightarrow>
   outcome (trace (run_from gen q steps i st) ! k) = Inl e \<Longrightarrow>
   length (trace (run_from gen q steps i st)) = Suc k \<and>
   status (run_from gen q steps i st) = Failed \<and>
   failure (run_from gen q steps i st) = Some e \<and>
   slots (run_from gen q steps i st) = before (trace (run_from gen q steps i st) ! k)"
proof (induction steps arbitrary: i st k)
  case Nil
  then show ?case by simp
next
  case (Cons a rest)
  show ?case
  proof (cases "run_step gen q a st")
    case (Inl e')
    with Cons.prems show ?thesis by simp
  next
    case (Inr st')
    show ?thesis
    proof (cases k)
      case 0
      with Inr Cons.prems show ?thesis by (simp add: Let_def)
    next
      case (Suc j)
      from Cons.prems Inr Suc
      have "j < length (trace (run_from gen q rest (Suc i) st'))"
        and "outcome (trace (run_from gen q rest (Suc i) st') ! j) = Inl e"
        by (simp_all add: Let_def)
      from Cons.IH [OF this] Inr Suc show ?thesis
        by (simp add: Let_def)
    qed
  qed
qed

lemma run_from_completed_slots:
  "status (run_from gen q steps i st) = Completed \<Longrightarrow>
   dom (slots (run_from gen q steps i st)) = dom st \<union> set (map output_key steps) \<and>
   (\<forall>ev \<in> set (trace (run_from gen q steps i st)). \<exists>s. outcome ev = Inr s)"
proof (induction steps arbitrary: i st)
  case Nil
  then show ?case by simp
next
  case (Cons a rest)
  show ?case
  proof (cases "run_step gen q a st")
    case (Inl e')
    with Cons.prems show ?thesis by simp
  next
    case (Inr st')
    have d: "dom st' = insert (output_key a) (dom st)"
      using Inr run_step_cases [of gen a st q] by auto
    from Cons.prems Inr have "status (run_from gen q rest (Suc i) st') = Completed"
      by (simp add: Let_def)
    from Cons.IH [OF this] Inr d show ?thesis
      by (simp add: Let_def)
  qed
qed

lemma pipeline_keys:
  "map output_key food_assistant_pipeline =
     [''recipe_result'', ''nutrition_result'', ''allergen_result'', ''final_response'']"
  "map output_key food_assistant_pipeline4 =
     [''recipe_result'', ''nutrition_result'', ''allergen_result'', ''final_response'']"
  by (simp_all add: food_assistant_pipeline_def food_assistant_pipeline4_def
      recipe_finder_agent_def nutrition_analyst_agent_def allergen_alternative_agent_def
      allergen_alternative_agent4_def final_response_agent_def)

lemma pipeline_names:
  "map name food_assistant_pipeline =
     [''RecipeFinderAgent'', ''NutritionAnalystAgent'', ''AllergenAlternative'',
      ''FinalResponseAgent'']"
  "map name food_assistant_pipeline4 =
     [''RecipeFinderAgent'', ''NutritionAnalystAgent'', ''AllergenAlternativeAgent'',
      ''FinalResponseAgent'']"
  by (simp_all add: food_assistant_pipeline_def food_assistant_pipeline4_def
      recipe_finder_agent_def nutrition_analyst_agent_def allergen_alternative_agent_def
      allergen_alternative_agent4_def final_response_agent_def)

text \<open>
  Claim C1. In every run of the food pipeline the four generation steps execute in the
  fixed order recipe finder, nutrition analyst, allergen, final formatter: the steps that
  ran are an initial segment of the declared list (all of it when the run completes),
  the k-th one runs at position \<open>Running k\<close>, and a step that succeeds changes the state
  by writing its own output slot only. Hence the nutrition step reads a state in which
  \<open>recipe_result\<close> is already present, and the final formatter reads a state in which
  all three earlier slots are present.
\<close>

theorem pipeline_order:
  assumes steps: "steps = food_assistant_pipeline \<or> steps = food_assistant_pipeline4"
  shows "map output_key steps =
           [''recipe_result'', ''nutrition_result'', ''allergen_result'', ''final_response''] \<and>
         prefix (map step (trace (run_pipeline gen steps q))) steps \<and>
         (status (run_pipeline gen steps q) = Completed \<longrightarrow>
            map step (trace (run_pipeline gen steps q)) = steps \<and>
            dom (slots (run_pipeline gen steps q)) = set (map output_key steps)) \<and>
         (\<forall>k < length (trace (run_pipeline gen steps q)).
            pos (trace (run_pipeline gen steps q) ! k) = Running k \<and>
            step (trace (run_pipeline gen steps q) ! k) = steps ! k \<and>
            dom (before (trace (run_pipeline gen steps q) ! k)) =
              set (take k (map output_key steps)) \<and>
            (\<forall>s. outcome (trace (run_pipeline gen steps q) ! k) = Inr s \<longrightarrow>
               (\<exists>t. s = (before (trace (run_pipeline gen steps q) ! k))
                              (output_key (steps ! k) \<mapsto> t)))) \<and>
         (\<forall>ev \<in> set (trace (run_pipeline gen steps q)).
            (output_key (step ev) = ''nutrition_result'' \<longrightarrow>
               ''recipe_result'' \<in> dom (before ev)) \<and>
            (output_key (step ev) = ''final_response'' \<longrightarrow>
               {''recipe_result'', ''nutrition_result'', ''allergen_result''}
                 \<subseteq> dom (before ev)))"
proof -
  let ?r = "run_pipeline gen steps q"
  have keys: "map output_key steps =
      [''recipe_result'', ''nutrition_result'', ''allergen_result'', ''final_response'']"
    using steps by (auto simp: pipeline_keys)
  have pre: "prefix (map step (trace ?r)) steps"
    by (simp add: run_pipeline_def run_from_trace_prefix)
  have len4: "length steps = 4"
    using steps by (auto simp: food_assistant_pipeline_def food_assistant_pipeline4_def)
  have len: "length (trace ?r) \<le> 4"
    using prefix_length_le [OF pre] len4 by simp
  have ev: "pos (trace ?r ! k) = Running k \<and> step (trace ?r ! k) = steps ! k \<and>
      dom (before (trace ?r ! k)) = set (take k (map output_key steps)) \<and>
      outcome (trace ?r ! k) = run_step gen q (steps ! k) (before (trace ?r ! k))"
    if "k < length (trace ?r)" for k
    using run_from_event [of k gen q steps 0 Map.empty] that
    by (simp add: run_pipeline_def)
  have wr: "\<exists>t. s = (before (trace ?r ! k))(output_key (steps ! k) \<mapsto> t)"
    if "k < length (trace ?r)" and "outcome (trace ?r ! k) = Inr s" for k s
    using ev [OF that(1)] that(2)
      run_step_cases [of gen "steps ! k" "before (trace ?r ! k)" q]
    by auto
  have comp: "map step (trace ?r) = steps \<and> dom (slots ?r) = set (map output_key steps)"
    if "status ?r = Completed"
    using that run_from_completed_all [of gen q steps 0 Map.empty]
      run_from_completed_slots [of gen q steps 0 Map.empty]
    by (simp add: run_pipeline_def)
  have rd: "(output_key (step ev) = ''nutrition_result'' \<longrightarrow>
               ''recipe_result'' \<in> dom (before ev)) \<and>
            (output_key (step ev) = ''final_response'' \<longrightarrow>
               {''recipe_result'', ''nutrition_result'', ''allergen_result''}
                 \<subseteq> dom (before ev))"
    if "ev \<in> set (trace ?r)" for ev
  proof -
    from that obtain k where k: "k < length (trace ?r)" and evk: "ev = trace ?r ! k"
      by (auto simp: in_set_conv_nth)
    from k len have k4: "k < 4" by simp
    have sk: "output_key (step ev) = map output_key steps ! k"
      using ev [OF k] evk k4 len4 by simp
    from k4 consider "k = 0" | "k = 1" | "k = 2" | "k = 3" by linarith
    then show ?thesis
      using ev [OF k] evk sk keys by cases (simp_all add: numeral_eq_Suc)
  qed
  have evs: "\<forall>k < length (trace ?r).
      pos (trace ?r ! k) = Running k \<and> step (trace ?r ! k) = steps ! k \<and>
      dom (before (trace ?r ! k)) = set (take k (map output_key steps)) \<and>
      (\<forall>s. outcome (trace ?r ! k) = Inr s \<longrightarrow>
         (\<exists>t. s = (before (trace ?r ! k))(output_key (steps ! k) \<mapsto> t)))"
    using ev wr by simp
  have rds: "\<forall>ev \<in> set (trace ?r).
      (output_key (step ev) = ''nutrition_result'' \<longrightarrow>
         ''recipe_result'' \<in> dom (before ev)) \<and>
      (output_key (step ev) = ''final_response'' \<longrightarrow>
         {''recipe_result'', ''nutrition_result'', ''allergen_result''}
           \<subseteq> dom (before ev))"
    using rd by simp
  have compl: "status ?r = Completed \<longrightarrow>
      map step (trace ?r) = steps \<and> dom (slots ?r) = set (map output_key steps)"
    using comp by simp
  from keys pre compl evs rds show ?thesis
    by (intro conjI) assumption+
qed

theorem pipeline_order_witness:
  "(food_assistant_pipeline = food_assistant_pipeline \<or>
      food_assistant_pipeline = food_assistant_pipeline4) \<and>
   status (run_pipeline (\<lambda>a st q. Inr (name a)) food_assistant_pipeline ''pancakes'') = Completed \<and>
   length (trace (run_pipeline (\<lambda>a st q. Inr (name a)) food_assistant_pipeline ''pancakes'')) = 4 \<and>
   map step (trace (run_pipeline (\<lambda>a st q. Inr (name a)) food_assistant_pipeline ''pancakes''))
     = food_assistant_pipeline \<and>
   dom (before (trace (run_pipeline (\<lambda>a st q. Inr (name a)) food_assistant_pipeline
                  ''pancakes'') ! 3))
     = {''recipe_result'', ''nutrition_result'', ''allergen_result''}"
proof -
  let ?r = "run_pipeline (\<lambda>a st q. Inr (name a)) food_assistant_pipeline ''pancakes''"
  have st: "status ?r = Completed" and len: "length (trace ?r) = 4"
    by (simp_all add: run_pipeline_def run_step_def food_assistant_pipeline_def Let_def)
  have ord: "food_assistant_pipeline = food_assistant_pipeline \<or>
      food_assistant_pipeline = food_assistant_pipeline4"
    by simp
  note inst = pipeline_order [OF ord, of "\<lambda>a st q. Inr (name a)" "''pancakes''"]
  from inst st have m: "map step (trace ?r) = food_assistant_pipeline"
    by blast
  from inst len have "dom (before (trace ?r ! 3)) =
      set (take 3 (map output_key food_assistant_pipeline))"
    by simp
  then have d: "dom (before (trace ?r ! 3)) =
      {''recipe_result'', ''nutrition_result'', ''allergen_result''}"
    by (simp add: pipeline_keys numeral_eq_Suc)
  from ord st len m d show ?thesis by simp
qed

lemma execute_failed:
  "failure (run_pipeline gen steps q) = Some e \<Longrightarrow> execute gen steps q = Inl e"
  by (simp add: execute_def)

text \<open>
  Claim C2. When a step of the pipeline fails, the coordinator stops there: the failing
  step is the last entry of the trace, the run ends in \<open>Failed\<close>, \<open>execute\<close> returns
  that failure and no text, and neither the failing step's slot nor any later slot is
  written. In particular, when the second step fails, \<open>allergen_result\<close> and
  \<open>final_response\<close> are absent from the state.
\<close>

theorem failure_short_circuit:
  assumes steps: "steps = food_assistant_pipeline \<or> steps = food_assistant_pipeline4"
    and k: "k < length (trace (run_pipeline gen steps q))"
    and fails: "outcome (trace (run_pipeline gen steps q) ! k) = Inl e"
  shows "gen (steps ! k) (before (trace (run_pipeline gen steps q) ! k)) q = Inl e \<and>
         length (trace (run_pipeline gen steps q)) = Suc k \<and>
         status (run_pipeline gen steps q) = Failed \<and>
         failure (run_pipeline gen steps q) = Some e \<and>
         execute gen steps q = Inl e \<and>
         dom (slots (run_pipeline gen steps q)) = set (take k (map output_key steps)) \<and>
         (\<forall>j. k \<le> j \<and> j < length steps \<longrightarrow>
            output_key (steps ! j) \<notin> dom (slots (run_pipeline gen steps q))) \<and>
         (k = 1 \<longrightarrow> ''allergen_result'' \<notin> dom (slots (run_pipeline gen steps q)) \<and>
                   ''final_response'' \<notin> dom (slots (run_pipeline gen steps q)))"
proof -
  let ?r = "run_pipeline gen steps q"
  have keys: "map output_key steps =
      [''recipe_result'', ''nutrition_result'', ''allergen_result'', ''final_response'']"
    using steps by (auto simp: pipeline_keys)
  have len4: "length steps = 4"
    using steps by (auto simp: food_assistant_pipeline_def food_assistant_pipeline4_def)
  have f: "length (trace ?r) = Suc k \<and> status ?r = Failed \<and> failure ?r = Some e \<and>
      slots ?r = before (trace ?r ! k)"
    using run_from_failed_event [of k gen q steps 0 Map.empty e] k fails
    by (simp add: run_pipeline_def)
  have ev: "step (trace ?r ! k) = steps ! k \<and>
      dom (before (trace ?r ! k)) = set (take k (map output_key steps)) \<and>
      outcome (trace ?r ! k) = run_step gen q (steps ! k) (before (trace ?r ! k))"
    using run_from_event [of k gen q steps 0 Map.empty] k
    by (simp add: run_pipeline_def)
  have g: "gen (steps ! k) (before (trace ?r ! k)) q = Inl e"
    using ev fails run_step_cases [of gen "steps ! k" "before (trace ?r ! k)" q]
    by auto
  have d: "dom (slots ?r) = set (take k (map output_key steps))"
    using f ev by simp
  have dist: "distinct (map output_key steps)"
    by (simp add: keys)
  have later: "\<forall>j. k \<le> j \<and> j < length steps \<longrightarrow> output_key (steps ! j) \<notin> dom (slots ?r)"
  proof (intro allI impI)
    fix j assume j: "k \<le> j \<and> j < length steps"
    show "output_key (steps ! j) \<notin> dom (slots ?r)"
    proof
      assume "output_key (steps ! j) \<in> dom (slots ?r)"
      then have "map output_key steps ! j \<in> set (take k (map output_key steps))"
        using d j by simp
      then obtain i where i: "i < k" "i < length steps"
          and eq: "map output_key steps ! i = map output_key steps ! j"
        by (auto simp: in_set_conv_nth)
      with dist i j len4 have "i = j"
        by (simp add: distinct_conv_nth)
      with i j show False by simp
    qed
  qed
  have two: "k = 1 \<longrightarrow> ''allergen_result'' \<notin> dom (slots ?r) \<and>
      ''final_response'' \<notin> dom (slots ?r)"
    using d keys by (simp add: numeral_eq_Suc)
  from g f execute_failed [of gen steps q e] d later two show ?thesis
    by (intro conjI) simp_all
qed

theorem failure_short_circuit_witness:
  "(food_assistant_pipeline = food_assistant_pipeline \<or>
      food_assistant_pipeline = food_assistant_pipeline4) \<and>
   1 < length (trace (run_pipeline
         (\<lambda>a st q. if name a = ''NutritionAnalystAgent''
            then Inl (Exc OtherException ''model unavailable'') else Inr (name a))
         food_assistant_pipeline ''pancakes'')) \<and>
   outcome (trace (run_pipeline
         (\<lambda>a st q. if name a = ''NutritionAnalystAgent''
            then Inl (Exc OtherException ''model unavailable'') else Inr (name a))
         food_assistant_pipeline ''pancakes'') ! 1) = Inl (Exc OtherException ''model unavailable'') \<and>
   status (run_pipeline
         (\<lambda>a st q. if name a = ''NutritionAnalystAgent''
            then Inl (Exc OtherException ''model unavailable'') else Inr (name a))
         food_assistant_pipeline ''pancakes'') = Failed \<and>
   execute
         (\<lambda>a st q. if name a = ''NutritionAnalystAgent''
            then Inl (Exc OtherException ''model unavailable'') else Inr (name a))
         food_assistant_pipeline ''pancakes'' = Inl (Exc OtherException ''model unavailable'') \<and>
   dom (slots (run_pipeline
         (\<lambda>a st q. if name a = ''NutritionAnalystAgent''
            then Inl (Exc OtherException ''model unavailable'') else Inr (name a))
         food_assistant_pipeline ''pancakes'')) = {''recipe_result''}"
proof -
  let ?gen = "\<lambda>(a::llm_agent) (st::pipeline_state) (q::string).
      if name a = ''NutritionAnalystAgent''
      then (Inl (Exc OtherException ''model unavailable'') :: exc + string) else Inr (name a)"
  let ?r = "run_pipeline ?gen food_assistant_pipeline ''pancakes''"
  have ord: "food_assistant_pipeline = food_assistant_pipeline \<or>
      food_assistant_pipeline = food_assistant_pipeline4"
    by simp
  have k: "1 < length (trace ?r)"
    and fails: "outcome (trace ?r ! 1) = Inl (Exc OtherException ''model unavailable'')"
    by (simp_all add: run_pipeline_def run_step_def food_assistant_pipeline_def Let_def
        recipe_finder_agent_def nutrition_analyst_agent_def)
  note inst = failure_short_circuit [OF ord k fails]
  from inst have "dom (slots ?r) = set (take 1 (map output_key food_assistant_pipeline))"
    by blast
  then have d: "dom (slots ?r) = {''recipe_result''}"
    by (simp add: pipeline_keys)
  from ord k fails inst d show ?thesis by simp
qed

section \<open>Properties of the float model\<close>

lemma pow2_powi: "pow2 k = 2 powi k"
  by (simp add: pow2_def power_int_def inverse_eq_divide power_one_over)

lemma pow2_pos: "0 < pow2 k"
  by (simp add: pow2_powi)

lemma pow2_add: "pow2 (i + j) = pow2 i * pow2 j"
  by (simp add: pow2_powi power_int_add)

lemma pow2_mono: "i \<le> j \<Longrightarrow> pow2 i \<le> pow2 j"
  by (simp add: pow2_powi power_int_increasing)

lemma pow2_less_cancel: "pow2 i < pow2 j \<Longrightarrow> i < j"
  using pow2_mono [of j i] by (cases "i < j") auto

lemma pow2_nat: "pow2 (int n) = 2 ^ n"
  by (simp add: pow2_def)

lemma bit_length_bounds:
  "0 < n \<Longrightarrow> 2 ^ (bit_length n - 1) \<le> n \<and> n < 2 ^ bit_length n"
proof (induction n rule: bit_length.induct)
  case (1 n)
  show ?case
  proof (cases "n div 2 \<le> 0")
    case True
    with 1(2) have "n = 1" by linarith
    then show ?thesis
      by (simp add: bit_length.simps [of 1] bit_length.simps [of 0])
  next
    case False
    then have h: "0 < n div 2" by simp
    with 1 have IH: "2 ^ (bit_length (n div 2) - 1) \<le> n div 2" "n div 2 < 2 ^ bit_length (n div 2)"
      by auto
    have bl: "bit_length n = Suc (bit_length (n div 2))"
      using 1(2) by (subst bit_length.simps) simp
    have pos: "0 < bit_length (n div 2)"
      using h by (subst bit_length.simps) simp
    then obtain k where k: "bit_length (n div 2) = Suc k"
      by (cases "bit_length (n div 2)") auto
    from IH k have "2 * 2 ^ k \<le> 2 * (n div 2)" "2 * (n div 2) + 1 < 2 * 2 ^ Suc k"
      by simp_all
    moreover have "2 * (n div 2) \<le> n" "n \<le> 2 * (n div 2) + 1"
      by linarith+
    ultimately show ?thesis
      by (simp add: bl k)
  qed
qed

lemma bit_length_pos: "0 < n \<Longrightarrow> 0 < bit_length n"
  by (subst bit_length.simps) simp

lemma ilog2_bounds:
  assumes "0 < a"
  shows "pow2 (ilog2 a) \<le> a \<and> a < pow2 (ilog2 a + 1)"
proof -
  obtain n d where q: "quotient_of a = (n, d)"
    by (cases "quotient_of a")
  then have d: "0 < d" and a: "a = of_int n / of_int d"
    using quotient_of_denom_pos quotient_of_div by blast+
  with assms have n: "0 < n"
    by (simp add: zero_less_divide_iff)
  define k where "k = int (bit_length n) - int (bit_length d)"
  have il: "ilog2 a = (if pow2 k \<le> a then k else k - 1)"
    by (simp add: ilog2_def q k_def)
  from bit_length_bounds [OF n] bit_length_bounds [OF d] bit_length_pos [OF n] bit_length_pos [OF d]
  obtain i j where ij: "bit_length n = Suc i" "bit_length d = Suc j"
    and bn: "2 ^ i \<le> n" "n < 2 ^ Suc i" and bd: "2 ^ j \<le> d" "d < 2 ^ Suc j"
    by (cases "bit_length n"; cases "bit_length d") auto
  have kk: "k = int i - int j"
    by (simp add: k_def ij)
  have rn: "(2::rat) ^ i \<le> of_int n" "(of_int n :: rat) < 2 ^ Suc i"
    using bn by (metis of_int_le_iff of_int_numeral of_int_power, metis of_int_less_iff of_int_numeral of_int_power)
  have rd: "(2::rat) ^ j \<le> of_int d" "(of_int d :: rat) < 2 ^ Suc j"
    using bd by (metis of_int_le_iff of_int_numeral of_int_power, metis of_int_less_iff of_int_numeral of_int_power)
  have dpos: "(0::rat) < of_int d" using d by simp
  have lo: "pow2 (k - 1) < a"
  proof -
    have "k - 1 + int (Suc j) = int i" by (simp add: kk)
    then have "pow2 (k - 1) * pow2 (int (Suc j)) = pow2 (int i)"
      by (simp only: pow2_add [symmetric])
    then have e: "pow2 (k - 1) * 2 ^ Suc j = 2 ^ i"
      by (simp only: pow2_nat)
    have "pow2 (k - 1) * of_int d < pow2 (k - 1) * 2 ^ Suc j"
      using rd(2) pow2_pos [of "k - 1"] by (simp del: power_Suc)
    also have "\<dots> \<le> of_int n" using e rn(1) by simp
    finally show ?thesis
      using dpos by (simp add: a pos_less_divide_eq)
  qed
  have hi: "a < pow2 (k + 1)"
  proof -
    have "k + 1 + int j = int (Suc i)" by (simp add: kk)
    then have "pow2 (k + 1) * pow2 (int j) = pow2 (int (Suc i))"
      by (simp only: pow2_add [symmetric])
    then have e: "pow2 (k + 1) * 2 ^ j = 2 ^ Suc i"
      by (simp only: pow2_nat)
    have "of_int n < pow2 (k + 1) * 2 ^ j" using e rn(2) by simp
    also have "\<dots> \<le> pow2 (k + 1) * of_int d"
      using rd(1) pow2_pos [of "k + 1"] by simp
    finally show ?thesis
      using dpos by (simp add: a pos_divide_less_eq)
  qed
  show ?thesis
  proof (cases "pow2 k \<le> a")
    case True
    with il hi show ?thesis by simp
  next
    case False
    with il lo show ?thesis by simp
  qed
qed

lemma round_half_even_near: "\<bar>of_int (round_half_even q) - q\<bar> \<le> 1 / 2"
proof -
  have "of_int \<lfloor>q\<rfloor> \<le> q" "q < of_int \<lfloor>q\<rfloor> + 1"
    by linarith+
  then show ?thesis
    by (auto simp: round_half_even_def Let_def abs_le_iff)
qed

lemma round_half_even_int: "round_half_even (of_int n) = n"
  by (simp add: round_half_even_def)

lemma round_half_even_nonneg: "0 \<le> q \<Longrightarrow> 0 \<le> round_half_even q"
  by (auto simp: round_half_even_def Let_def)

lemma round_half_even_ge: "of_int n \<le> q \<Longrightarrow> n \<le> round_half_even q"
proof -
  assume "of_int n \<le> q"
  then have "n \<le> \<lfloor>q\<rfloor>" by (simp add: le_floor_iff)
  then show ?thesis by (auto simp: round_half_even_def Let_def)
qed

lemma pow2_0: "pow2 0 = 1"
  by (simp add: pow2_def)

lemma pow2_le_cancel: "pow2 i \<le> pow2 j \<Longrightarrow> i \<le> j"
proof (rule ccontr)
  assume le: "pow2 i \<le> pow2 j" and "\<not> i \<le> j"
  then have "j + 1 \<le> i" by simp
  have "pow2 1 = 2" by (simp add: pow2_def)
  with pow2_mono [OF \<open>j + 1 \<le> i\<close>] have "pow2 j * 2 \<le> pow2 i"
    by (simp add: pow2_add)
  with le pow2_pos [of j] show False by simp
qed

text \<open>The shape of a rounding that cannot overflow.\<close>

lemma round_double_small:
  assumes x: "x \<noteq> 0" and b: "\<bar>x\<bar> \<le> 2 ^ 30"
  obtains m s where "- 1074 \<le> s" "s \<le> - 22" "0 \<le> m"
    "\<bar>of_int m * pow2 s - \<bar>x\<bar>\<bar> \<le> pow2 s / 2"
    "pow2 (- 1074) \<le> \<bar>x\<bar> \<longrightarrow> 1 \<le> m"
    "round_double x =
       (if m = 0 then (if 0 < x then Finite 0 else NegZero)
        else Finite (if 0 < x then of_int m * pow2 s else - (of_int m * pow2 s)))"
proof -
  define a where "a = \<bar>x\<bar>"
  define s where "s = max (ilog2 a - 52) (- 1074)"
  define m where "m = round_half_even (a / pow2 s)"
  have a: "0 < a" using x by (simp add: a_def)
  from ilog2_bounds [OF a] have lo: "pow2 (ilog2 a) \<le> a" by simp
  have "pow2 (ilog2 a) \<le> pow2 30"
    using lo b by (simp add: a_def pow2_def)
  then have e: "ilog2 a \<le> 30" by (rule pow2_le_cancel)
  then have s1: "- 1074 \<le> s" and s2: "s \<le> - 22"
    by (simp_all add: s_def)
  have m0: "0 \<le> m"
    unfolding m_def using a pow2_pos [of s] by (intro round_half_even_nonneg) simp
  have "\<bar>of_int m - a / pow2 s\<bar> \<le> 1 / 2"
    unfolding m_def by (rule round_half_even_near)
  then have "\<bar>of_int m - a / pow2 s\<bar> * pow2 s \<le> 1 / 2 * pow2 s"
    using pow2_pos [of s] by (intro mult_right_mono) simp_all
  moreover have "\<bar>of_int m - a / pow2 s\<bar> * pow2 s = \<bar>of_int m * pow2 s - a\<bar>"
  proof -
    have "\<bar>of_int m - a / pow2 s\<bar> * pow2 s = \<bar>(of_int m - a / pow2 s) * pow2 s\<bar>"
      using pow2_pos [of s] by (simp add: abs_mult)
    also have "(of_int m - a / pow2 s) * pow2 s = of_int m * pow2 s - a"
      using pow2_pos [of s] by (simp add: algebra_simps)
    finally show ?thesis .
  qed
  ultimately have near: "\<bar>of_int m * pow2 s - \<bar>x\<bar>\<bar> \<le> pow2 s / 2"
    by (simp add: a_def)
  have ge: "pow2 (- 1074) \<le> \<bar>x\<bar> \<longrightarrow> 1 \<le> m"
  proof
    assume tiny: "pow2 (- 1074) \<le> \<bar>x\<bar>"
    have "pow2 (ilog2 a - 52) \<le> pow2 (ilog2 a)"
      by (rule pow2_mono) simp
    with lo have "pow2 (ilog2 a - 52) \<le> a" by simp
    with tiny have "pow2 s \<le> a"
      by (simp add: s_def a_def max_def)
    then have "of_int 1 \<le> a / pow2 s"
      using pow2_pos [of s] by (simp add: a_def pos_le_divide_eq)
    then show "1 \<le> m"
      unfolding m_def by (rule round_half_even_ge)
  qed
  have no: "\<not> (971 < s \<or> (s = 971 \<and> 2 ^ 53 \<le> m))"
    using s2 by simp
  have "round_double x =
       (if m = 0 then (if 0 < x then Finite 0 else NegZero)
        else Finite (if 0 < x then of_int m * pow2 s else - (of_int m * pow2 s)))"
    using x no unfolding round_double_def Let_def a_def [symmetric] s_def [symmetric] m_def [symmetric]
    by simp
  with s1 s2 m0 near ge show ?thesis
    by (rule that)
qed

lemma pow2_le_eps: "s \<le> - 22 \<Longrightarrow> pow2 s / 2 \<le> 1 / 2 ^ 23"
proof -
  assume "s \<le> - 22"
  from pow2_mono [OF this] have "pow2 s \<le> 1 / 2 ^ 22"
    by (simp add: pow2_def)
  then show ?thesis by simp
qed

lemma pow2_grid: "- 1074 \<le> s \<Longrightarrow> pow2 s = of_int (2 ^ nat (s + 1074)) * pow2 (- 1074)"
proof -
  assume "- 1074 \<le> s"
  then have "s = int (nat (s + 1074)) + (- 1074)" by simp
  then have "pow2 s = pow2 (int (nat (s + 1074))) * pow2 (- 1074)"
    by (metis pow2_add)
  then show ?thesis by (simp only: pow2_nat) simp
qed

text \<open>A rounding of a value of at most \<open>2 ^ 30\<close> is off by at most \<open>2 ^ - 23\<close>, and its
  result is a multiple of \<open>2 ^ - 1074\<close>.\<close>

lemma round_double_near:
  assumes b: "\<bar>x\<bar> \<le> 2 ^ 30"
  shows "(\<exists>v k. round_double x = Finite v \<and> \<bar>v - x\<bar> \<le> 1 / 2 ^ 23 \<and>
                v = of_int k * pow2 (- 1074)) \<or>
         (round_double x = NegZero \<and> \<bar>x\<bar> \<le> 1 / 2 ^ 23)"
proof (cases "x = 0")
  case True
  then have "round_double x = Finite 0 \<and> \<bar>0 - x\<bar> \<le> 1 / 2 ^ 23 \<and> (0::rat) = of_int 0 * pow2 (- 1074)"
    by (simp add: round_double_def)
  then show ?thesis by blast
next
  case False
  from round_double_small [OF False b] obtain m s where
    s: "- 1074 \<le> s" "s \<le> - 22" and m: "0 \<le> m"
    and near: "\<bar>of_int m * pow2 s - \<bar>x\<bar>\<bar> \<le> pow2 s / 2"
    and r: "round_double x =
       (if m = 0 then (if 0 < x then Finite 0 else NegZero)
        else Finite (if 0 < x then of_int m * pow2 s else - (of_int m * pow2 s)))"
    by blast
  from near pow2_le_eps [OF s(2)] have n: "\<bar>of_int m * pow2 s - \<bar>x\<bar>\<bar> \<le> 1 / 2 ^ 23"
    by simp
  have g: "of_int m * pow2 s = of_int (m * 2 ^ nat (s + 1074)) * pow2 (- 1074)"
    by (subst pow2_grid [OF s(1)]) simp
  show ?thesis
  proof (cases "m = 0")
    case True
    show ?thesis
    proof (cases "0 < x")
      case True
      with \<open>m = 0\<close> r n have "round_double x = Finite 0 \<and> \<bar>0 - x\<bar> \<le> 1 / 2 ^ 23 \<and>
          (0::rat) = of_int 0 * pow2 (- 1074)"
        by simp
      then show ?thesis by blast
    next
      case False
      with \<open>m = 0\<close> r n show ?thesis by simp
    qed
  next
    case nz: False
    show ?thesis
    proof (cases "0 < x")
      case True
      have r1: "round_double x = Finite (of_int m * pow2 s)"
        using r nz True by simp
      have n1: "\<bar>of_int m * pow2 s - x\<bar> \<le> 1 / 2 ^ 23"
        using n True by simp
      from r1 n1 g show ?thesis by blast
    next
      case False
      then have ax: "\<bar>x\<bar> = - x" by simp
      have "\<bar>- (of_int m * pow2 s) - x\<bar> = \<bar>of_int m * pow2 s - \<bar>x\<bar>\<bar>"
        unfolding ax by (metis abs_minus_cancel minus_diff_eq diff_minus_eq_add add.commute uminus_add_conv_diff)
      with n have n1: "\<bar>- (of_int m * pow2 s) - x\<bar> \<le> 1 / 2 ^ 23"
        by simp
      have r1: "round_double x = Finite (- (of_int m * pow2 s))"
        using r nz False by simp
      have g1: "- (of_int m * pow2 s) = of_int (- (m * 2 ^ nat (s + 1074))) * pow2 (- 1074)"
        by (subst g) simp
      from r1 n1 g1 show ?thesis by blast
    qed
  qed
qed

text \<open>A multiple of \<open>2 ^ - 1074\<close> never rounds to a negative zero.\<close>

lemma round_double_grid:
  assumes b: "\<bar>x\<bar> \<le> 2 ^ 30" and g: "x = of_int k * pow2 (- 1074)"
  shows "\<exists>v j. round_double x = Finite v \<and> \<bar>v - x\<bar> \<le> 1 / 2 ^ 23 \<and>
               v = of_int j * pow2 (- 1074)"
proof (cases "x = 0")
  case True
  then have "round_double x = Finite 0 \<and> \<bar>0 - x\<bar> \<le> 1 / 2 ^ 23 \<and> (0::rat) = of_int 0 * pow2 (- 1074)"
    by (simp add: round_double_def)
  then show ?thesis by blast
next
  case False
  from round_double_small [OF False b] obtain m s where
    ge: "pow2 (- 1074) \<le> \<bar>x\<bar> \<longrightarrow> 1 \<le> m"
    and r: "round_double x =
       (if m = 0 then (if 0 < x then Finite 0 else NegZero)
        else Finite (if 0 < x then of_int m * pow2 s else - (of_int m * pow2 s)))"
    by blast
  from False g have "k \<noteq> 0" by auto
  then have "1 \<le> \<bar>k\<bar>" by simp
  then have "(1::rat) \<le> \<bar>of_int k\<bar>"
    by (metis of_int_1_le_iff of_int_abs)
  then have "1 * pow2 (- 1074) \<le> \<bar>of_int k\<bar> * pow2 (- 1074)"
    using pow2_pos [of "- 1074"] by (intro mult_right_mono) simp_all
  then have "pow2 (- 1074) \<le> \<bar>x\<bar>"
    using pow2_pos [of "- 1074"] by (simp add: g abs_mult)
  with ge have "m \<noteq> 0" by simp
  with r have "round_double x \<noteq> NegZero" by simp
  with round_double_near [OF b] show ?thesis by blast
qed

text \<open>An integer of at most 53 bits is a double.\<close>

lemma round_double_int:
  assumes b: "\<bar>n\<bar> < 2 ^ 53"
  shows "round_double (of_int n) = Finite (of_int n)"
proof (cases "n = 0")
  case True
  then show ?thesis by (simp add: round_double_def)
next
  case False
  define a :: rat where "a = \<bar>of_int n\<bar>"
  define e where "e = ilog2 a"
  have "1 \<le> \<bar>n\<bar>" using False by simp
  then have a1: "1 \<le> a"
    unfolding a_def by (metis of_int_1_le_iff of_int_abs)
  then have a0: "0 < a" by simp
  from ilog2_bounds [OF a0] have lo: "pow2 e \<le> a" and hi: "a < pow2 (e + 1)"
    by (simp_all add: e_def)
  have "a < 2 ^ 53"
    using b unfolding a_def by (metis of_int_abs of_int_less_iff of_int_numeral of_int_power)
  then have "a < pow2 53" by (simp add: pow2_def)
  with lo have "pow2 e < pow2 53" by simp
  then have e1: "e < 53" by (rule pow2_less_cancel)
  from a1 hi have "pow2 0 < pow2 (e + 1)" by (simp add: pow2_0)
  then have e0: "0 \<le> e" using pow2_less_cancel [of 0 "e + 1"] by simp
  define s where "s = max (e - 52) (- 1074)"
  have s: "s = e - 52" using e0 by (simp add: s_def)
  define j where "j = nat (52 - e)"
  have "pow2 s * pow2 (int j) = pow2 0"
    unfolding pow2_add [symmetric] using e1 by (simp add: s j_def)
  then have inv: "pow2 s * 2 ^ j = 1"
    by (simp only: pow2_nat pow2_0)
  then have ps: "pow2 s = 1 / 2 ^ j"
    by (simp add: field_simps)
  have "a / pow2 s = a * 2 ^ j"
    by (simp add: ps)
  also have "\<dots> = of_int (\<bar>n\<bar> * 2 ^ j)"
    by (simp add: a_def)
  finally have q: "a / pow2 s = of_int (\<bar>n\<bar> * 2 ^ j)" .
  define m where "m = round_half_even (a / pow2 s)"
  have m: "m = \<bar>n\<bar> * 2 ^ j"
    unfolding m_def q by (rule round_half_even_int)
  have m0: "m \<noteq> 0" using False by (simp add: m)
  have val: "of_int m * pow2 s = a"
    by (simp add: m ps a_def)
  have no: "\<not> (971 < s \<or> (s = 971 \<and> 2 ^ 53 \<le> m))"
    using e1 by (simp add: s)
  have nz: "(of_int n :: rat) \<noteq> 0" using False by simp
  have "round_double (of_int n) =
      Finite (if 0 < (of_int n :: rat) then of_int m * pow2 s else - (of_int m * pow2 s))"
    using nz no m0
    unfolding round_double_def Let_def a_def [symmetric] e_def [symmetric] s_def [symmetric]
      m_def [symmetric]
    by simp
  also have "(if 0 < (of_int n :: rat) then of_int m * pow2 s else - (of_int m * pow2 s)) = of_int n"
    unfolding val by (simp add: a_def)
  finally show ?thesis .
qed

lemma grid_32: "\<exists>k. (32::rat) = of_int k * pow2 (- 1074)"
proof -
  define G :: int where "G = 2 ^ nat (0 + 1074)"
  have "pow2 0 = of_int G * pow2 (- 1074)"
    unfolding G_def by (rule pow2_grid) simp
  then have one: "of_int G * pow2 (- 1074) = 1"
    by (simp only: pow2_0)
  have "(32::rat) = of_int (32 * G) * pow2 (- 1074)"
    using one by (simp add: mult.assoc)
  then show ?thesis by blast
qed

lemma tri32: "\<bar>v - (b + 32)\<bar> \<le> e \<Longrightarrow> \<bar>b - y\<bar> \<le> d \<Longrightarrow> \<bar>v - (y + (32::rat))\<bar> \<le> d + e"
  by linarith

lemma fifth: "\<bar>a - c * 9\<bar> \<le> e \<Longrightarrow> \<bar>a / 5 - c * 9 / 5\<bar> \<le> (e::rat)"
  by linarith

lemma tri: "\<bar>a - b\<bar> \<le> e \<Longrightarrow> \<bar>b - c\<bar> \<le> d \<Longrightarrow> \<bar>a - c\<bar> \<le> e + (d::rat)"
  by linarith

lemma tri1: "\<bar>a - y\<bar> \<le> e \<Longrightarrow> \<bar>y\<bar> \<le> d \<Longrightarrow> \<bar>a\<bar> \<le> e + (d::rat)"
  by linarith

lemma tri0: "\<bar>b\<bar> \<le> e \<Longrightarrow> \<bar>b - c\<bar> \<le> d \<Longrightarrow> \<bar>c\<bar> \<le> e + (d::rat)"
  by linarith

text \<open>The final addition \<open>+ 32\<close>, after a quotient \<open>f\<close> that is within \<open>d\<close> of \<open>y\<close>.\<close>

lemma plus_32:
  assumes f: "(\<exists>b k. f = Finite b \<and> \<bar>b - y\<bar> \<le> d \<and> b = of_int k * pow2 (- 1074)) \<or>
      (f = NegZero \<and> \<bar>y\<bar> \<le> d)"
    and y: "\<bar>y\<bar> \<le> 2 ^ 29" and d: "d \<le> 1"
  shows "\<exists>q. fadd_pos f 32 = Finite q \<and> \<bar>q - (y + 32)\<bar> \<le> d + 1 / 2 ^ 23"
  using f
proof
  assume "\<exists>b k. f = Finite b \<and> \<bar>b - y\<bar> \<le> d \<and> b = of_int k * pow2 (- 1074)"
  then obtain b k where fb: "f = Finite b" and n: "\<bar>b - y\<bar> \<le> d"
    and g: "b = of_int k * pow2 (- 1074)"
    by blast
  from grid_32 obtain k' where g32: "(32::rat) = of_int k' * pow2 (- 1074)" by blast
  have g': "b + 32 = of_int (k + k') * pow2 (- 1074)"
    by (subst g, subst g32) (simp add: algebra_simps)
  have "\<bar>b + 32\<bar> \<le> 2 ^ 30"
    using n y d by (simp add: abs_le_iff; linarith)
  from round_double_grid [OF this g'] obtain v where
    v: "round_double (b + 32) = Finite v" "\<bar>v - (b + 32)\<bar> \<le> 1 / 2 ^ 23"
    by blast
  from v(2) n have "\<bar>v - (y + 32)\<bar> \<le> d + 1 / 2 ^ 23"
    by (rule tri32)
  with v(1) fb show ?thesis by simp
next
  assume z: "f = NegZero \<and> \<bar>y\<bar> \<le> d"
  have "round_double (of_int 32) = Finite (of_int 32)"
    by (rule round_double_int) simp
  then have "round_double 32 = Finite 32" by simp
  moreover have "\<bar>32 - (y + 32)\<bar> \<le> d + 1 / 2 ^ 23"
    using z by (simp add: abs_le_iff; linarith)
  ultimately show ?thesis using z by simp
qed

lemma fahrenheit_int_near:
  assumes n: "\<bar>n\<bar> \<le> 10 ^ 8"
  shows "\<exists>q. fahrenheit (PInt n) = Inr (PFloat (Finite q)) \<and>
              \<bar>q - (of_int n * 9 / 5 + 32)\<bar> \<le> 1 / 10 ^ 6"
proof -
  define y :: rat where "y = of_int n * 9 / 5"
  have "\<bar>of_int n :: rat\<bar> \<le> 10 ^ 8"
    using n by (metis of_int_abs of_int_le_iff of_int_numeral of_int_power)
  then have y: "\<bar>y\<bar> \<le> 2 ^ 29"
    by (simp add: y_def abs_le_iff; linarith)
  then have y30: "\<bar>y\<bar> \<le> 2 ^ 30" by simp
  have q: "(of_int (n * 9) :: rat) / of_int 5 = y"
    by (simp add: y_def)
  from round_double_near [OF y30] have
    c: "(\<exists>b k. round_double y = Finite b \<and> \<bar>b - y\<bar> \<le> 1 / 2 ^ 23 \<and> b = of_int k * pow2 (- 1074)) \<or>
        (round_double y = NegZero \<and> \<bar>y\<bar> \<le> 1 / 2 ^ 23)"
    by blast
  then have d: "int_truediv (n * 9) 5 = Inr (round_double y)"
    unfolding int_truediv_def q by auto
  from plus_32 [OF c y] obtain v where
    v: "fadd_pos (round_double y) 32 = Finite v" "\<bar>v - (y + 32)\<bar> \<le> 1 / 2 ^ 23 + 1 / 2 ^ 23"
    by auto
  from v(2) have "\<bar>v - (y + 32)\<bar> \<le> 1 / 10 ^ 6" by simp
  with v(1) d show ?thesis
    by (simp add: fahrenheit_def bindE_def y_def)
qed

lemma fahrenheit_float_near:
  assumes c: "\<bar>c\<bar> \<le> 10 ^ 8"
  shows "\<exists>q. fahrenheit (PFloat (Finite c)) = Inr (PFloat (Finite q)) \<and>
              \<bar>q - (c * 9 / 5 + 32)\<bar> \<le> 1 / 10 ^ 6"
proof -
  define y :: rat where "y = c * 9 / 5"
  have y: "\<bar>y\<bar> \<le> 2 ^ 29"
    using c by (simp add: y_def abs_le_iff; linarith)
  have c9: "\<bar>c * 9\<bar> \<le> 2 ^ 30"
    using c by (simp add: abs_le_iff; linarith)
  define f1 where "f1 = round_double (c * 9)"
  define f2 where "f2 = fdiv_pos f1 5"
  have two: "(\<exists>b k. f2 = Finite b \<and> \<bar>b - y\<bar> \<le> 1 / 2 ^ 22 \<and> b = of_int k * pow2 (- 1074)) \<or>
      (f2 = NegZero \<and> \<bar>y\<bar> \<le> 1 / 2 ^ 22)"
  proof -
    from round_double_near [OF c9] consider
      a where "f1 = Finite a" "\<bar>a - c * 9\<bar> \<le> 1 / 2 ^ 23"
      | "f1 = NegZero" "\<bar>c * 9\<bar> \<le> 1 / 2 ^ 23"
      unfolding f1_def by blast
    then show ?thesis
    proof cases
      case 1
      have a5: "\<bar>a / 5 - y\<bar> \<le> 1 / 2 ^ 23"
        unfolding y_def using 1(2) by (rule fifth)
      have "\<bar>a / 5\<bar> \<le> 2 ^ 30"
        using tri1 [OF a5 y] by simp
      from round_double_near [OF this] consider
        b k where "round_double (a / 5) = Finite b" "\<bar>b - a / 5\<bar> \<le> 1 / 2 ^ 23"
          "b = of_int k * pow2 (- 1074)"
        | "round_double (a / 5) = NegZero" "\<bar>a / 5\<bar> \<le> 1 / 2 ^ 23"
        by blast
      then show ?thesis
      proof cases
        case 1
        from tri [OF 1(2) a5] have "\<bar>b - y\<bar> \<le> 1 / 2 ^ 22"
          by simp
        with 1(1,3) \<open>f1 = Finite a\<close> show ?thesis
          unfolding f2_def by auto
      next
        case 2
        from tri0 [OF 2(2) a5] have "\<bar>y\<bar> \<le> 1 / 2 ^ 22"
          by simp
        with 2(1) \<open>f1 = Finite a\<close> show ?thesis
          unfolding f2_def by simp
      qed
    next
      case 2
      from 2(2) have "\<bar>y\<bar> \<le> 1 / 2 ^ 22"
        by (simp add: y_def abs_le_iff; linarith)
      with 2(1) show ?thesis unfolding f2_def by simp
    qed
  qed
  from plus_32 [OF two y] obtain v where
    v: "fadd_pos f2 32 = Finite v" "\<bar>v - (y + 32)\<bar> \<le> 1 / 2 ^ 22 + 1 / 2 ^ 23"
    by auto
  from v(2) have "\<bar>v - (y + 32)\<bar> \<le> 1 / 10 ^ 6" by simp
  with v(1) show ?thesis
    by (simp add: fahrenheit_def f2_def f1_def y_def)
qed

lemma fahrenheit_int_exact:
  assumes n: "\<bar>n\<bar> \<le> 10 ^ 8" and five: "5 dvd n"
  shows "fahrenheit (PInt n) = Inr (PFloat (Finite (of_int n * 9 / 5 + 32)))"
proof -
  from five obtain k where k: "n = 5 * k" by (auto simp: dvd_def)
  with n have kb: "\<bar>k\<bar> \<le> 10 ^ 8" by simp
  have q: "(of_int (n * 9) :: rat) / of_int 5 = of_int (9 * k)"
    by (simp add: k)
  have "round_double (of_int (9 * k)) = Finite (of_int (9 * k))"
    using kb by (intro round_double_int) simp
  then have d: "int_truediv (n * 9) 5 = Inr (Finite (of_int (9 * k)))"
    unfolding int_truediv_def q by simp
  have "round_double (of_int (9 * k + 32)) = Finite (of_int (9 * k + 32))"
    using kb by (intro round_double_int) simp
  then have "fadd_pos (Finite (of_int (9 * k))) 32 = Finite (of_int (9 * k + 32))"
    by simp
  with d show ?thesis
    by (simp add: fahrenheit_def bindE_def k)
qed

lemma digit_char:
  "n < 10 \<Longrightarrow> is_digit (''0123456789'' ! n) \<and> digit_value (''0123456789'' ! n) = n"
proof -
  assume "n < 10"
  then have "n \<in> {0, 1, 2, 3, 4, 5, 6, 7, 8, 9}" by auto
  then show ?thesis
    by (auto simp: is_digit_def digit_value_def)
qed

lemma decimal_value_snoc: "decimal_value (ds @ [c]) = 10 * decimal_value ds + digit_value c"
  by (simp add: decimal_value_def)

lemma str_nat_digits:
  "str_nat n \<noteq> [] \<and> list_all is_digit (str_nat n) \<and> decimal_value (str_nat n) = n"
proof (induction n rule: str_nat.induct)
  case (1 n)
  show ?case
  proof (cases "n < 10")
    case True
    with digit_char [OF True] show ?thesis
      by (subst (1 2 3) str_nat.simps) (simp add: decimal_value_def)
  next
    case False
    have m: "n mod 10 < 10" by simp
    from False 1 have IH: "str_nat (n div 10) \<noteq> []" "list_all is_digit (str_nat (n div 10))"
      "decimal_value (str_nat (n div 10)) = n div 10"
      by simp_all
    have e: "str_nat n = str_nat (n div 10) @ [''0123456789'' ! (n mod 10)]"
      using False by (subst str_nat.simps) simp
    from IH digit_char [OF m] show ?thesis
      unfolding e by (simp add: decimal_value_snoc)
  qed
qed

lemma str_nat_digit: "n < 10 \<Longrightarrow> str_nat n = [''0123456789'' ! n]"
  by (subst str_nat.simps) simp

text \<open>The text of \<open>n / 10\<close> with one decimal.\<close>

lemma fixed1_reads:
  assumes "0 \<le> n"
  shows "\<exists>ds d. fixed1 n = ds @ ''.'' @ [d] \<and> ds \<noteq> [] \<and> list_all is_digit ds \<and> is_digit d \<and>
           of_nat (decimal_value ds) + of_nat (digit_value d) / 10 = (of_int n / 10 :: rat)"
proof -
  define k where "k = nat (n div 10)"
  define r where "r = nat (n mod 10)"
  have r: "r < 10" using assms by (simp add: r_def)
  have "0 \<le> n div 10" using assms by (simp add: pos_imp_zdiv_nonneg_iff)
  then have n: "n = 10 * int k + int r"
    using assms by (simp add: k_def r_def)
  have f: "fixed1 n = str_nat k @ ''.'' @ [''0123456789'' ! r]"
    by (simp add: fixed1_def k_def [symmetric] r_def [symmetric] str_nat_digit [OF r])
  have "(of_nat k :: rat) + of_nat r / 10 = of_int n / 10"
    by (simp add: n)
  with f str_nat_digits [of k] digit_char [OF r] show ?thesis
    by auto
qed

lemma format_f1_float:
  "\<exists>ds d. format_f1 (PFloat (Finite q)) = Inr ((if q < 0 then ''-'' else []) @ ds @ ''.'' @ [d]) \<and>
     ds \<noteq> [] \<and> list_all is_digit ds \<and> is_digit d \<and>
     \<bar>of_nat (decimal_value ds) + of_nat (digit_value d) / 10 - \<bar>q\<bar>\<bar> \<le> 1 / 20"
proof -
  define n where "n = round_half_even (\<bar>q\<bar> * 10)"
  have n0: "0 \<le> n"
    unfolding n_def by (rule round_half_even_nonneg) simp
  from fixed1_reads [OF n0] obtain ds d where
    f: "fixed1 n = ds @ ''.'' @ [d]" "ds \<noteq> []" "list_all is_digit ds" "is_digit d"
    and v: "of_nat (decimal_value ds) + of_nat (digit_value d) / 10 = (of_int n / 10 :: rat)"
    by blast
  have "\<bar>of_int n - \<bar>q\<bar> * 10\<bar> \<le> 1 / 2"
    unfolding n_def by (rule round_half_even_near)
  then have "\<bar>of_int n / 10 - \<bar>q\<bar>\<bar> \<le> 1 / 20"
    by linarith
  then have "\<bar>of_nat (decimal_value ds) + of_nat (digit_value d) / 10 - \<bar>q\<bar>\<bar> \<le> 1 / 20"
    unfolding v .
  moreover have "float_f1 (Finite q) = (if q < 0 then ''-'' else []) @ fixed1 n"
    unfolding n_def
    by (cases "q < 0") (simp_all only: float_f1.simps if_True if_False append_Cons append_Nil)
  then have "format_f1 (PFloat (Finite q)) = Inr ((if q < 0 then ''-'' else []) @ ds @ ''.'' @ [d])"
    by (simp only: format_f1_def pyval.case f(1))
  ultimately show ?thesis using f by blast
qed

lemma format_f1_int:
  assumes "\<bar>n\<bar> < 2 ^ 53"
  shows "\<exists>ds. format_f1 (PInt n) = Inr ((if n < 0 then ''-'' else []) @ ds @ ''.0'') \<and>
     ds \<noteq> [] \<and> list_all is_digit ds \<and> int (decimal_value ds) = \<bar>n\<bar>"
proof -
  have fl: "float_of_int n = Inr (Finite (of_int n))"
    using round_double_int [OF assms] by (simp add: float_of_int_def)
  have "round_half_even (\<bar>of_int n\<bar> * 10) = \<bar>n\<bar> * 10"
    using round_half_even_int [of "\<bar>n\<bar> * 10"] by simp
  then have fx: "fixed1 (round_half_even (\<bar>of_int n\<bar> * 10)) = str_nat (nat \<bar>n\<bar>) @ ''.0''"
    by (simp add: fixed1_def str_nat_digit)
  have "float_f1 (Finite (of_int n)) =
      (if n < 0 then ''-'' else []) @ fixed1 (round_half_even (\<bar>of_int n\<bar> * 10))"
    by (cases "n < 0")
      (simp_all only: float_f1.simps of_int_less_0_iff if_True if_False append_Cons append_Nil)
  then have "float_f1 (Finite (of_int n)) = (if n < 0 then ''-'' else []) @ str_nat (nat \<bar>n\<bar>) @ ''.0''"
    by (simp only: fx)
  then have "format_f1 (PInt n) = Inr ((if n < 0 then ''-'' else []) @ str_nat (nat \<bar>n\<bar>) @ ''.0'')"
    by (simp only: format_f1_def fl bindE_def pyval.case sum.case)
  with str_nat_digits [of "nat \<bar>n\<bar>"] show ?thesis by auto
qed

section \<open>Properties of the adapters\<close>

lemma bindE_simps [simp]:
  "bindE (Inl e) f = Inl e"
  "bindE (Inr v) f = f v"
  by (simp_all add: bindE_def)

lemma bindE_eq_Inr: "bindE m f = Inr v \<longleftrightarrow> (\<exists>x. m = Inr x \<and> f x = Inr v)"
  by (cases m) simp_all

lemma py_eq_PStr [simp]: "py_eq (PStr s) y = (y = PStr s)"
  by (auto simp: py_eq_def)

lemma py_eq_PInt: "py_eq (PInt k) y = same_or_eq (PInt k) y"
  by (simp add: py_eq_def)

lemma py_eq_PInt_PInt [simp]: "py_eq (PInt a) (PInt b) = (a = b)"
  by (simp add: py_eq_def)

lemma dict_get_PDict [simp]:
  "dict_get (PDict kvs) k d = Inr (case map_of kvs k of None \<Rightarrow> d | Some v \<Rightarrow> v)"
  by (simp add: dict_get_def)

lemma subscript_key_PDict [simp]:
  "subscript_key (PDict kvs) k =
     (case map_of kvs k of None \<Rightarrow> Inl (Exc KeyError (sq k)) | Some v \<Rightarrow> Inr v)"
  by (simp add: subscript_key_def)

lemma raise_for_status_ok [simp]:
  "\<not> (400 \<le> status_code r \<and> status_code r < 600) \<Longrightarrow> raise_for_status r = Inr ()"
  by (simp add: raise_for_status_def)

lemma raise_for_status_error [simp]:
  "400 \<le> status_code r \<Longrightarrow> status_code r < 600 \<Longrightarrow>
   raise_for_status r = Inl (Exc RequestException (error_text r))"
  by (simp add: raise_for_status_def)

lemma except_request_simps [simp]:
  "except_request h (Inr v) = Inr v"
  "is_request_exception e \<Longrightarrow> except_request h (Inl e) = Inr (h e)"
  "\<not> is_request_exception e \<Longrightarrow> except_request h (Inl e) = Inl e"
  by (simp_all add: except_request_def)

lemma except_exception_simps [simp]:
  "except_exception h (Inr v) = Inr v"
  "except_exception h (Inl e) = Inr (h e)"
  by (simp_all add: except_exception_def)

lemma is_request_exception_Exc [simp]:
  "is_request_exception (Exc c m) \<longleftrightarrow> c = RequestException"
  by (simp add: is_request_exception_def)

lemma geocode_city_empty:
  assumes "requests_get rt (geocode_request nm) = Inr res"
    and "\<not> (400 \<le> status_code res \<and> status_code res < 600)"
    and "json res = Inr (PDict body)"
    and "map_of body ''results'' = Some (PList [])"
  shows "geocode_city rt nm =
           ([geocode_request nm], Inr (error_result (PStr (''City '' @ sq nm @ '' not found.''))))"
  using assms by (simp add: geocode_city_def)

lemma geocode_city_found:
  assumes "requests_get rt (geocode_request nm) = Inr res"
    and "\<not> (400 \<le> status_code res \<and> status_code res < 600)"
    and "json res = Inr (PDict body)"
    and "map_of body ''results'' = Some (PList (PDict city # others))"
  shows "geocode_city rt nm =
           ([geocode_request nm],
            Inr (geo_success
                   (case map_of city ''name'' of None \<Rightarrow> PNone | Some v \<Rightarrow> v)
                   (case map_of city ''latitude'' of None \<Rightarrow> PNone | Some v \<Rightarrow> v)
                   (case map_of city ''longitude'' of None \<Rightarrow> PNone | Some v \<Rightarrow> v)
                   (case map_of city ''timezone'' of None \<Rightarrow> PNone | Some v \<Rightarrow> v)))"
  using assms by (simp add: geocode_city_def subscript_def)

lemma geocode_city_cases:
  "\<exists>out. geocode_city rt nm = ([geocode_request nm], out) \<and>
     ((\<exists>e. out = Inl e) \<or> (\<exists>msg. out = Inr (error_result (PStr msg))) \<or>
      (\<exists>place lat lon tz. out = Inr (geo_success place lat lon tz)))"
  unfolding geocode_city_def except_request_def Let_def bindE_def
  by (auto split: sum.splits) blast

lemma get_weather_after_geocode:
  assumes "geocode_city rt city = (sent, Inr (geo_success place lat lon tz))"
  shows "get_weather rt city =
           (sent @ [forecast_request lat lon],
            except_request (\<lambda>e. error_result (PStr (''Weather lookup failed: '' @ exc_str e)))
              (bindE (requests_get rt (forecast_request lat lon)) (\<lambda>resp.
               bindE (raise_for_status resp) (\<lambda>u.
               bindE (json resp) (\<lambda>data.
               current_weather_report rt place data)))))"
  using assms by (simp add: get_weather_def geo_field_def geo_success_def)

lemma get_weather_geocode_error:
  assumes "geocode_city rt city = (sent, Inr (error_result msg))"
  shows "get_weather rt city = (sent, Inr (error_result msg))"
  using assms by (simp add: get_weather_def error_result_def)

lemma get_current_time_after_geocode:
  assumes "geocode_city rt city = (sent, Inr (geo_success place lat lon tz))"
  shows "get_current_time rt city =
           (sent @ [time_request tz],
            except_exception time_handler
              (bindE (requests_get rt (time_request tz)) (\<lambda>r.
               bindE (raise_for_status r) (\<lambda>u.
               bindE (json r) (\<lambda>data.
               time_report rt tz data)))))"
  using assms by (simp add: get_current_time_def geo_field_def geo_success_def)

lemma current_weather_report_Inr:
  "current_weather_report rt place data = Inr res \<longleftrightarrow>
   (\<exists>cw hourly times' hums tnow humidity code desc tc tf tcs tfs wind.
      dict_get data ''current_weather'' (PDict []) = Inr cw \<and>
      dict_get data ''hourly'' (PDict []) = Inr hourly \<and>
      dict_get hourly ''time'' (PList []) = Inr times' \<and>
      dict_get hourly ''relativehumidity_2m'' (PList []) = Inr hums \<and>
      dict_get cw ''time'' PNone = Inr tnow \<and>
      align_humidity tnow times' hums = Inr humidity \<and>
      dict_get cw ''weathercode'' PNone = Inr code \<and>
      weather_desc code = Inr desc \<and>
      dict_get cw ''temperature'' PNone = Inr tc \<and>
      fahrenheit tc = Inr tf \<and>
      format_f1 tc = Inr tcs \<and>
      format_f1 tf = Inr tfs \<and>
      dict_get cw ''windspeed'' (PStr ''N/A'') = Inr wind \<and>
      res = success_report
              (weather_sentence (py_str rt place) desc tcs tfs (py_str rt humidity)
                 (py_str rt wind)))"
  unfolding current_weather_report_def bindE_eq_Inr
  by (auto simp del: dict_get_PDict)

lemma web_simps [simp]:
  "requests_get (sample_runtime pages) req = web pages req"
  "fromisoformat (sample_runtime pages) = sample_iso"
  "float_repr (sample_runtime pages) = float_f1"
  "strftime_other (sample_runtime pages) = (\<lambda>dt fmt. Inl (Exc ValueError ''Invalid format string''))"
  "sqlite_rows (sample_runtime pages) = (\<lambda>path pattern. Inr sample_rows)"
  by (simp_all add: sample_runtime_def)

text \<open>
  Claim C7. When the geocoding service answers with an empty results list,
  \<open>geocode_city\<close> returns the dictionary with status \<open>error\<close> and the error message
  \<open>City '<name>' not found.\<close>, a text that contains the queried name, and
  \<open>get_weather\<close> for the same query returns a dictionary with status \<open>error\<close> and exactly
  that error message, after the geocoding request alone.
\<close>

theorem geocode_not_found_passes_through:
  assumes "requests_get rt
             \<lparr>url = ''https://geocoding-api.open-meteo.com/v1/search'',
              params = [(''name'', PStr nm), (''count'', PInt 1), (''language'', PStr ''en''),
                        (''format'', PStr ''json'')],
              timeout = Some 5\<rparr> = Inr res"
    and "\<not> (400 \<le> status_code res \<and> status_code res < 600)"
    and "json res = Inr (PDict body)"
    and "map_of body ''results'' = Some (PList [])"
  shows "geocode_city rt nm =
           ([\<lparr>url = ''https://geocoding-api.open-meteo.com/v1/search'',
              params = [(''name'', PStr nm), (''count'', PInt 1), (''language'', PStr ''en''),
                        (''format'', PStr ''json'')],
              timeout = Some 5\<rparr>],
            Inr (PDict [(''status'', PStr ''error''),
                        (''error_message'',
                         PStr (''City '' @ [CHR 0x27] @ nm @ [CHR 0x27] @ '' not found.''))])) \<and>
         sublist nm (''City '' @ [CHR 0x27] @ nm @ [CHR 0x27] @ '' not found.'') \<and>
         get_weather rt nm =
           ([\<lparr>url = ''https://geocoding-api.open-meteo.com/v1/search'',
              params = [(''name'', PStr nm), (''count'', PInt 1), (''language'', PStr ''en''),
                        (''format'', PStr ''json'')],
              timeout = Some 5\<rparr>],
            Inr (PDict [(''status'', PStr ''error''),
                        (''error_message'',
                         PStr (''City '' @ [CHR 0x27] @ nm @ [CHR 0x27] @ '' not found.''))]))"
proof -
  have g: "geocode_city rt nm =
      ([geocode_request nm], Inr (error_result (PStr (''City '' @ sq nm @ '' not found.''))))"
    using assms by (intro geocode_city_empty) (simp_all add: geocode_request_def)
  have s: "sublist nm (''City '' @ [CHR 0x27] @ nm @ [CHR 0x27] @ '' not found.'')"
    unfolding sublist_def
    by (intro exI [of _ "''City '' @ [CHR 0x27]"] exI [of _ "[CHR 0x27] @ '' not found.''"]) simp
  from g s get_weather_geocode_error [OF g] show ?thesis
    by (simp add: geocode_request_def error_result_def sq_def)
qed

theorem geocode_not_found_passes_through_witness:
  "geocode_city (sample_runtime [(geocode_url, ok_response no_results)]) ''Nonexistent City XYZ'' =
     ([\<lparr>url = ''https://geocoding-api.open-meteo.com/v1/search'',
        params = [(''name'', PStr ''Nonexistent City XYZ''), (''count'', PInt 1),
                  (''language'', PStr ''en''), (''format'', PStr ''json'')],
        timeout = Some 5\<rparr>],
      Inr (PDict [(''status'', PStr ''error''),
                  (''error_message'',
                   PStr (''City '' @ [CHR 0x27] @ ''Nonexistent City XYZ'' @ [CHR 0x27]
                           @ '' not found.''))])) \<and>
   get_weather (sample_runtime [(geocode_url, ok_response no_results)]) ''Nonexistent City XYZ'' =
     ([\<lparr>url = ''https://geocoding-api.open-meteo.com/v1/search'',
        params = [(''name'', PStr ''Nonexistent City XYZ''), (''count'', PInt 1),
                  (''language'', PStr ''en''), (''format'', PStr ''json'')],
        timeout = Some 5\<rparr>],
      Inr (PDict [(''status'', PStr ''error''),
                  (''error_message'',
                   PStr (''City '' @ [CHR 0x27] @ ''Nonexistent City XYZ'' @ [CHR 0x27]
                           @ '' not found.''))]))"
proof -
  let ?rt = "sample_runtime [(geocode_url, ok_response no_results)]"
  have a: "requests_get ?rt
      \<lparr>url = ''https://geocoding-api.open-meteo.com/v1/search'',
       params = [(''name'', PStr ''Nonexistent City XYZ''), (''count'', PInt 1),
                 (''language'', PStr ''en''), (''format'', PStr ''json'')],
       timeout = Some 5\<rparr> = Inr (ok_response no_results)"
    by (simp add: web_def geocode_url_def)
  have b: "\<not> (400 \<le> status_code (ok_response no_results) \<and>
      status_code (ok_response no_results) < 600)"
    by (simp add: ok_response_def)
  have c: "json (ok_response no_results) = Inr (PDict [(''results'', PList [])])"
    by (simp add: ok_response_def no_results_def)
  have d: "map_of [(''results'', PList [])] ''results'' = Some (PList [])"
    by simp
  from geocode_not_found_passes_through [OF a b c d] show ?thesis by simp
qed



text \<open>
  Claim C3 says that no adapter lets an exception escape, whatever the services answer.
  \<open>geocode_city\<close> and \<open>get_weather\<close> catch \<open>requests.RequestException\<close> only, and
  \<open>get_current_time\<close> calls \<open>geocode_city\<close> outside its \<open>try\<close>. A forecast without
  \<open>current_weather\<close> makes \<open>get_weather\<close> raise a \<open>TypeError\<close> (the temperature is
  \<open>None\<close> and is formatted with \<open>.1f\<close>); a geocoding body that is a JSON array makes
  \<open>geocode_city\<close>, and with it \<open>get_current_time\<close>, raise an \<open>AttributeError\<close>.
\<close>

theorem adapters_let_exceptions_escape:
  "snd (get_weather
          (sample_runtime [(geocode_url, ok_response paris),
                           (forecast_url, ok_response forecast_no_current)]) ''Paris'') =
     Inl (Exc TypeError ''unsupported format string passed to NoneType.__format__'') \<and>
   snd (geocode_city (sample_runtime [(geocode_url, ok_response (PList []))]) ''Paris'') =
     Inl (Exc AttributeError (sq ''list'' @ '' object has no attribute '' @ sq ''get'')) \<and>
   snd (get_current_time (sample_runtime [(geocode_url, ok_response (PList []))]) ''Paris'') =
     Inl (Exc AttributeError (sq ''list'' @ '' object has no attribute '' @ sq ''get''))"
  by code_simp

text \<open>
  Claim C6 says that an empty humidity series is reported as unknown humidity. When the
  current timestamp occurs in the hourly timestamps and the humidity series is missing
  or shorter, the index is used unguarded and \<open>get_weather\<close> raises an \<open>IndexError\<close>;
  only the other branch tests the series for emptiness.
\<close>

theorem humidity_index_error:
  "snd (get_weather
          (sample_runtime [(geocode_url, ok_response paris),
                           (forecast_url, ok_response forecast_no_humidity)]) ''Paris'') =
     Inl (Exc IndexError ''list index out of range'')"
  by code_simp

lemma list_ex_first_index: "list_ex P xs \<longleftrightarrow> first_index P xs \<noteq> None"
  by (induction xs) auto

lemma first_index_Some:
  "first_index P xs = Some i \<Longrightarrow> i < length xs \<and> P (xs ! i) \<and> (\<forall>j < i. \<not> P (xs ! j))"
proof (induction xs arbitrary: i)
  case Nil
  then show ?case by simp
next
  case (Cons x xs)
  show ?case
  proof (cases "P x")
    case True
    with Cons.prems show ?thesis by simp
  next
    case False
    with Cons.prems obtain k where k: "first_index P xs = Some k" and i: "i = Suc k"
      by auto
    from Cons.IH [OF k] False i show ?thesis
      by (auto simp: less_Suc_eq_0_disj)
  qed
qed

lemma align_humidity_lists:
  "align_humidity tnow (PList ts) (PList hs) =
     (case first_index (\<lambda>y. same_or_eq y tnow) ts of
        Some i \<Rightarrow>
          if i < length hs then Inr (hs ! i) else Inl (Exc IndexError ''list index out of range'')
      | None \<Rightarrow> if hs \<noteq> [] then Inr (hs ! 0) else Inr PNone)"
  by (auto simp: align_humidity_def py_in_def py_index_def subscript_def list_ex_first_index
      split: option.splits)

lemma get_weather_success:
  assumes gw: "get_weather rt city = (sent, Inr res)"
    and st: "dict_get res ''status'' PNone = Inr (PStr ''success'')"
  shows "\<exists>place lat lon tz resp data.
           geocode_city rt city = ([geocode_request city], Inr (geo_success place lat lon tz)) \<and>
           sent = [geocode_request city, forecast_request lat lon] \<and>
           requests_get rt (forecast_request lat lon) = Inr resp \<and>
           raise_for_status resp = Inr () \<and>
           json resp = Inr data \<and>
           current_weather_report rt place data = Inr res"
proof -
  from geocode_city_cases [of rt city] obtain out
    where g: "geocode_city rt city = ([geocode_request city], out)"
      and c: "(\<exists>e. out = Inl e) \<or> (\<exists>msg. out = Inr (error_result (PStr msg))) \<or>
        (\<exists>place lat lon tz. out = Inr (geo_success place lat lon tz))"
    by blast
  from c consider e where "out = Inl e" | msg where "out = Inr (error_result (PStr msg))"
    | place lat lon tz where "out = Inr (geo_success place lat lon tz)"
    by blast
  then show ?thesis
  proof cases
    case 1
    with g gw show ?thesis by (simp add: get_weather_def)
  next
    case 2
    with g have "get_weather rt city = ([geocode_request city], Inr (error_result (PStr msg)))"
      by (simp add: get_weather_geocode_error)
    with gw st show ?thesis by (auto simp: error_result_def)
  next
    case 3
    let ?m = "bindE (requests_get rt (forecast_request lat lon)) (\<lambda>resp.
               bindE (raise_for_status resp) (\<lambda>u.
               bindE (json resp) (\<lambda>data.
               current_weather_report rt place data)))"
    from 3 g have g': "geocode_city rt city =
        ([geocode_request city], Inr (geo_success place lat lon tz))"
      by simp
    from get_weather_after_geocode [OF g'] gw
    have sent: "sent = [geocode_request city, forecast_request lat lon]"
      and ex: "except_request (\<lambda>e. error_result (PStr (''Weather lookup failed: '' @ exc_str e)))
                 ?m = Inr res"
      by simp_all
    have m: "?m = Inr res"
    proof (cases ?m)
      case (Inl e)
      with ex st show ?thesis
        by (cases "is_request_exception e") (auto simp: error_result_def)
    next
      case (Inr v)
      with ex show ?thesis by simp
    qed
    then obtain resp data where "requests_get rt (forecast_request lat lon) = Inr resp"
      "raise_for_status resp = Inr ()" "json resp = Inr data"
      "current_weather_report rt place data = Inr res"
      by (auto simp: bindE_eq_Inr)
    with g' sent show ?thesis by blast
  qed
qed

text \<open>What a successful \<open>get_weather\<close> returned, with the requests and dictionaries
  written out.\<close>

lemma get_weather_report:
  assumes gw: "get_weather rt city = (sent, Inr res)"
    and st: "dict_get res ''status'' PNone = Inr (PStr ''success'')"
  shows "\<exists>place lat lon tz resp data cw code desc tc tf tcs tfs hourly times' hums tnow humidity wind.
         snd (geocode_city rt city) =
           Inr (PDict [(''status'', PStr ''success''),
                       (''result'',
                        PDict [(''name'', place), (''latitude'', lat), (''longitude'', lon),
                               (''timezone'', tz)])]) \<and>
         requests_get rt
           \<lparr>url = ''https://api.open-meteo.com/v1/forecast'',
            params = [(''latitude'', lat), (''longitude'', lon), (''current_weather'', PBool True),
                      (''hourly'', PStr ''relativehumidity_2m''), (''timezone'', PStr ''auto'')],
            timeout = Some 5\<rparr> = Inr resp \<and>
         json resp = Inr data \<and>
         dict_get data ''current_weather'' (PDict []) = Inr cw \<and>
         dict_get cw ''weathercode'' PNone = Inr code \<and>
         weather_desc code = Inr desc \<and>
         dict_get cw ''temperature'' PNone = Inr tc \<and>
         fahrenheit tc = Inr tf \<and>
         format_f1 tc = Inr tcs \<and>
         format_f1 tf = Inr tfs \<and>
         dict_get data ''hourly'' (PDict []) = Inr hourly \<and>
         dict_get hourly ''time'' (PList []) = Inr times' \<and>
         dict_get hourly ''relativehumidity_2m'' (PList []) = Inr hums \<and>
         dict_get cw ''time'' PNone = Inr tnow \<and>
         align_humidity tnow times' hums = Inr humidity \<and>
         dict_get cw ''windspeed'' (PStr ''N/A'') = Inr wind \<and>
         res = PDict [(''status'', PStr ''success''),
                      (''report'',
                       PStr (''The weather in '' @ py_str rt place @ '' is '' @ desc @ '' with ''
                               @ tcs @ [CHR 0xB0, CHR ''C''] @ '' ('' @ tfs @ [CHR 0xB0, CHR ''F'']
                               @ ''), humidity '' @ py_str rt humidity @ ''%'' @ '' and wind ''
                               @ py_str rt wind @ '' km/h.''))]"
proof -
  from get_weather_success [OF gw st]
  obtain place lat lon tz resp data where
    g: "geocode_city rt city = ([geocode_request city], Inr (geo_success place lat lon tz))"
    and r: "requests_get rt (forecast_request lat lon) = Inr resp" "json resp = Inr data"
    and c: "current_weather_report rt place data = Inr res"
    by blast
  from g have g': "snd (geocode_city rt city) =
      Inr (PDict [(''status'', PStr ''success''),
                  (''result'',
                   PDict [(''name'', place), (''latitude'', lat), (''longitude'', lon),
                          (''timezone'', tz)])])"
    by (simp add: geo_success_def)
  note r' = r(1) [unfolded forecast_request_def]
  from c [unfolded current_weather_report_Inr weather_sentence_def success_report_def] g' r' r(2)
  show ?thesis by blast
qed

lemma weather_desc_table:
  "map weather_desc (map PInt [0, 1, 2, 3, 45, 48, 51, 61, 63, 65, 71, 73, 75, 95]) =
     map Inr [''Clear sky'', ''Mainly clear'', ''Partly cloudy'', ''Overcast'', ''Fog'',
              ''Depositing rime fog'', ''Light drizzle'', ''Slight rain'', ''Moderate rain'',
              ''Heavy rain'', ''Slight snow'', ''Moderate snow'', ''Heavy snow'', ''Thunderstorm'']"
  by code_simp

lemma weather_desc_unlisted:
  assumes "hashable code"
    and "\<forall>k \<in> set [0, 1, 2, 3, 45, 48, 51, 61, 63, 65, 71, 73, 75, 95]. \<not> py_eq (PInt k) code"
  shows "weather_desc code = Inr ''Unknown''"
proof -
  have keys: "fst ` set weather_map = set [0, 1, 2, 3, 45, 48, 51, 61, 63, 65, 71, 73, 75, 95]"
    by (simp add: weather_map_def)
  have "find (\<lambda>(k, d). same_or_eq (PInt k) code) weather_map = None"
    unfolding find_None_iff
  proof (intro notI)
    assume "\<exists>x. x \<in> set weather_map \<and> (case x of (k, d) \<Rightarrow> same_or_eq (PInt k) code)"
    then obtain k d where kd: "(k, d) \<in> set weather_map" "same_or_eq (PInt k) code"
      by auto
    from kd(1) have "k \<in> fst ` set weather_map" by force
    with keys assms(2) have "\<not> py_eq (PInt k) code" by blast
    with kd(2) show False by (simp add: py_eq_PInt)
  qed
  with assms(1) show ?thesis by (simp add: weather_desc_def)
qed

lemma weather_desc_unlisted_int:
  assumes "n \<notin> set [0, 1, 2, 3, 45, 48, 51, 61, 63, 65, 71, 73, 75, 95]"
  shows "weather_desc (PInt n) = Inr ''Unknown''"
proof (rule weather_desc_unlisted)
  show "hashable (PInt n)" by (simp add: hashable_def)
  show "\<forall>k \<in> set [0, 1, 2, 3, 45, 48, 51, 61, 63, 65, 71, 73, 75, 95]. \<not> py_eq (PInt k) (PInt n)"
    using assms by (auto simp: py_eq_def)
qed

lemma weather_desc_samples:
  "weather_desc (PInt 0) = Inr ''Clear sky''"
  "weather_desc (PInt 95) = Inr ''Thunderstorm''"
  "weather_desc PNone = Inr ''Unknown''"
  by code_simp+

lemma fahrenheit_samples:
  "fahrenheit (PInt 0) = Inr (PFloat (Finite 32))"
  "fahrenheit (PInt 100) = Inr (PFloat (Finite 212))"
  "fahrenheit (PFloat (Finite 0)) = Inr (PFloat (Finite 32))"
  "fahrenheit (PFloat (Finite 100)) = Inr (PFloat (Finite 212))"
  by code_simp+

lemma format_samples:
  "format_f1 (PInt 0) = Inr ''0.0''"
  "format_f1 (PInt 100) = Inr ''100.0''"
  "format_f1 (PFloat (Finite 32)) = Inr ''32.0''"
  "format_f1 (PFloat (Finite 212)) = Inr ''212.0''"
  by code_simp+


lemma sample_geocode_paris:
  "geocode_city (sample_runtime ((geocode_url, ok_response paris) # pages)) ''Paris'' =
     ([geocode_request ''Paris''],
      Inr (geo_success (PStr ''Paris'') (PFloat (Finite (97 / 2))) (PFloat (Finite (9 / 4)))
             (PStr ''Europe/Paris'')))"
proof -
  let ?rt = "sample_runtime ((geocode_url, ok_response paris) # pages)"
  have a: "requests_get ?rt (geocode_request ''Paris'') = Inr (ok_response paris)"
    by (simp add: web_def geocode_request_def geocode_url_def)
  have b: "\<not> (400 \<le> status_code (ok_response paris) \<and> status_code (ok_response paris) < 600)"
    by (simp add: ok_response_def)
  have c: "json (ok_response paris) =
      Inr (PDict [(''results'',
             PList [PDict [(''name'', PStr ''Paris''), (''latitude'', PFloat (Finite (97 / 2))),
                           (''longitude'', PFloat (Finite (9 / 4))),
                           (''timezone'', PStr ''Europe/Paris'')]])])"
    by (simp add: ok_response_def paris_def)
  show ?thesis
    using geocode_city_found [OF a b c, of "[(''name'', PStr ''Paris''),
        (''latitude'', PFloat (Finite (97 / 2))), (''longitude'', PFloat (Finite (9 / 4))),
        (''timezone'', PStr ''Europe/Paris'')]" "[]"]
    by simp
qed

lemma sample_weather:
  "get_weather
     (sample_runtime [(geocode_url, ok_response paris), (forecast_url, ok_response forecast)])
     ''Paris'' =
   ([\<lparr>url = ''https://geocoding-api.open-meteo.com/v1/search'',
      params = [(''name'', PStr ''Paris''), (''count'', PInt 1), (''language'', PStr ''en''),
                (''format'', PStr ''json'')],
      timeout = Some 5\<rparr>,
     \<lparr>url = ''https://api.open-meteo.com/v1/forecast'',
      params = [(''latitude'', PFloat (Finite (97 / 2))), (''longitude'', PFloat (Finite (9 / 4))),
                (''current_weather'', PBool True), (''hourly'', PStr ''relativehumidity_2m''),
                (''timezone'', PStr ''auto'')],
      timeout = Some 5\<rparr>],
    Inr (PDict [(''status'', PStr ''success''),
                (''report'',
                 PStr (''The weather in Paris is Overcast with 20.0'' @ [CHR 0xB0, CHR ''C'']
                         @ '' (68.0'' @ [CHR 0xB0, CHR ''F'']
                         @ ''), humidity 64% and wind 12.5 km/h.''))]))"
  by code_simp


lemma fixed_width_2: "n < 100 \<Longrightarrow> pad2 n = fixed_width 2 n"
proof -
  assume n: "n < 100"
  have two: "fixed_width 2 n = [''0123456789'' ! (n div 10 mod 10), ''0123456789'' ! (n mod 10)]"
    by (simp add: numeral_2_eq_2)
  show ?thesis
  proof (cases "n < 10")
    case True
    then show ?thesis
      unfolding two by (simp add: pad2_def str_nat.simps [of n])
  next
    case False
    with n have "n div 10 < 10" by simp
    with False show ?thesis
      unfolding two by (simp add: pad2_def str_nat.simps [of n] str_nat.simps [of "n div 10"])
  qed
qed

lemma str_nat_fixed_width:
  "0 < w \<Longrightarrow> 10 ^ (w - 1) \<le> n \<Longrightarrow> n < 10 ^ w \<Longrightarrow> str_nat n = fixed_width w n"
proof (induction w arbitrary: n)
  case 0
  then show ?case by simp
next
  case (Suc w)
  show ?case
  proof (cases "w = 0")
    case True
    with Suc.prems show ?thesis
      by (simp add: str_nat.simps [of n])
  next
    case False
    then obtain v where v: "w = Suc v" by (cases w) auto
    define P :: nat where "P = 10 ^ v"
    have P: "1 \<le> P" by (simp add: P_def)
    from Suc.prems v have b: "10 * P \<le> n" "n < 100 * P"
      by (simp_all add: P_def)
    from P b have ge: "10 \<le> n" by arith
    from b have "P \<le> n div 10" "n div 10 < 10 * P" by arith+
    then have "10 ^ (w - 1) \<le> n div 10" "n div 10 < 10 ^ w"
      by (simp_all add: P_def v)
    with Suc.IH [of "n div 10"] False have "str_nat (n div 10) = fixed_width w (n div 10)"
      by simp
    with ge show ?thesis
      by (simp add: str_nat.simps [of n])
  qed
qed

lemma fixed_width_4: "1000 \<le> n \<Longrightarrow> n \<le> 9999 \<Longrightarrow> str_nat n = fixed_width 4 n"
  by (rule str_nat_fixed_width) simp_all

lemma plain_format_literal: "literal_char c \<Longrightarrow> plain_format (c # cs) = plain_format cs"
  by (cases cs) (simp_all add: literal_char_def)

lemma plain_format_directive:
  "plain_format (CHR ''%'' # d # cs) = (d \<in> set ''YmdHMS%'' \<and> plain_format cs)"
  by simp

lemma plain_format_all: "list_all literal_char cs \<Longrightarrow> plain_format cs"
proof (induction cs)
  case Nil
  show ?case by simp
next
  case (Cons c cs)
  then show ?case by (simp add: plain_format_literal del: plain_format.simps)
qed

lemma expand_literal: "c \<noteq> CHR ''%'' \<Longrightarrow> expand dt (c # cs) = c # expand dt cs"
  by (cases cs) simp_all

lemma expand_directive: "expand dt (CHR ''%'' # d # cs) = directive dt d @ expand dt cs"
  by simp

lemma expand_all: "CHR ''%'' \<notin> set cs \<Longrightarrow> expand dt cs = cs"
proof (induction cs)
  case Nil
  show ?case by simp
next
  case (Cons c cs)
  then have "c \<noteq> CHR ''%''" "expand dt cs = cs" by auto
  then show ?case by (simp add: expand_literal del: expand.simps)
qed

lemma literal_charI: "c \<noteq> CHR ''%'' \<Longrightarrow> c \<noteq> CHR 0x00 \<Longrightarrow> (of_char c :: nat) < 128 \<Longrightarrow> literal_char c"
  by (simp add: literal_char_def)

text \<open>The format of the source with a timezone text of plain characters.\<close>

lemma time_format_plain:
  assumes z: "list_all literal_char z" and dt: "in_range dt"
  shows "strftime rt dt (''%Y-%m-%d %H:%M:%S ('' @ z @ '')'') =
           Inr (fixed_width 4 (year dt) @ ''-'' @ fixed_width 2 (month dt) @ ''-''
                  @ fixed_width 2 (day dt) @ '' '' @ fixed_width 2 (hour dt) @ '':''
                  @ fixed_width 2 (minute dt) @ '':'' @ fixed_width 2 (second dt)
                  @ '' ('' @ z @ '')'')"
proof -
  have lit: "literal_char CHR ''-''" "literal_char CHR '' ''" "literal_char CHR '':''"
    "literal_char CHR ''(''" "literal_char CHR '')''"
    by (simp_all add: literal_char_def)
  have "list_all literal_char (z @ '')'')"
    using z lit by simp
  then have tail: "plain_format (z @ '')'')"
    by (rule plain_format_all)
  have pf: "plain_format (''%Y-%m-%d %H:%M:%S ('' @ z @ '')'')"
    using tail lit by (simp add: plain_format_literal plain_format_directive del: plain_format.simps)
  have "CHR ''%'' \<notin> set (z @ '')'')"
    using z by (auto simp: list_all_iff literal_char_def)
  then have ex: "expand dt (z @ '')'') = z @ '')''"
    by (rule expand_all)
  have "expand dt (''%Y-%m-%d %H:%M:%S ('' @ z @ '')'') =
      str_nat (year dt) @ ''-'' @ pad2 (month dt) @ ''-'' @ pad2 (day dt) @ '' ''
        @ pad2 (hour dt) @ '':'' @ pad2 (minute dt) @ '':'' @ pad2 (second dt)
        @ '' ('' @ z @ '')''"
    using ex by (simp add: expand_literal expand_directive directive_def del: expand.simps)
  also have "\<dots> = fixed_width 4 (year dt) @ ''-'' @ fixed_width 2 (month dt) @ ''-''
      @ fixed_width 2 (day dt) @ '' '' @ fixed_width 2 (hour dt) @ '':''
      @ fixed_width 2 (minute dt) @ '':'' @ fixed_width 2 (second dt) @ '' ('' @ z @ '')''"
  proof -
    from dt have "str_nat (year dt) = fixed_width 4 (year dt)"
      "pad2 (month dt) = fixed_width 2 (month dt)" "pad2 (day dt) = fixed_width 2 (day dt)"
      "pad2 (hour dt) = fixed_width 2 (hour dt)" "pad2 (minute dt) = fixed_width 2 (minute dt)"
      "pad2 (second dt) = fixed_width 2 (second dt)"
      by (simp_all add: in_range_def fixed_width_2 fixed_width_4 del: fixed_width.simps)
    then show ?thesis by (simp only:)
  qed
  finally show ?thesis
    using pf dt by (simp only: strftime_def if_True simp_thms)
qed

lemma timestamp_text_dateTime:
  "map_of kvs ''dateTime'' = Some (PStr s) \<Longrightarrow> s \<noteq> [] \<Longrightarrow>
   timestamp_text (PDict kvs) = Inr (PStr s)"
  by (simp add: timestamp_text_def)

lemma timestamp_text_date_time:
  "map_of kvs ''dateTime'' = None \<Longrightarrow> map_of kvs ''date'' = Some (PStr d) \<Longrightarrow>
   map_of kvs ''time'' = Some (PStr t) \<Longrightarrow>
   timestamp_text (PDict kvs) = Inr (PStr (d @ ''T'' @ t))"
  by (simp add: timestamp_text_def py_concat_def)

lemma time_report_plain:
  assumes "timestamp_text data = Inr (PStr s)" and "fromisoformat rt s = Inr dt"
    and "\<forall>c \<in> set z. c \<noteq> CHR ''%'' \<and> c \<noteq> CHR 0x00 \<and> of_char c < (128::nat)"
    and "1000 \<le> year dt \<and> year dt \<le> 9999 \<and> 1 \<le> month dt \<and> month dt \<le> 12 \<and>
         1 \<le> day dt \<and> day dt \<le> 31 \<and> hour dt < 24 \<and> minute dt < 60 \<and> second dt < 60"
  shows "time_report rt (PStr z) data =
           Inr (success_report
                  (fixed_width 4 (year dt) @ ''-'' @ fixed_width 2 (month dt) @ ''-''
                     @ fixed_width 2 (day dt) @ '' '' @ fixed_width 2 (hour dt) @ '':''
                     @ fixed_width 2 (minute dt) @ '':'' @ fixed_width 2 (second dt)
                     @ '' ('' @ z @ '')''))"
proof -
  have z: "list_all literal_char z"
    using assms(3) by (simp add: list_all_iff literal_char_def)
  have dt: "in_range dt"
    using assms(4) by (simp add: in_range_def)
  have "time_format rt (PStr z) = ''%Y-%m-%d %H:%M:%S ('' @ z @ '')''"
    by (simp add: time_format_def py_str_def)
  with time_format_plain [OF z dt, of rt] assms(1,2) show ?thesis
    by (simp add: time_report_def parse_iso_def)
qed

text \<open>
  Claim C8, as amended. After a successful geocoding, \<open>get_current_time\<close> sends one
  request to the time service, with the geocoder's timezone as the parameter
  \<open>timeZone\<close>. An exception of the request library, whether raised by the request, by
  the error status of the answer or by the decoding of its body, gives the error
  dictionary whose message is \<open>Time lookup failed:\<close> and the exception's text; any other
  exception raised while the body is decoded, the timestamp text is read and parsed, or
  the report is formatted gives the error dictionary whose message is
  \<open>Time parsing failed:\<close> and the exception's text. A timestamp text that parses gives
  the success dictionary whose report is what \<open>strftime\<close> makes of the format
  \<open>%Y-%m-%d %H:%M:%S (<timezone>)\<close>, the timezone text being part of the format. When
  the timezone is a text of ASCII characters without a percent sign or NUL and the fields
  of the timestamp are within their ranges with a four-digit year, the report is
  \<open>YYYY-MM-DD HH:MM:SS (<timezone>)\<close>. The timestamp text is the body's \<open>dateTime\<close>,
  or its \<open>date\<close> and \<open>time\<close> joined by \<open>T\<close> when \<open>dateTime\<close> is missing. Whatever the
  time service does, the adapter then returns a value and raises nothing.
\<close>

theorem current_time_outcomes:
  assumes geo: "geocode_city rt city =
      (sent,
       Inr (PDict [(''status'', PStr ''success''),
                   (''result'',
                    PDict [(''name'', place), (''latitude'', lat), (''longitude'', lon),
                           (''timezone'', tz)])]))"
  shows
   "fst (get_current_time rt city) =
      sent @ [\<lparr>url = ''https://www.timeapi.io/api/Time/current/zone'',
               params = [(''timeZone'', tz)], timeout = Some 5\<rparr>] \<and>
    (\<forall>e. requests_get rt
            \<lparr>url = ''https://www.timeapi.io/api/Time/current/zone'',
             params = [(''timeZone'', tz)], timeout = Some 5\<rparr> = Inl e \<and>
          is_request_exception e \<longrightarrow>
       snd (get_current_time rt city) =
         Inr (PDict [(''status'', PStr ''error''),
                     (''error_message'', PStr (''Time lookup failed: '' @ exc_str e))])) \<and>
    (\<forall>r. requests_get rt
            \<lparr>url = ''https://www.timeapi.io/api/Time/current/zone'',
             params = [(''timeZone'', tz)], timeout = Some 5\<rparr> = Inr r \<and>
          400 \<le> status_code r \<and> status_code r < 600 \<longrightarrow>
       snd (get_current_time rt city) =
         Inr (PDict [(''status'', PStr ''error''),
                     (''error_message'', PStr (''Time lookup failed: '' @ error_text r))])) \<and>
    (\<forall>r e. requests_get rt
              \<lparr>url = ''https://www.timeapi.io/api/Time/current/zone'',
               params = [(''timeZone'', tz)], timeout = Some 5\<rparr> = Inr r \<and>
            \<not> (400 \<le> status_code r \<and> status_code r < 600) \<and> json r = Inl e \<longrightarrow>
       snd (get_current_time rt city) =
         Inr (PDict [(''status'', PStr ''error''),
                     (''error_message'',
                      PStr ((if is_request_exception e then ''Time lookup failed: ''
                             else ''Time parsing failed: '') @ exc_str e))])) \<and>
    (\<forall>r data.
       requests_get rt
         \<lparr>url = ''https://www.timeapi.io/api/Time/current/zone'',
          params = [(''timeZone'', tz)], timeout = Some 5\<rparr> = Inr r \<and>
       \<not> (400 \<le> status_code r \<and> status_code r < 600) \<and> json r = Inr data \<longrightarrow>
       (\<forall>e. timestamp_text data = Inl e \<and> \<not> is_request_exception e \<longrightarrow>
          snd (get_current_time rt city) =
            Inr (PDict [(''status'', PStr ''error''),
                        (''error_message'', PStr (''Time parsing failed: '' @ exc_str e))])) \<and>
       (\<forall>s. timestamp_text data = Inr (PStr s) \<longrightarrow>
          (\<forall>e. fromisoformat rt s = Inl e \<and> \<not> is_request_exception e \<longrightarrow>
             snd (get_current_time rt city) =
               Inr (PDict [(''status'', PStr ''error''),
                           (''error_message'', PStr (''Time parsing failed: '' @ exc_str e))])) \<and>
          (\<forall>dt. fromisoformat rt s = Inr dt \<longrightarrow>
             (\<forall>report.
                strftime rt dt (''%Y-%m-%d %H:%M:%S ('' @ py_str rt tz @ '')'') = Inr report \<longrightarrow>
                snd (get_current_time rt city) =
                  Inr (PDict [(''status'', PStr ''success''), (''report'', PStr report)])) \<and>
             (\<forall>e. strftime rt dt (''%Y-%m-%d %H:%M:%S ('' @ py_str rt tz @ '')'') = Inl e \<and>
                  \<not> is_request_exception e \<longrightarrow>
                snd (get_current_time rt city) =
                  Inr (PDict [(''status'', PStr ''error''),
                              (''error_message'',
                               PStr (''Time parsing failed: '' @ exc_str e))])) \<and>
             (\<forall>z. tz = PStr z \<and>
                  (\<forall>c \<in> set z. c \<noteq> CHR ''%'' \<and> c \<noteq> CHR 0x00 \<and> of_char c < (128::nat)) \<and>
                  1000 \<le> year dt \<and> year dt \<le> 9999 \<and> 1 \<le> month dt \<and> month dt \<le> 12 \<and>
                  1 \<le> day dt \<and> day dt \<le> 31 \<and> hour dt < 24 \<and> minute dt < 60 \<and>
                  second dt < 60 \<longrightarrow>
                snd (get_current_time rt city) =
                  Inr (PDict [(''status'', PStr ''success''),
                              (''report'',
                               PStr (fixed_width 4 (year dt) @ ''-'' @ fixed_width 2 (month dt)
                                       @ ''-'' @ fixed_width 2 (day dt) @ '' ''
                                       @ fixed_width 2 (hour dt) @ '':''
                                       @ fixed_width 2 (minute dt) @ '':''
                                       @ fixed_width 2 (second dt) @ '' ('' @ z @ '')''))]))))) \<and>
    (\<forall>kvs s. map_of kvs ''dateTime'' = Some (PStr s) \<and> s \<noteq> [] \<longrightarrow>
       timestamp_text (PDict kvs) = Inr (PStr s)) \<and>
    (\<forall>kvs d t. map_of kvs ''dateTime'' = None \<and> map_of kvs ''date'' = Some (PStr d) \<and>
         map_of kvs ''time'' = Some (PStr t) \<longrightarrow>
       timestamp_text (PDict kvs) = Inr (PStr (d @ ''T'' @ t))) \<and>
    (\<exists>v. snd (get_current_time rt city) = Inr v)"
proof -
  have geo': "geocode_city rt city = (sent, Inr (geo_success place lat lon tz))"
    by (simp add: geo geo_success_def)
  note t = get_current_time_after_geocode [OF geo', unfolded time_request_def]
  note defs = time_handler_def error_result_def success_report_def time_report_def
    parse_iso_def time_format_def
  show ?thesis
    apply (intro conjI allI impI)
    subgoal by (simp add: t)
    subgoal for e by (simp add: t defs)
    subgoal for r by (simp add: t defs)
    subgoal for r e by (simp add: t defs)
    subgoal for r data e by (simp add: t defs)
    subgoal for r data s e by (simp add: t defs)
    subgoal for r data s dt report by (simp add: t defs)
    subgoal for r data s dt e by (simp add: t defs)
    subgoal for r data s dt z
      using time_report_plain [of data s rt dt z]
      by (simp add: t success_report_def)
    subgoal for kvs s by (simp add: timestamp_text_dateTime)
    subgoal for kvs d t by (simp add: timestamp_text_date_time)
    subgoal by (simp add: t except_exception_def split: sum.splits)
    done
qed

text \<open>
  The claim as stated fails for a timezone text with a percent sign: the text is spliced
  into the format, so \<open>strftime\<close> expands it. With the timezone \<open>%Y\<close> the report ends in
  \<open>(2025)\<close>, not in \<open>(%Y)\<close>.
\<close>

theorem current_time_format_counterexample:
  "snd (geocode_city
          (sample_runtime [(geocode_url, ok_response percent_zone),
                           (time_url, ok_response (time_page ''2025-06-01T09:05:00''))])
          ''Paris'') =
     Inr (PDict [(''status'', PStr ''success''),
                 (''result'',
                  PDict [(''name'', PStr ''Paris''), (''latitude'', PFloat (Finite (97 / 2))),
                         (''longitude'', PFloat (Finite (9 / 4))), (''timezone'', PStr ''%Y'')])]) \<and>
   get_current_time
     (sample_runtime [(geocode_url, ok_response percent_zone),
                      (time_url, ok_response (time_page ''2025-06-01T09:05:00''))])
     ''Paris'' =
     ([\<lparr>url = ''https://geocoding-api.open-meteo.com/v1/search'',
        params = [(''name'', PStr ''Paris''), (''count'', PInt 1), (''language'', PStr ''en''),
                  (''format'', PStr ''json'')],
        timeout = Some 5\<rparr>,
       \<lparr>url = ''https://www.timeapi.io/api/Time/current/zone'',
        params = [(''timeZone'', PStr ''%Y'')], timeout = Some 5\<rparr>],
      Inr (PDict [(''status'', PStr ''success''),
                  (''report'', PStr ''2025-06-01 09:05:00 (2025)'')])) \<and>
   ''2025-06-01 09:05:00 (2025)'' \<noteq> ''2025-06-01 09:05:00 (%Y)''"
  by code_simp

theorem current_time_outcomes_witness:
  "snd (get_current_time
          (sample_runtime [(geocode_url, ok_response paris),
                           (time_url, ok_response (time_page ''2025-06-01T09:05:00''))])
          ''Paris'') =
     Inr (PDict [(''status'', PStr ''success''),
                 (''report'', PStr ''2025-06-01 09:05:00 (Europe/Paris)'')]) \<and>
   snd (get_current_time (sample_runtime [(geocode_url, ok_response paris)]) ''Paris'') =
     Inr (PDict [(''status'', PStr ''error''),
                 (''error_message'', PStr ''Time lookup failed: connection refused'')]) \<and>
   snd (get_current_time
          (sample_runtime [(geocode_url, ok_response paris),
                           (time_url, error_response 503 ''503 Server Error'')])
          ''Paris'') =
     Inr (PDict [(''status'', PStr ''error''),
                 (''error_message'', PStr ''Time lookup failed: 503 Server Error'')]) \<and>
   snd (get_current_time
          (sample_runtime [(geocode_url, ok_response paris),
                           (time_url, error_response 200 [])])
          ''Paris'') =
     Inr (PDict [(''status'', PStr ''error''),
                 (''error_message'', PStr ''Time lookup failed: Expecting value'')]) \<and>
   snd (get_current_time
          (sample_runtime [(geocode_url, ok_response paris),
                           (time_url, ok_response (time_page ''yesterday''))])
          ''Paris'') =
     Inr (PDict [(''status'', PStr ''error''),
                 (''error_message'',
                  PStr (''Time parsing failed: Invalid isoformat string: '' @ [CHR 0x27]
                          @ ''yesterday'' @ [CHR 0x27]))])"
proof -
  let ?tz = "PStr ''Europe/Paris''"
  let ?req = "\<lparr>url = ''https://www.timeapi.io/api/Time/current/zone'',
      params = [(''timeZone'', ?tz)], timeout = Some 5\<rparr>"
  let ?good = "sample_runtime [(geocode_url, ok_response paris),
      (time_url, ok_response (time_page ''2025-06-01T09:05:00''))]"
  let ?down = "sample_runtime [(geocode_url, ok_response paris)]"
  let ?busy = "sample_runtime [(geocode_url, ok_response paris),
      (time_url, error_response 503 ''503 Server Error'')]"
  let ?junk = "sample_runtime [(geocode_url, ok_response paris), (time_url, error_response 200 [])]"
  let ?bad = "sample_runtime [(geocode_url, ok_response paris),
      (time_url, ok_response (time_page ''yesterday''))]"
  have geo: "geocode_city (sample_runtime ((geocode_url, ok_response paris) # pages)) ''Paris'' =
      ([geocode_request ''Paris''],
       Inr (PDict [(''status'', PStr ''success''),
                   (''result'',
                    PDict [(''name'', PStr ''Paris''), (''latitude'', PFloat (Finite (97 / 2))),
                           (''longitude'', PFloat (Finite (9 / 4))), (''timezone'', ?tz)])]))"
    for pages
    using sample_geocode_paris [of pages] by (simp add: geo_success_def)
  have u: "time_url = ''https://www.timeapi.io/api/Time/current/zone''" "time_url \<noteq> geocode_url"
    by (simp_all add: time_url_def geocode_url_def)
  note good = current_time_outcomes [OF geo [of "[(time_url, ok_response (time_page ''2025-06-01T09:05:00''))]"]]
  note down = current_time_outcomes [OF geo [of "[]"]]
  note busy = current_time_outcomes [OF geo [of "[(time_url, error_response 503 ''503 Server Error'')]"]]
  note junk = current_time_outcomes [OF geo [of "[(time_url, error_response 200 [])]"]]
  note bad = current_time_outcomes [OF geo [of "[(time_url, ok_response (time_page ''yesterday''))]"]]
  have g1: "requests_get ?good ?req = Inr (ok_response (time_page ''2025-06-01T09:05:00'')) \<and>
     \<not> (400 \<le> status_code (ok_response (time_page ''2025-06-01T09:05:00'')) \<and>
        status_code (ok_response (time_page ''2025-06-01T09:05:00'')) < 600) \<and>
     json (ok_response (time_page ''2025-06-01T09:05:00'')) = Inr (time_page ''2025-06-01T09:05:00'')"
    using u by (simp add: web_def ok_response_def)
  have g2: "timestamp_text (time_page ''2025-06-01T09:05:00'') = Inr (PStr ''2025-06-01T09:05:00'')"
    by (simp add: time_page_def timestamp_text_def)
  have g3: "fromisoformat ?good ''2025-06-01T09:05:00'' = Inr sample_time"
    by (simp add: sample_iso_def)
  have g4: "?tz = PStr ''Europe/Paris'' \<and>
      (\<forall>c \<in> set ''Europe/Paris''. c \<noteq> CHR ''%'' \<and> c \<noteq> CHR 0x00 \<and> of_char c < (128::nat)) \<and>
      1000 \<le> year sample_time \<and> year sample_time \<le> 9999 \<and> 1 \<le> month sample_time \<and>
      month sample_time \<le> 12 \<and> 1 \<le> day sample_time \<and> day sample_time \<le> 31 \<and>
      hour sample_time < 24 \<and> minute sample_time < 60 \<and> second sample_time < 60"
    by (simp add: sample_time_def)
  note good5 = good [THEN conjunct2, THEN conjunct2, THEN conjunct2, THEN conjunct2, THEN conjunct1,
      rule_format, OF g1]
  note good6 = good5 [THEN conjunct2, rule_format, OF g2, THEN conjunct2, rule_format, OF g3,
      THEN conjunct2, THEN conjunct2, rule_format, OF g4]
  have shown: "fixed_width 4 (year sample_time) @ ''-'' @ fixed_width 2 (month sample_time) @ ''-''
      @ fixed_width 2 (day sample_time) @ '' '' @ fixed_width 2 (hour sample_time) @ '':''
      @ fixed_width 2 (minute sample_time) @ '':'' @ fixed_width 2 (second sample_time)
      @ '' ('' @ ''Europe/Paris'' @ '')'' = ''2025-06-01 09:05:00 (Europe/Paris)''"
    by code_simp
  have w1: "snd (get_current_time ?good ''Paris'') =
      Inr (PDict [(''status'', PStr ''success''),
                  (''report'', PStr ''2025-06-01 09:05:00 (Europe/Paris)'')])"
    using good6 by (simp only: shown)
  have d1: "requests_get ?down ?req = Inl (Exc RequestException ''connection refused'') \<and>
      is_request_exception (Exc RequestException ''connection refused'')"
    using u by (simp add: web_def)
  have w2: "snd (get_current_time ?down ''Paris'') =
      Inr (PDict [(''status'', PStr ''error''),
                  (''error_message'', PStr ''Time lookup failed: connection refused'')])"
    using down [THEN conjunct2, THEN conjunct1, rule_format, OF d1] by simp
  have b1: "requests_get ?busy ?req = Inr (error_response 503 ''503 Server Error'') \<and>
      400 \<le> status_code (error_response 503 ''503 Server Error'') \<and>
      status_code (error_response 503 ''503 Server Error'') < 600"
    using u by (simp add: web_def error_response_def)
  have w3: "snd (get_current_time ?busy ''Paris'') =
      Inr (PDict [(''status'', PStr ''error''),
                  (''error_message'', PStr ''Time lookup failed: 503 Server Error'')])"
    using busy [THEN conjunct2, THEN conjunct2, THEN conjunct1, rule_format, OF b1]
    by (simp add: error_response_def)
  have j1: "requests_get ?junk ?req = Inr (error_response 200 []) \<and>
      \<not> (400 \<le> status_code (error_response 200 []) \<and> status_code (error_response 200 []) < 600) \<and>
      json (error_response 200 []) = Inl (Exc RequestException ''Expecting value'')"
    using u by (simp add: web_def error_response_def)
  have w4: "snd (get_current_time ?junk ''Paris'') =
      Inr (PDict [(''status'', PStr ''error''),
                  (''error_message'', PStr ''Time lookup failed: Expecting value'')])"
    using junk [THEN conjunct2, THEN conjunct2, THEN conjunct2, THEN conjunct1, rule_format, OF j1]
    by simp
  have y1: "requests_get ?bad ?req = Inr (ok_response (time_page ''yesterday'')) \<and>
     \<not> (400 \<le> status_code (ok_response (time_page ''yesterday'')) \<and>
        status_code (ok_response (time_page ''yesterday'')) < 600) \<and>
     json (ok_response (time_page ''yesterday'')) = Inr (time_page ''yesterday'')"
    using u by (simp add: web_def ok_response_def)
  have y2: "timestamp_text (time_page ''yesterday'') = Inr (PStr ''yesterday'')"
    by (simp add: time_page_def timestamp_text_def)
  have y3: "fromisoformat ?bad ''yesterday'' =
      Inl (Exc ValueError (''Invalid isoformat string: '' @ sq ''yesterday'')) \<and>
      \<not> is_request_exception (Exc ValueError (''Invalid isoformat string: '' @ sq ''yesterday''))"
    by (simp add: sample_iso_def)
  have w5: "snd (get_current_time ?bad ''Paris'') =
      Inr (PDict [(''status'', PStr ''error''),
                  (''error_message'',
                   PStr (''Time parsing failed: Invalid isoformat string: '' @ [CHR 0x27]
                           @ ''yesterday'' @ [CHR 0x27]))])"
    using bad [THEN conjunct2, THEN conjunct2, THEN conjunct2, THEN conjunct2, THEN conjunct1,
        rule_format, OF y1, THEN conjunct2, rule_format, OF y2, THEN conjunct1, rule_format, OF y3]
    by (simp add: sq_def)
  from w1 w2 w3 w4 w5 show ?thesis
    by (intro conjI) assumption+
qed

section \<open>Properties of the recipe and nutrition adapters\<close>

lemma like_percent_all: "like_match [CHR ''%''] s"
  by (induction s) simp_all

lemma like_percent_suffixes:
  "like_match (CHR ''%'' # ps) s \<longleftrightarrow> (\<exists>k \<le> length s. like_match ps (drop k s))"
proof (induction s)
  case Nil
  show ?case by simp
next
  case (Cons c cs)
  have "like_match (CHR ''%'' # ps) (c # cs) \<longleftrightarrow>
      like_match ps (c # cs) \<or> like_match (CHR ''%'' # ps) cs"
    by simp
  also have "\<dots> \<longleftrightarrow> like_match ps (c # cs) \<or> (\<exists>k \<le> length cs. like_match ps (drop k cs))"
    by (simp only: Cons.IH)
  also have "\<dots> \<longleftrightarrow> (\<exists>k \<le> length (c # cs). like_match ps (drop k (c # cs)))"
  proof
    assume "like_match ps (c # cs) \<or> (\<exists>k \<le> length cs. like_match ps (drop k cs))"
    then show "\<exists>k \<le> length (c # cs). like_match ps (drop k (c # cs))"
    proof
      assume "like_match ps (c # cs)"
      then show ?thesis by (intro exI [of _ 0]) simp
    next
      assume "\<exists>k \<le> length cs. like_match ps (drop k cs)"
      then obtain k where "k \<le> length cs" "like_match ps (drop k cs)" by blast
      then show ?thesis by (intro exI [of _ "Suc k"]) simp
    qed
  next
    assume "\<exists>k \<le> length (c # cs). like_match ps (drop k (c # cs))"
    then obtain k where k: "k \<le> length (c # cs)" "like_match ps (drop k (c # cs))" by blast
    show "like_match ps (c # cs) \<or> (\<exists>k \<le> length cs. like_match ps (drop k cs))"
    proof (cases k)
      case 0
      with k show ?thesis by simp
    next
      case (Suc j)
      with k have "j \<le> length cs" "like_match ps (drop j cs)" by simp_all
      then show ?thesis by blast
    qed
  qed
  finally show ?case .
qed

lemma like_prefix:
  "CHR ''%'' \<notin> set q \<Longrightarrow> CHR ''_'' \<notin> set q \<Longrightarrow>
   like_match (q @ [CHR ''%'']) s \<longleftrightarrow> prefix (map sql_lower q) (map sql_lower s)"
proof (induction q arbitrary: s)
  case Nil
  show ?case by (simp add: like_percent_all del: like_match.simps)
next
  case (Cons p ps)
  then have p: "p \<noteq> CHR ''%''" "p \<noteq> CHR ''_''"
    and IH: "\<And>s. like_match (ps @ [CHR ''%'']) s \<longleftrightarrow> prefix (map sql_lower ps) (map sql_lower s)"
    by auto
  show ?case
  proof (cases s)
    case Nil
    with p show ?thesis by simp
  next
    case (Cons c cs)
    with p IH [of cs] show ?thesis by simp
  qed
qed

lemma like_substring:
  assumes "CHR ''%'' \<notin> set q" and "CHR ''_'' \<notin> set q"
  shows "like_match (''%'' @ q @ ''%'') t \<longleftrightarrow> ci_substring q t"
proof -
  have "like_match (''%'' @ q @ ''%'') t \<longleftrightarrow>
      (\<exists>k \<le> length t. like_match (q @ [CHR ''%'']) (drop k t))"
    using like_percent_suffixes [of "q @ [CHR ''%'']" t] by simp
  also have "\<dots> \<longleftrightarrow> (\<exists>k \<le> length t. prefix (map sql_lower q) (drop k (map sql_lower t)))"
    by (simp add: like_prefix [OF assms] drop_map)
  also have "\<dots> \<longleftrightarrow> sublist (map sql_lower q) (map sql_lower t)"
  proof
    assume "\<exists>k \<le> length t. prefix (map sql_lower q) (drop k (map sql_lower t))"
    then obtain k where "prefix (map sql_lower q) (drop k (map sql_lower t))" by blast
    then obtain ss where "drop k (map sql_lower t) = map sql_lower q @ ss"
      by (auto simp: prefix_def)
    then have "map sql_lower t = take k (map sql_lower t) @ map sql_lower q @ ss"
      by (metis append_take_drop_id)
    then show "sublist (map sql_lower q) (map sql_lower t)"
      unfolding sublist_def by blast
  next
    assume "sublist (map sql_lower q) (map sql_lower t)"
    then obtain ps ss where e: "map sql_lower t = ps @ map sql_lower q @ ss"
      by (auto simp: sublist_def)
    then have "length ps \<le> length t"
      by (metis length_append length_map le_add1)
    moreover from e have "prefix (map sql_lower q) (drop (length ps) (map sql_lower t))"
      by simp
    ultimately show "\<exists>k \<le> length t. prefix (map sql_lower q) (drop k (map sql_lower t))"
      by blast
  qed
  finally show ?thesis by (simp add: ci_substring_def)
qed

lemma c_string_plain: "CHR 0x00 \<notin> set s \<Longrightarrow> c_string s = s"
  by (auto simp: c_string_def takeWhile_eq_all_conv)

lemma sqlite_like_substring:
  assumes "CHR ''%'' \<notin> set q" and "CHR ''_'' \<notin> set q" and "CHR 0x00 \<notin> set q"
  shows "sqlite_like (''%'' @ q @ ''%'') t \<longleftrightarrow>
           ci_substring q (takeWhile (\<lambda>c. c \<noteq> CHR 0x00) t)"
proof -
  have "CHR 0x00 \<notin> set (''%'' @ q @ ''%'')"
    using assms(3) by simp
  then have "c_string (''%'' @ q @ ''%'') = ''%'' @ q @ ''%''"
    by (rule c_string_plain)
  then have "sqlite_like (''%'' @ q @ ''%'') t \<longleftrightarrow>
      like_match (''%'' @ q @ ''%'') (takeWhile (\<lambda>c. c \<noteq> CHR 0x00) t)"
    by (simp only: sqlite_like_def c_string_def)
  then show ?thesis
    by (simp only: like_substring [OF assms(1,2)])
qed

lemma recipe_lookup_rows:
  "sqlite_rows rt path (''%'' @ q @ ''%'') = Inr rows \<Longrightarrow>
   recipe_lookup rt path q =
     Inr (case find (\<lambda>r. like_match (takeWhile (\<lambda>c. c \<noteq> CHR 0x00) (''%'' @ q @ ''%''))
                          (takeWhile (\<lambda>c. c \<noteq> CHR 0x00) (Title r))) rows of
            Some recipe \<Rightarrow>
              PDict [(''title'', PStr (Title recipe)), (''ingredients'', PStr (Ingredients recipe)),
                     (''instructions'', PStr (Instructions recipe))]
          | None \<Rightarrow> PDict [(''error'', PStr ''Recipe not found in the local database.'')])"
  by (simp add: recipe_lookup_def sqlite_like_def c_string_def found_recipe_def
      recipe_not_found_def del: like_match.simps split: option.splits)

lemma recipe_lookup_plain:
  assumes "sqlite_rows rt path (''%'' @ q @ ''%'') = Inr rows"
    and "CHR ''%'' \<notin> set q \<and> CHR ''_'' \<notin> set q \<and> CHR 0x00 \<notin> set q"
  shows "recipe_lookup rt path q =
     Inr (case find (\<lambda>r. ci_substring q (takeWhile (\<lambda>c. c \<noteq> CHR 0x00) (Title r))) rows of
            Some recipe \<Rightarrow>
              PDict [(''title'', PStr (Title recipe)), (''ingredients'', PStr (Ingredients recipe)),
                     (''instructions'', PStr (Instructions recipe))]
          | None \<Rightarrow> PDict [(''error'', PStr ''Recipe not found in the local database.'')])"
proof -
  from assms(2) have q: "CHR ''%'' \<notin> set q" "CHR ''_'' \<notin> set q" "CHR 0x00 \<notin> set q"
    by simp_all
  have "recipe_lookup rt path q =
     Inr (case find (\<lambda>r. sqlite_like (''%'' @ q @ ''%'') (Title r)) rows of
            Some recipe \<Rightarrow>
              PDict [(''title'', PStr (Title recipe)), (''ingredients'', PStr (Ingredients recipe)),
                     (''instructions'', PStr (Instructions recipe))]
          | None \<Rightarrow> PDict [(''error'', PStr ''Recipe not found in the local database.'')])"
    using assms(1)
    by (simp add: recipe_lookup_def found_recipe_def recipe_not_found_def split: option.splits)
  then show ?thesis
    by (simp only: sqlite_like_substring [OF q])
qed

lemma recipe_lookup_error:
  "sqlite_rows rt path (''%'' @ q @ ''%'') = Inl e \<Longrightarrow>
   recipe_lookup rt path q = Inr (PDict [(''error'', PStr (''Database error: '' @ exc_str e))])"
  by (simp add: recipe_lookup_def database_error_def)

lemma recipe_lookup_returns: "\<exists>v. recipe_lookup rt path q = Inr v"
  by (cases "sqlite_rows rt path (''%'' @ q @ ''%'')")
    (simp_all add: recipe_lookup_error recipe_lookup_rows del: like_match.simps)

lemma sql_lower_letters:
  "map sql_lower ''ABCDEFGHIJKLMNOPQRSTUVWXYZ'' = ''abcdefghijklmnopqrstuvwxyz''"
  by code_simp

lemma capital_letters:
  "(map char_of [65 ..< (91::nat)] :: string) = ''ABCDEFGHIJKLMNOPQRSTUVWXYZ''"
  by code_simp

lemma sql_lower_other: "c \<notin> set ''ABCDEFGHIJKLMNOPQRSTUVWXYZ'' \<Longrightarrow> sql_lower c = c"
proof -
  assume c: "c \<notin> set ''ABCDEFGHIJKLMNOPQRSTUVWXYZ''"
  have "\<not> (65 \<le> (of_char c :: nat) \<and> (of_char c :: nat) \<le> 90)"
  proof
    assume "65 \<le> (of_char c :: nat) \<and> (of_char c :: nat) \<le> 90"
    then have "(of_char c :: nat) \<in> {65 ..< 91}"
      by auto
    then have "(of_char c :: nat) \<in> set [65 ..< 91]"
      by (simp only: set_upt)
    then have "char_of (of_char c :: nat) \<in> set (map char_of [65 ..< (91::nat)] :: string)"
      unfolding set_map by (rule imageI)
    then have "c \<in> set ''ABCDEFGHIJKLMNOPQRSTUVWXYZ''"
      by (simp only: capital_letters char_of_char)
    with c show False by simp
  qed
  then show ?thesis by (auto simp: sql_lower_def Let_def)
qed

text \<open>
  Claim C5, as amended. \<open>get_recipe_details\<close> returns the title, ingredients and
  instructions of the first row whose title matches the SQL pattern \<open>%query%\<close> under
  \<open>LIKE\<close>, which reads the pattern and the title up to their first NUL character, and the
  not-found failure when no row matches. For a query without the characters \<open>%\<close>, \<open>_\<close>
  and NUL that is the first row whose title, up to its first NUL, contains the query, the
  26 ASCII letters compared regardless of case and every other character exactly. An
  error of the database is returned as a \<open>Database error\<close> failure, and the adapter
  never raises. The same holds for the copy in myRecipeAgent4, which opens
  \<open>../13k-recipes.db\<close>.
\<close>

theorem recipe_lookup_is_like_match:
  "(\<forall>rows. sqlite_rows rt ''13k-recipes.db'' (''%'' @ q @ ''%'') = Inr rows \<longrightarrow>
      get_recipe_details rt q =
        Inr (case find (\<lambda>r. like_match (takeWhile (\<lambda>c. c \<noteq> CHR 0x00) (''%'' @ q @ ''%''))
                             (takeWhile (\<lambda>c. c \<noteq> CHR 0x00) (Title r))) rows of
               Some recipe \<Rightarrow>
                 PDict [(''title'', PStr (Title recipe)),
                        (''ingredients'', PStr (Ingredients recipe)),
                        (''instructions'', PStr (Instructions recipe))]
             | None \<Rightarrow> PDict [(''error'', PStr ''Recipe not found in the local database.'')]) \<and>
      (CHR ''%'' \<notin> set q \<and> CHR ''_'' \<notin> set q \<and> CHR 0x00 \<notin> set q \<longrightarrow>
         get_recipe_details rt q =
           Inr (case find (\<lambda>r. ci_substring q (takeWhile (\<lambda>c. c \<noteq> CHR 0x00) (Title r))) rows of
                  Some recipe \<Rightarrow>
                    PDict [(''title'', PStr (Title recipe)),
                           (''ingredients'', PStr (Ingredients recipe)),
                           (''instructions'', PStr (Instructions recipe))]
                | None \<Rightarrow> PDict [(''error'', PStr ''Recipe not found in the local database.'')]))) \<and>
   (\<forall>e. sqlite_rows rt ''13k-recipes.db'' (''%'' @ q @ ''%'') = Inl e \<longrightarrow>
      get_recipe_details rt q =
        Inr (PDict [(''error'', PStr (''Database error: '' @ exc_str e))])) \<and>
   (\<exists>v. get_recipe_details rt q = Inr v) \<and>
   (\<forall>rows. sqlite_rows rt ''../13k-recipes.db'' (''%'' @ q @ ''%'') = Inr rows \<longrightarrow>
      get_recipe_details4 rt q =
        Inr (case find (\<lambda>r. like_match (takeWhile (\<lambda>c. c \<noteq> CHR 0x00) (''%'' @ q @ ''%''))
                             (takeWhile (\<lambda>c. c \<noteq> CHR 0x00) (Title r))) rows of
               Some recipe \<Rightarrow>
                 PDict [(''title'', PStr (Title recipe)),
                        (''ingredients'', PStr (Ingredients recipe)),
                        (''instructions'', PStr (Instructions recipe))]
             | None \<Rightarrow> PDict [(''error'', PStr ''Recipe not found in the local database.'')]) \<and>
      (CHR ''%'' \<notin> set q \<and> CHR ''_'' \<notin> set q \<and> CHR 0x00 \<notin> set q \<longrightarrow>
         get_recipe_details4 rt q =
           Inr (case find (\<lambda>r. ci_substring q (takeWhile (\<lambda>c. c \<noteq> CHR 0x00) (Title r))) rows of
                  Some recipe \<Rightarrow>
                    PDict [(''title'', PStr (Title recipe)),
                           (''ingredients'', PStr (Ingredients recipe)),
                           (''instructions'', PStr (Instructions recipe))]
                | None \<Rightarrow> PDict [(''error'', PStr ''Recipe not found in the local database.'')]))) \<and>
   (\<forall>e. sqlite_rows rt ''../13k-recipes.db'' (''%'' @ q @ ''%'') = Inl e \<longrightarrow>
      get_recipe_details4 rt q =
        Inr (PDict [(''error'', PStr (''Database error: '' @ exc_str e))])) \<and>
   (\<exists>v. get_recipe_details4 rt q = Inr v) \<and>
   map sql_lower ''ABCDEFGHIJKLMNOPQRSTUVWXYZ'' = ''abcdefghijklmnopqrstuvwxyz'' \<and>
   (\<forall>c. c \<notin> set ''ABCDEFGHIJKLMNOPQRSTUVWXYZ'' \<longrightarrow> sql_lower c = c)"
  unfolding get_recipe_details_def get_recipe_details4_def
  apply (intro conjI allI impI)
  subgoal for rows by (rule recipe_lookup_rows)
  subgoal for rows by (rule recipe_lookup_plain)
  subgoal for e by (rule recipe_lookup_error)
  subgoal by (rule recipe_lookup_returns)
  subgoal for rows by (rule recipe_lookup_rows)
  subgoal for rows by (rule recipe_lookup_plain)
  subgoal for e by (rule recipe_lookup_error)
  subgoal by (rule recipe_lookup_returns)
  subgoal by (rule sql_lower_letters)
  subgoal for c by (rule sql_lower_other)
  done

text \<open>
  The claim as stated fails for a query with a wildcard or a NUL character: no title of
  the sample table contains \<open>pan_akes\<close>, yet the lookup returns \<open>Classic Pancakes\<close>; none
  contains \<open>b%d\<close>, nor \<open>d\<close> followed by NUL and \<open>zzz\<close>, yet both lookups return
  \<open>Banana Bread\<close>.
\<close>

theorem recipe_wildcard_counterexample:
  "map Title sample_rows = [''Banana Bread'', ''Classic Pancakes'', ''Vegan Pancakes''] \<and>
   \<not> ci_substring ''pan_akes'' ''Banana Bread'' \<and>
   \<not> ci_substring ''pan_akes'' ''Classic Pancakes'' \<and>
   \<not> ci_substring ''pan_akes'' ''Vegan Pancakes'' \<and>
   get_recipe_details (sample_runtime []) ''pan_akes'' =
     Inr (PDict [(''title'', PStr ''Classic Pancakes''),
                 (''ingredients'', PStr ''flour, milk, eggs''),
                 (''instructions'', PStr ''Mix and fry.'')]) \<and>
   \<not> ci_substring ''b%d'' ''Banana Bread'' \<and>
   \<not> ci_substring ''b%d'' ''Classic Pancakes'' \<and>
   \<not> ci_substring ''b%d'' ''Vegan Pancakes'' \<and>
   get_recipe_details (sample_runtime []) ''b%d'' =
     Inr (PDict [(''title'', PStr ''Banana Bread''),
                 (''ingredients'', PStr ''bananas, flour''),
                 (''instructions'', PStr ''Bake.'')]) \<and>
   \<not> ci_substring (''d'' @ [CHR 0x00] @ ''zzz'') ''Banana Bread'' \<and>
   \<not> ci_substring (''d'' @ [CHR 0x00] @ ''zzz'') ''Classic Pancakes'' \<and>
   \<not> ci_substring (''d'' @ [CHR 0x00] @ ''zzz'') ''Vegan Pancakes'' \<and>
   get_recipe_details (sample_runtime []) (''d'' @ [CHR 0x00] @ ''zzz'') =
     Inr (PDict [(''title'', PStr ''Banana Bread''),
                 (''ingredients'', PStr ''bananas, flour''),
                 (''instructions'', PStr ''Bake.'')])"
  by code_simp

theorem recipe_lookup_is_like_match_witness:
  "get_recipe_details (sample_runtime []) ''PANCAKE'' =
     Inr (PDict [(''title'', PStr ''Classic Pancakes''),
                 (''ingredients'', PStr ''flour, milk, eggs''),
                 (''instructions'', PStr ''Mix and fry.'')]) \<and>
   get_recipe_details (sample_runtime []) ''sushi'' =
     Inr (PDict [(''error'', PStr ''Recipe not found in the local database.'')]) \<and>
   get_recipe_details no_table ''PANCAKE'' =
     Inr (PDict [(''error'', PStr ''Database error: no such table: recipes'')]) \<and>
   sql_lower CHR ''1'' = CHR ''1''"
proof -
  have rows: "sqlite_rows (sample_runtime []) ''13k-recipes.db'' (''%'' @ q @ ''%'') = Inr sample_rows"
    for q
    by simp
  have plain: "CHR ''%'' \<notin> set ''PANCAKE'' \<and> CHR ''_'' \<notin> set ''PANCAKE'' \<and> CHR 0x00 \<notin> set ''PANCAKE''"
    "CHR ''%'' \<notin> set ''sushi'' \<and> CHR ''_'' \<notin> set ''sushi'' \<and> CHR 0x00 \<notin> set ''sushi''"
    by simp_all
  have f1: "find (\<lambda>r. ci_substring ''PANCAKE'' (takeWhile (\<lambda>c. c \<noteq> CHR 0x00) (Title r))) sample_rows =
      Some \<lparr>Title = ''Classic Pancakes'', Ingredients = ''flour, milk, eggs'',
            Instructions = ''Mix and fry.''\<rparr>"
    by code_simp
  have f2: "find (\<lambda>r. ci_substring ''sushi'' (takeWhile (\<lambda>c. c \<noteq> CHR 0x00) (Title r))) sample_rows = None"
    by code_simp
  note a = recipe_lookup_is_like_match [of "sample_runtime []" "''PANCAKE''", THEN conjunct1,
      rule_format, OF rows, THEN conjunct2, rule_format, OF plain(1)]
  have w1: "get_recipe_details (sample_runtime []) ''PANCAKE'' =
      Inr (PDict [(''title'', PStr ''Classic Pancakes''),
                  (''ingredients'', PStr ''flour, milk, eggs''),
                  (''instructions'', PStr ''Mix and fry.'')])"
    using a by (simp only: f1) simp
  note b = recipe_lookup_is_like_match [of "sample_runtime []" "''sushi''", THEN conjunct1,
      rule_format, OF rows, THEN conjunct2, rule_format, OF plain(2)]
  have w2: "get_recipe_details (sample_runtime []) ''sushi'' =
      Inr (PDict [(''error'', PStr ''Recipe not found in the local database.'')])"
    using b by (simp only: f2) simp
  have "sqlite_rows no_table ''13k-recipes.db'' (''%'' @ ''PANCAKE'' @ ''%'') =
      Inl (Exc SqliteError ''no such table: recipes'')"
    by (simp add: no_table_def)
  from recipe_lookup_is_like_match [of no_table "''PANCAKE''", THEN conjunct2, THEN conjunct1,
      rule_format, OF this]
  have w3: "get_recipe_details no_table ''PANCAKE'' =
      Inr (PDict [(''error'', PStr ''Database error: no such table: recipes'')])"
    by simp
  have w4: "sql_lower CHR ''1'' = CHR ''1''"
    by (rule recipe_lookup_is_like_match [of "sample_runtime []" "''PANCAKE''", THEN conjunct2,
        THEN conjunct2, THEN conjunct2, THEN conjunct2, THEN conjunct2, THEN conjunct2,
        THEN conjunct2, rule_format]) simp
  from w1 w2 w3 w4 show ?thesis
    by (intro conjI) assumption+
qed

lemma product_fields_PDict:
  "product_fields (PDict p) =
     Inr (PDict [(''product_name'', case map_of p ''product_name'' of None \<Rightarrow> PStr ''N/A'' | Some v \<Rightarrow> v),
                 (''nutriments'', case map_of p ''nutriments'' of None \<Rightarrow> PDict [] | Some v \<Rightarrow> v),
                 (''categories'', case map_of p ''categories'' of None \<Rightarrow> PStr ''N/A'' | Some v \<Rightarrow> v),
                 (''ingredients_text'',
                  case map_of p ''ingredients_text'' of None \<Rightarrow> PStr ''N/A'' | Some v \<Rightarrow> v)])"
  by (simp add: product_fields_def)

lemma search_stage_found:
  assumes "requests_get rt req = Inr resp" and "status_code resp = 200"
    and "json resp = Inr (PDict data)"
    and "map_of data ''products'' = Some (PList (PDict product # others))"
  shows "search_stage rt req = bindE (product_fields (PDict product)) (\<lambda>r. Inr (Some r))"
  using assms by (simp add: search_stage_def py_len_def subscript_def)

lemma search_stage_none:
  assumes "requests_get rt req = Inr resp"
    and "status_code resp \<noteq> 200 \<or>
         (\<exists>data. json resp = Inr (PDict data) \<and>
            (map_of data ''products'' = None \<or> map_of data ''products'' = Some (PList [])))"
  shows "search_stage rt req = Inr None"
  using assms by (auto simp: search_stage_def)

lemma product_stage_found:
  assumes "requests_get rt req = Inr resp" and "status_code resp = 200"
    and "json resp = Inr (PDict body)"
    and "map_of body ''status'' = Some (PInt 1)"
    and "map_of body ''product'' = Some (PDict product)"
  shows "product_stage rt req = product_fields (PDict product)"
  using assms by (simp add: product_stage_def)

lemma product_stage_failed:
  assumes "requests_get rt req = Inr resp" and "status_code resp \<noteq> 200"
  shows "product_stage rt req = Inr could_not_retrieve"
  using assms by (simp add: product_stage_def)

lemma nutrition_found:
  assumes "requests_get rt (search_request q t) = Inr resp" and "status_code resp = 200"
    and "json resp = Inr (PDict data)"
    and "map_of data ''products'' = Some (PList (PDict product # others))"
  shows "t = None \<longrightarrow> get_nutrition_data rt q = ([search_request q None], product_fields (PDict product))"
    and "nutrition_search_only rt t q = ([search_request q t], product_fields (PDict product))"
  using search_stage_found [OF assms]
  by (auto simp: get_nutrition_data_def nutrition_search_only_def product_fields_PDict)

lemma nutrition_fallback:
  assumes "requests_get rt (search_request q None) = Inr resp"
    and "status_code resp \<noteq> 200 \<or>
         (\<exists>data. json resp = Inr (PDict data) \<and>
            (map_of data ''products'' = None \<or> map_of data ''products'' = Some (PList [])))"
  shows "get_nutrition_data rt q =
           ([search_request q None, product_request q],
            except_exception api_error (product_stage rt (product_request q)))"
  using search_stage_none [OF assms] by (simp add: get_nutrition_data_def)

lemma nutrition_no_fallback:
  assumes "requests_get rt (search_request q t) = Inr resp"
    and "status_code resp \<noteq> 200 \<or>
         (\<exists>data. json resp = Inr (PDict data) \<and>
            (map_of data ''products'' = None \<or> map_of data ''products'' = Some (PList [])))"
  shows "nutrition_search_only rt t q = ([search_request q t], Inr could_not_retrieve)"
  using search_stage_none [OF assms] by (simp add: nutrition_search_only_def)

text \<open>
  Claim C4, as amended. When the search answers 200 with at least one product, each copy
  of \<open>get_nutrition_data\<close> returns the first product's name, categories and ingredient
  text, each \<open>"N/A"\<close> when missing, and its nutrient map, the empty dictionary when
  missing, after the search request alone. When the search answers with another status,
  or with no products, the copy in myRecipeAgent2 sends the direct product lookup next and
  returns that product's fields if the lookup answers 200 with status 1, and a failure if
  the lookup answers another status or its request raises; the copies in myRecipeAgent3
  and myRecipeAgent4 return the failure at once, with no second request.
\<close>

theorem nutrition_lookup_stages:
  "(\<forall>p. product_fields (PDict p) =
      Inr (PDict [(''product_name'',
                   case map_of p ''product_name'' of None \<Rightarrow> PStr ''N/A'' | Some v \<Rightarrow> v),
                  (''nutriments'', case map_of p ''nutriments'' of None \<Rightarrow> PDict [] | Some v \<Rightarrow> v),
                  (''categories'',
                   case map_of p ''categories'' of None \<Rightarrow> PStr ''N/A'' | Some v \<Rightarrow> v),
                  (''ingredients_text'',
                   case map_of p ''ingredients_text'' of None \<Rightarrow> PStr ''N/A'' | Some v \<Rightarrow> v)])) \<and>
   (\<forall>resp data product others.
      requests_get rt (search_request q None) = Inr resp \<and> status_code resp = 200 \<and>
      json resp = Inr (PDict data) \<and>
      map_of data ''products'' = Some (PList (PDict product # others)) \<longrightarrow>
      get_nutrition_data rt q = ([search_request q None], product_fields (PDict product)) \<and>
      get_nutrition_data3 rt q = ([search_request q None], product_fields (PDict product))) \<and>
   (\<forall>resp data product others.
      requests_get rt (search_request q (Some 10)) = Inr resp \<and> status_code resp = 200 \<and>
      json resp = Inr (PDict data) \<and>
      map_of data ''products'' = Some (PList (PDict product # others)) \<longrightarrow>
      get_nutrition_data4 rt q = ([search_request q (Some 10)], product_fields (PDict product))) \<and>
   (\<forall>resp.
      requests_get rt (search_request q None) = Inr resp \<and>
      (status_code resp \<noteq> 200 \<or>
       (\<exists>data. json resp = Inr (PDict data) \<and>
          (map_of data ''products'' = None \<or> map_of data ''products'' = Some (PList [])))) \<longrightarrow>
      fst (get_nutrition_data rt q) = [search_request q None, product_request q] \<and>
      (\<forall>r2 body product.
         requests_get rt (product_request q) = Inr r2 \<and> status_code r2 = 200 \<and>
         json r2 = Inr (PDict body) \<and> map_of body ''status'' = Some (PInt 1) \<and>
         map_of body ''product'' = Some (PDict product) \<longrightarrow>
         snd (get_nutrition_data rt q) = product_fields (PDict product)) \<and>
      (\<forall>r2. requests_get rt (product_request q) = Inr r2 \<and> status_code r2 \<noteq> 200 \<longrightarrow>
         snd (get_nutrition_data rt q) = Inr could_not_retrieve) \<and>
      (\<forall>e. requests_get rt (product_request q) = Inl e \<longrightarrow>
         snd (get_nutrition_data rt q) = Inr (api_error e)) \<and>
      get_nutrition_data3 rt q = ([search_request q None], Inr could_not_retrieve)) \<and>
   (\<forall>resp.
      requests_get rt (search_request q (Some 10)) = Inr resp \<and>
      (status_code resp \<noteq> 200 \<or>
       (\<exists>data. json resp = Inr (PDict data) \<and>
          (map_of data ''products'' = None \<or> map_of data ''products'' = Some (PList [])))) \<longrightarrow>
      get_nutrition_data4 rt q = ([search_request q (Some 10)], Inr could_not_retrieve))"
proof (intro conjI allI impI)
  fix p
  show "product_fields (PDict p) =
      Inr (PDict [(''product_name'',
                   case map_of p ''product_name'' of None \<Rightarrow> PStr ''N/A'' | Some v \<Rightarrow> v),
                  (''nutriments'', case map_of p ''nutriments'' of None \<Rightarrow> PDict [] | Some v \<Rightarrow> v),
                  (''categories'',
                   case map_of p ''categories'' of None \<Rightarrow> PStr ''N/A'' | Some v \<Rightarrow> v),
                  (''ingredients_text'',
                   case map_of p ''ingredients_text'' of None \<Rightarrow> PStr ''N/A'' | Some v \<Rightarrow> v)])"
    by (rule product_fields_PDict)
next
  fix resp data product others
  assume "requests_get rt (search_request q None) = Inr resp \<and> status_code resp = 200 \<and>
      json resp = Inr (PDict data) \<and>
      map_of data ''products'' = Some (PList (PDict product # others))"
  then have a: "requests_get rt (search_request q None) = Inr resp" "status_code resp = 200"
    "json resp = Inr (PDict data)"
    "map_of data ''products'' = Some (PList (PDict product # others))"
    by simp_all
  from nutrition_found(1) [OF a]
  show "get_nutrition_data rt q = ([search_request q None], product_fields (PDict product))"
    by simp
  from nutrition_found(2) [OF a]
  show "get_nutrition_data3 rt q = ([search_request q None], product_fields (PDict product))"
    by (simp add: get_nutrition_data3_def)
next
  fix resp data product others
  assume "requests_get rt (search_request q (Some 10)) = Inr resp \<and> status_code resp = 200 \<and>
      json resp = Inr (PDict data) \<and>
      map_of data ''products'' = Some (PList (PDict product # others))"
  then have a: "requests_get rt (search_request q (Some 10)) = Inr resp" "status_code resp = 200"
    "json resp = Inr (PDict data)"
    "map_of data ''products'' = Some (PList (PDict product # others))"
    by simp_all
  from nutrition_found(2) [OF a]
  show "get_nutrition_data4 rt q = ([search_request q (Some 10)], product_fields (PDict product))"
    by (simp add: get_nutrition_data4_def)
next
  fix resp
  assume h: "requests_get rt (search_request q None) = Inr resp \<and>
      (status_code resp \<noteq> 200 \<or>
       (\<exists>data. json resp = Inr (PDict data) \<and>
          (map_of data ''products'' = None \<or> map_of data ''products'' = Some (PList []))))"
  then have a: "requests_get rt (search_request q None) = Inr resp"
    and b: "status_code resp \<noteq> 200 \<or>
       (\<exists>data. json resp = Inr (PDict data) \<and>
          (map_of data ''products'' = None \<or> map_of data ''products'' = Some (PList [])))"
    by simp_all
  note f = nutrition_fallback [OF a b]
  show "fst (get_nutrition_data rt q) = [search_request q None, product_request q]"
    by (simp add: f)
  show "get_nutrition_data3 rt q = ([search_request q None], Inr could_not_retrieve)"
    using nutrition_no_fallback [OF a b] by (simp add: get_nutrition_data3_def)
  {
    fix r2 body product
    assume "requests_get rt (product_request q) = Inr r2 \<and> status_code r2 = 200 \<and>
         json r2 = Inr (PDict body) \<and> map_of body ''status'' = Some (PInt 1) \<and>
         map_of body ''product'' = Some (PDict product)"
    then have "product_stage rt (product_request q) = product_fields (PDict product)"
      by (simp add: product_stage_found)
    then show "snd (get_nutrition_data rt q) = product_fields (PDict product)"
      by (simp add: f product_fields_PDict)
  }
  {
    fix r2
    assume "requests_get rt (product_request q) = Inr r2 \<and> status_code r2 \<noteq> 200"
    then have "product_stage rt (product_request q) = Inr could_not_retrieve"
      by (simp add: product_stage_failed)
    then show "snd (get_nutrition_data rt q) = Inr could_not_retrieve"
      by (simp add: f)
  }
  {
    fix e
    assume "requests_get rt (product_request q) = Inl e"
    then show "snd (get_nutrition_data rt q) = Inr (api_error e)"
      by (simp add: f product_stage_def)
  }
next
  fix resp
  assume h: "requests_get rt (search_request q (Some 10)) = Inr resp \<and>
      (status_code resp \<noteq> 200 \<or>
       (\<exists>data. json resp = Inr (PDict data) \<and>
          (map_of data ''products'' = None \<or> map_of data ''products'' = Some (PList []))))"
  then have a: "requests_get rt (search_request q (Some 10)) = Inr resp"
    and b: "status_code resp \<noteq> 200 \<or>
       (\<exists>data. json resp = Inr (PDict data) \<and>
          (map_of data ''products'' = None \<or> map_of data ''products'' = Some (PList [])))"
    by simp_all
  show "get_nutrition_data4 rt q = ([search_request q (Some 10)], Inr could_not_retrieve)"
    using nutrition_no_fallback [OF a b] by (simp add: get_nutrition_data4_def)
qed

text \<open>
  The claim as stated fails twice: a product without nutriments gets the empty dictionary,
  not \<open>"N/A"\<close>; and on an empty search the copy in myRecipeAgent3 returns the failure
  without the direct lookup that myRecipeAgent2 makes and that would have succeeded.
\<close>

theorem nutrition_claim_counterexample:
  "snd (get_nutrition_data (sample_runtime [(oats_url, ok_response oats_search)]) ''oats'') =
     Inr (PDict [(''product_name'', PStr ''Rolled oats''), (''nutriments'', PDict []),
                 (''categories'', PStr ''N/A''), (''ingredients_text'', PStr ''N/A'')]) \<and>
   PDict [] \<noteq> PStr ''N/A'' \<and>
   get_nutrition_data3
     (sample_runtime [(oats_url, ok_response empty_search),
                      (oats_product_url, ok_response oats_product)]) ''oats'' =
     ([search_request ''oats'' None], Inr could_not_retrieve) \<and>
   get_nutrition_data
     (sample_runtime [(oats_url, ok_response empty_search),
                      (oats_product_url, ok_response oats_product)]) ''oats'' =
     ([search_request ''oats'' None, product_request ''oats''],
      Inr (PDict [(''product_name'', PStr ''Oat flakes''), (''nutriments'', PDict []),
                  (''categories'', PStr ''Cereals''), (''ingredients_text'', PStr ''N/A'')]))"
  by code_simp

theorem nutrition_lookup_stages_witness:
  "get_nutrition_data (sample_runtime [(oats_url, ok_response oats_search)]) ''oats'' =
     ([search_request ''oats'' None],
      Inr (PDict [(''product_name'', PStr ''Rolled oats''), (''nutriments'', PDict []),
                  (''categories'', PStr ''N/A''), (''ingredients_text'', PStr ''N/A'')])) \<and>
   fst (get_nutrition_data
          (sample_runtime [(oats_url, ok_response empty_search),
                           (oats_product_url, ok_response oats_product)]) ''oats'') =
     [search_request ''oats'' None, product_request ''oats''] \<and>
   snd (get_nutrition_data
          (sample_runtime [(oats_url, ok_response empty_search),
                           (oats_product_url, ok_response oats_product)]) ''oats'') =
     Inr (PDict [(''product_name'', PStr ''Oat flakes''), (''nutriments'', PDict []),
                 (''categories'', PStr ''Cereals''), (''ingredients_text'', PStr ''N/A'')]) \<and>
   get_nutrition_data3
     (sample_runtime [(oats_url, ok_response empty_search),
                      (oats_product_url, ok_response oats_product)]) ''oats'' =
     ([search_request ''oats'' None], Inr could_not_retrieve)"
proof -
  let ?a = "sample_runtime [(oats_url, ok_response oats_search)]"
  let ?b = "sample_runtime [(oats_url, ok_response empty_search),
      (oats_product_url, ok_response oats_product)]"
  have u: "url (search_request ''oats'' None) = oats_url"
    "url (product_request ''oats'') = oats_product_url" "oats_product_url \<noteq> oats_url"
    by (simp_all add: search_request_def product_request_def oats_url_def oats_product_url_def)
  have sa: "requests_get ?a (search_request ''oats'' None) = Inr (ok_response oats_search) \<and>
      status_code (ok_response oats_search) = 200 \<and>
      json (ok_response oats_search) =
        Inr (PDict [(''products'', PList [PDict [(''product_name'', PStr ''Rolled oats'')]])]) \<and>
      map_of [(''products'', PList [PDict [(''product_name'', PStr ''Rolled oats'')]])] ''products'' =
        Some (PList (PDict [(''product_name'', PStr ''Rolled oats'')] # []))"
    using u by (simp add: web_def ok_response_def oats_search_def)
  from nutrition_lookup_stages [of ?a "''oats''"] sa
  have "get_nutrition_data ?a ''oats'' =
      ([search_request ''oats'' None],
       product_fields (PDict [(''product_name'', PStr ''Rolled oats'')]))"
    by blast
  then have w1: "get_nutrition_data ?a ''oats'' =
     ([search_request ''oats'' None],
      Inr (PDict [(''product_name'', PStr ''Rolled oats''), (''nutriments'', PDict []),
                  (''categories'', PStr ''N/A''), (''ingredients_text'', PStr ''N/A'')]))"
    by (simp add: product_fields_def)
  have sb: "requests_get ?b (search_request ''oats'' None) = Inr (ok_response empty_search) \<and>
      (status_code (ok_response empty_search) \<noteq> 200 \<or>
       (\<exists>data. json (ok_response empty_search) = Inr (PDict data) \<and>
          (map_of data ''products'' = None \<or> map_of data ''products'' = Some (PList []))))"
    using u by (simp add: web_def ok_response_def empty_search_def)
  have pb: "requests_get ?b (product_request ''oats'') = Inr (ok_response oats_product) \<and>
      status_code (ok_response oats_product) = 200 \<and>
      json (ok_response oats_product) =
        Inr (PDict [(''status'', PInt 1),
                    (''product'',
                     PDict [(''product_name'', PStr ''Oat flakes''),
                            (''categories'', PStr ''Cereals'')])]) \<and>
      map_of [(''status'', PInt 1),
              (''product'',
               PDict [(''product_name'', PStr ''Oat flakes''), (''categories'', PStr ''Cereals'')])]
        ''status'' = Some (PInt 1) \<and>
      map_of [(''status'', PInt 1),
              (''product'',
               PDict [(''product_name'', PStr ''Oat flakes''), (''categories'', PStr ''Cereals'')])]
        ''product'' =
        Some (PDict [(''product_name'', PStr ''Oat flakes''), (''categories'', PStr ''Cereals'')])"
    using u by (simp add: web_def ok_response_def oats_product_def)
  note inst = nutrition_lookup_stages [of ?b "''oats''"]
  from inst sb have w2: "fst (get_nutrition_data ?b ''oats'') =
      [search_request ''oats'' None, product_request ''oats'']"
    and w4: "get_nutrition_data3 ?b ''oats'' = ([search_request ''oats'' None], Inr could_not_retrieve)"
    by blast+
  from inst sb pb have "snd (get_nutrition_data ?b ''oats'') =
      product_fields (PDict [(''product_name'', PStr ''Oat flakes''), (''categories'', PStr ''Cereals'')])"
    by blast
  then have w3: "snd (get_nutrition_data ?b ''oats'') =
     Inr (PDict [(''product_name'', PStr ''Oat flakes''), (''nutriments'', PDict []),
                 (''categories'', PStr ''Cereals''), (''ingredients_text'', PStr ''N/A'')])"
    by (simp add: product_fields_def)
  from w1 w2 w3 w4 show ?thesis by simp
qed

end
